(* ===== verification/Prelude.thy ===== *)
theory Prelude
  imports Main
begin

text \<open>
  Shared vocabulary of the development: the identifier and time types of the model,
  the time constants the code writes in seconds, the row-wise update and delete
  combinators that the SQL statements of the code are translated into, and the
  generic list lemmas the component theories share.

  Times are Python \<open>datetime\<close> values read as integers of microseconds since the
  epoch (UTC): \<open>timedelta.total_seconds()\<close> compares exactly against the integer
  thresholds of the sweeper at microsecond resolution, so the comparisons of the code
  are kept exact.
\<close>

named_theorems world_simps
  "equations that evaluate the model's external calls on concrete states"
named_theorems ledger_simps
  "equations of the ledger's row operations"

type_synonym uid = nat   \<comment> \<open>Telegram user id\<close>
type_synonym sid = nat   \<comment> \<open>subscription row id (SQLite rowid)\<close>
type_synonym kid = nat   \<comment> \<open>Outline access-key id\<close>
type_synonym time = int  \<comment> \<open>microseconds since the epoch, UTC\<close>

definition secs :: "int \<Rightarrow> time" where
  "secs n = n * 1000000"

definition days :: "int \<Rightarrow> time" where
  "days d = secs (d * 86400)"

text \<open>
  The exceptions the code raises or receives from its collaborators: a failed provider
  call, a failed Telegram send (to a user), a violated \<open>UNIQUE\<close> constraint of
  SQLite, a Python \<open>ValueError\<close> (tuple unpacking, \<open>int()\<close>), a trapped
  \<open>decimal.InvalidOperation\<close> and an \<open>IndexError\<close> of a list subscript.
\<close>

datatype exn = ProviderError | SendError uid | IntegrityError | ValueError | InvalidOperation
  | IndexError

subsection \<open>Row-wise updates: \<open>UPDATE ... WHERE\<close> and \<open>DELETE ... WHERE\<close>\<close>

definition update_where :: "('a \<Rightarrow> bool) \<Rightarrow> ('a \<Rightarrow> 'a) \<Rightarrow> 'a list \<Rightarrow> 'a list" where
  "update_where P f xs = map (\<lambda>x. if P x then f x else x) xs"

definition delete_where :: "('a \<Rightarrow> bool) \<Rightarrow> 'a list \<Rightarrow> 'a list" where
  "delete_where P xs = filter (\<lambda>x. \<not> P x) xs"

subsection \<open>Python lists\<close>

text \<open>\<open>xs[i]\<close> with a non-negative index: out of range it raises.\<close>

definition py_index :: "'a list \<Rightarrow> nat \<Rightarrow> exn + 'a" where
  "py_index xs i = (if i < length xs then Inr (xs ! i) else Inl IndexError)"

text \<open>\<open>xs.insert(i, x)\<close> with a non-negative index (past the end it appends).\<close>

definition py_insert :: "nat \<Rightarrow> 'a \<Rightarrow> 'a list \<Rightarrow> 'a list" where
  "py_insert i x xs = take i xs @ x # drop i xs"

section \<open>Properties\<close>

lemma secs_mono_iff [simp]: "secs a < secs b \<longleftrightarrow> a < b" "secs a \<le> secs b \<longleftrightarrow> a \<le> b"
  by (simp_all add: secs_def)

lemma secs_pos_iff [simp]: "0 < secs a \<longleftrightarrow> 0 < a" "secs a \<le> 0 \<longleftrightarrow> a \<le> 0"
  by (simp_all add: secs_def zero_less_mult_iff mult_le_0_iff)

lemma update_where_simps [simp]:
  "update_where P f [] = []"
  "update_where P f (x # xs) = (if P x then f x else x) # update_where P f xs"
  by (simp_all add: update_where_def)

lemma delete_where_simps [simp]:
  "delete_where P [] = []"
  "delete_where P (x # xs) = (if P x then delete_where P xs else x # delete_where P xs)"
  by (simp_all add: delete_where_def)

lemma map_update_where_keep:
  "(\<And>x. g (f x) = g x) \<Longrightarrow> map g (update_where P f xs) = map g xs"
  by (induction xs) auto

lemma set_delete_where [simp]: "set (delete_where P xs) = {x \<in> set xs. \<not> P x}"
  by (auto simp: delete_where_def)

lemma set_update_where:
  "set (update_where P f xs) = {f x |x. x \<in> set xs \<and> P x} \<union> {x \<in> set xs. \<not> P x}"
  by (auto simp: update_where_def)

lemma update_where_none [simp]:
  "(\<forall>x\<in>set xs. \<not> P x) \<Longrightarrow> update_where P f xs = xs"
  by (induction xs) auto

lemma delete_where_none [simp]:
  "(\<forall>x\<in>set xs. \<not> P x) \<Longrightarrow> delete_where P xs = xs"
  by (induction xs) auto

lemma distinct_map_delete_where:
  "distinct (map g xs) \<Longrightarrow> distinct (map g (delete_where P xs))"
  by (simp add: delete_where_def distinct_map_filter)

lemma update_where_mem:
  "y \<in> set (update_where P f xs) \<Longrightarrow> \<exists>x\<in>set xs. y = (if P x then f x else x)"
  by (auto simp: update_where_def)

lemma delete_where_subset: "set (delete_where P xs) \<subseteq> set xs"
  by auto

lemma update_where_only:
  "(\<forall>x\<in>set xs. \<not> P x) \<Longrightarrow> (\<forall>x\<in>set ys. \<not> P x) \<Longrightarrow> P y \<Longrightarrow>
   update_where P f (xs @ y # ys) = xs @ f y # ys"
  by (induction xs) auto

lemma delete_where_only:
  "(\<forall>x\<in>set xs. \<not> P x) \<Longrightarrow> (\<forall>x\<in>set ys. \<not> P x) \<Longrightarrow> P y \<Longrightarrow>
   delete_where P (xs @ y # ys) = xs @ ys"
  by (simp add: delete_where_def)

lemma map_filter_append [simp]:
  "List.map_filter f (xs @ ys) = List.map_filter f xs @ List.map_filter f ys"
  by (induction xs) (auto split: option.splits)

lemma set_map_filter: "set (List.map_filter f xs) = {y. \<exists>x\<in>set xs. f x = Some y}"
  by (induction xs) (auto split: option.splits)

lemma filter_filter_conj: "filter P (filter Q xs) = filter (\<lambda>x. Q x \<and> P x) xs"
  by (induction xs) auto

lemma filter_mem_imp [simp]: "filter (\<lambda>x. f x \<in> f ` set xs \<longrightarrow> P x) xs = filter P xs"
  by (rule filter_cong) auto

lemma image_filter_mem [simp]: "f ` {x \<in> A. f x \<in> B} = f ` A \<inter> B"
  by auto

lemma map_delete_where_subset: "set (map g (delete_where P xs)) \<subseteq> set (map g xs)"
  by auto

lemma find_SomeD: "find P xs = Some x \<Longrightarrow> P x \<and> x \<in> set xs"
  by (induction xs) (auto split: if_splits)

lemma find_snoc_none: "(\<forall>x\<in>set xs. \<not> P x) \<Longrightarrow> P y \<Longrightarrow> find P (xs @ [y]) = Some y"
  by (induction xs) auto

lemma py_index_Inr_iff: "py_index xs i = Inr y \<longleftrightarrow> i < length xs \<and> xs ! i = y"
  by (auto simp: py_index_def)

lemma py_index_Cons [simp]:
  "py_index [] i = Inl IndexError"
  "py_index (x # xs) 0 = Inr x"
  "py_index (x # xs) (Suc i) = py_index xs i"
  by (simp_all add: py_index_def)

lemma py_insert_set [simp]: "set (py_insert i x xs) = insert x (set xs)"
  by (metis py_insert_def append_take_drop_id set_append Un_insert_right list.set(2))

end
