(* ===== verification/Ledger.thy ===== *)
theory Ledger
  imports Prelude
begin

text \<open>
  The Ledger Store: the SQLite tables \<open>subscriptions\<close>, \<open>test_usage\<close> and
  \<open>purchase_history\<close>. The module \<open>db.py\<close> that implements
  \<open>save_subscription\<close>, \<open>extend_subscription\<close>, \<open>delete_subscription\<close>,
  \<open>save_purchase_history\<close> and \<open>get_subscriptions\<close> is imported by the sources
  but not part of them; those operations are modelled from the specification (sections
  3, 4.1 and 6). The SQL statements written inline in \<open>tasks.py\<close> and
  \<open>telegram_bot.py\<close> are modelled from the source. The \<open>UNIQUE\<close> constraints
  on \<open>key_id\<close> and \<open>operation_id\<close> are the \<open>IntegrityError\<close> branches of the
  inserting operations. The theory defines the well-formedness invariant of the ledger
  and proves that every operation keeps it.
\<close>

record subscription =
  sub_id :: sid
  user_id :: uid
  key_id :: kid
  access_url :: string
  expires_at :: time
  notified_5_days :: bool
  notified_1_day :: bool
  notified_expired :: bool

datatype purchase_kind = New_subscription | Renew_subscription

record purchase =
  p_user :: uid
  p_amount :: int       \<comment> \<open>kopecks: the matched plan price\<close>
  p_period :: nat       \<comment> \<open>days\<close>
  p_kind :: purchase_kind
  p_label :: string
  p_operation_id :: string
  p_recorded_at :: time

record ledger =
  subs :: "subscription list"
  test_usage :: "(uid \<times> time) list"
  purchases :: "purchase list"
  next_id :: sid        \<comment> \<open>the next rowid \<open>AUTOINCREMENT\<close> hands out\<close>

subsection \<open>Operations of \<open>db.py\<close> (from the specification)\<close>

definition save_subscription ::
  "uid \<Rightarrow> kid \<Rightarrow> string \<Rightarrow> time \<Rightarrow> time \<Rightarrow> ledger \<Rightarrow> exn + ledger" where
  "save_subscription u k url dur now L =
     (if k \<in> set (map key_id (subs L)) then Inl IntegrityError
      else Inr (L\<lparr>subs := subs L @ [\<lparr>sub_id = next_id L, user_id = u, key_id = k,
                    access_url = url, expires_at = now + dur, notified_5_days = False,
                    notified_1_day = False, notified_expired = False\<rparr>],
                 next_id := Suc (next_id L)\<rparr>))"

text \<open>
  \<open>extend_subscription(user_id, sub_id, days)\<close>: the specification names the
  operation but not its filter; the row updated is the one with both ids the webhook
  passes.
\<close>

definition extend_subscription :: "uid \<Rightarrow> sid \<Rightarrow> nat \<Rightarrow> ledger \<Rightarrow> ledger" where
  "extend_subscription u s d L =
     L\<lparr>subs := update_where (\<lambda>r. sub_id r = s \<and> user_id r = u)
                 (\<lambda>r. r\<lparr>expires_at := expires_at r + days (int d)\<rparr>) (subs L)\<rparr>"

definition delete_subscription :: "sid \<Rightarrow> uid \<Rightarrow> ledger \<Rightarrow> ledger" where
  "delete_subscription s u L =
     L\<lparr>subs := delete_where (\<lambda>r. sub_id r = s \<and> user_id r = u) (subs L)\<rparr>"

definition save_purchase_history ::
  "uid \<Rightarrow> int \<Rightarrow> nat \<Rightarrow> purchase_kind \<Rightarrow> string \<Rightarrow> string \<Rightarrow> time \<Rightarrow> ledger \<Rightarrow> exn + ledger" where
  "save_purchase_history u amt d kind lbl op now L =
     (if op \<in> set (map p_operation_id (purchases L)) then Inl IntegrityError
      else Inr (L\<lparr>purchases := purchases L @ [\<lparr>p_user = u, p_amount = amt, p_period = d,
                    p_kind = kind, p_label = lbl, p_operation_id = op, p_recorded_at = now\<rparr>]\<rparr>))"

definition get_subscriptions :: "uid \<Rightarrow> ledger \<Rightarrow> subscription list" where
  "get_subscriptions u L = filter (\<lambda>r. user_id r = u) (subs L)"

subsection \<open>SQL statements of the sources\<close>

definition set_notified_5_days :: "sid \<Rightarrow> ledger \<Rightarrow> ledger" where
  "set_notified_5_days s L =
     L\<lparr>subs := update_where (\<lambda>r. sub_id r = s) (\<lambda>r. r\<lparr>notified_5_days := True\<rparr>) (subs L)\<rparr>"

definition set_notified_1_day :: "sid \<Rightarrow> ledger \<Rightarrow> ledger" where
  "set_notified_1_day s L =
     L\<lparr>subs := update_where (\<lambda>r. sub_id r = s) (\<lambda>r. r\<lparr>notified_1_day := True\<rparr>) (subs L)\<rparr>"

definition set_notified_expired :: "sid \<Rightarrow> ledger \<Rightarrow> ledger" where
  "set_notified_expired s L =
     L\<lparr>subs := update_where (\<lambda>r. sub_id r = s) (\<lambda>r. r\<lparr>notified_expired := True\<rparr>) (subs L)\<rparr>"

definition db_key_ids :: "ledger \<Rightarrow> kid list" where
  "db_key_ids L = map key_id (subs L)"

definition delete_rows_with_key :: "kid \<Rightarrow> ledger \<Rightarrow> ledger" where
  "delete_rows_with_key k L = L\<lparr>subs := delete_where (\<lambda>r. key_id r = k) (subs L)\<rparr>"

definition has_used_test :: "uid \<Rightarrow> ledger \<Rightarrow> bool" where
  "has_used_test u L \<longleftrightarrow> 0 < length (filter (\<lambda>t. fst t = u) (test_usage L))"

definition add_test_usage :: "uid \<Rightarrow> time \<Rightarrow> ledger \<Rightarrow> ledger" where
  "add_test_usage u now L = L\<lparr>test_usage := test_usage L @ [(u, now)]\<rparr>"

definition operation_processed :: "string \<Rightarrow> ledger \<Rightarrow> bool" where
  "operation_processed op L \<longleftrightarrow> 0 < length (filter (\<lambda>p. p_operation_id p = op) (purchases L))"

subsection \<open>Well-formedness and row evolution\<close>

text \<open>
  The ledger invariant: row ids are distinct and below the next rowid, the
  \<open>key_id\<close> column is unique (its constraint), and so is \<open>operation_id\<close>.
\<close>

definition ledger_wf :: "ledger \<Rightarrow> bool" where
  "ledger_wf L \<longleftrightarrow> distinct (map sub_id (subs L)) \<and> (\<forall>r\<in>set (subs L). sub_id r < next_id L)
     \<and> distinct (map key_id (subs L)) \<and> distinct (map p_operation_id (purchases L))"

text \<open>A row's notification flags only go from false to true.\<close>

definition flags_le :: "subscription \<Rightarrow> subscription \<Rightarrow> bool" where
  "flags_le r r' \<longleftrightarrow> (notified_5_days r \<longrightarrow> notified_5_days r') \<and>
     (notified_1_day r \<longrightarrow> notified_1_day r') \<and> (notified_expired r \<longrightarrow> notified_expired r')"

text \<open>
  \<open>rows_evolve L L'\<close>: every row of \<open>L'\<close> is a row of \<open>L\<close> with the same id, owner,
  key and expiry, whose flags have only been raised. The sweeper's and the
  reconciliation's statements keep it; inserting or extending rows does not.
\<close>

definition rows_evolve :: "ledger \<Rightarrow> ledger \<Rightarrow> bool" where
  "rows_evolve L L' \<longleftrightarrow> (\<forall>r'\<in>set (subs L'). \<exists>r\<in>set (subs L). sub_id r' = sub_id r \<and>
     user_id r' = user_id r \<and> key_id r' = key_id r \<and> expires_at r' = expires_at r \<and> flags_le r r')"

section \<open>Properties\<close>

lemmas ledger_ops [ledger_simps] = save_subscription_def extend_subscription_def
  delete_subscription_def save_purchase_history_def set_notified_5_days_def
  set_notified_1_day_def set_notified_expired_def delete_rows_with_key_def add_test_usage_def

subsection \<open>Each operation keeps the invariant\<close>

lemma ledger_wf_save_subscription:
  assumes "ledger_wf L" and "save_subscription u k url dur now L = Inr L'"
  shows "ledger_wf L'"
proof -
  from assms(2) have k: "k \<notin> set (map key_id (subs L))"
    and L': "L' = L\<lparr>subs := subs L @ [\<lparr>sub_id = next_id L, user_id = u, key_id = k,
                    access_url = url, expires_at = now + dur, notified_5_days = False,
                    notified_1_day = False, notified_expired = False\<rparr>],
                 next_id := Suc (next_id L)\<rparr>"
    by (auto simp: save_subscription_def split: if_splits)
  from assms(1) have "next_id L \<notin> set (map sub_id (subs L))"
    by (auto simp: ledger_wf_def)
  with assms(1) k show ?thesis
    by (auto simp: L' ledger_wf_def less_Suc_eq)
qed

lemma save_subscription_Inr_iff:
  "(\<exists>L'. save_subscription u k url dur now L = Inr L') \<longleftrightarrow> k \<notin> set (db_key_ids L)"
  by (simp add: save_subscription_def db_key_ids_def)

lemma ledger_wf_extend_subscription: "ledger_wf L \<Longrightarrow> ledger_wf (extend_subscription u s d L)"
  by (auto simp: ledger_wf_def extend_subscription_def map_update_where_keep dest!: update_where_mem)

lemma ledger_wf_delete_subscription: "ledger_wf L \<Longrightarrow> ledger_wf (delete_subscription s u L)"
  by (auto simp: ledger_wf_def delete_subscription_def distinct_map_delete_where)

lemma ledger_wf_save_purchase_history:
  "ledger_wf L \<Longrightarrow> save_purchase_history u amt d kind lbl op now L = Inr L' \<Longrightarrow> ledger_wf L'"
  by (auto simp: ledger_wf_def save_purchase_history_def split: if_splits)

lemma ledger_wf_set_flags:
  "ledger_wf L \<Longrightarrow> ledger_wf (set_notified_5_days s L)"
  "ledger_wf L \<Longrightarrow> ledger_wf (set_notified_1_day s L)"
  "ledger_wf L \<Longrightarrow> ledger_wf (set_notified_expired s L)"
  by (auto simp: ledger_wf_def set_notified_5_days_def set_notified_1_day_def
      set_notified_expired_def map_update_where_keep dest!: update_where_mem)

lemma ledger_wf_delete_rows_with_key: "ledger_wf L \<Longrightarrow> ledger_wf (delete_rows_with_key k L)"
  by (auto simp: ledger_wf_def delete_rows_with_key_def distinct_map_delete_where)

lemma ledger_wf_add_test_usage: "ledger_wf L \<Longrightarrow> ledger_wf (add_test_usage u now L)"
  by (simp add: ledger_wf_def add_test_usage_def)

lemmas ledger_wf_ops [intro] = ledger_wf_extend_subscription ledger_wf_delete_subscription
  ledger_wf_set_flags ledger_wf_delete_rows_with_key ledger_wf_add_test_usage

subsection \<open>Row evolution\<close>

lemma flags_le_refl [simp]: "flags_le r r"
  by (simp add: flags_le_def)

lemma rows_evolve_refl [simp]: "rows_evolve L L"
  by (auto simp: rows_evolve_def)

lemma rows_evolve_trans: "rows_evolve L1 L2 \<Longrightarrow> rows_evolve L2 L3 \<Longrightarrow> rows_evolve L1 L3"
  unfolding rows_evolve_def flags_le_def by metis

lemma rows_evolve_set_flags:
  "rows_evolve L (set_notified_5_days s L)"
  "rows_evolve L (set_notified_1_day s L)"
  "rows_evolve L (set_notified_expired s L)"
  by (force simp: rows_evolve_def flags_le_def set_notified_5_days_def set_notified_1_day_def
      set_notified_expired_def dest!: update_where_mem)+

lemma rows_evolve_deletes:
  "rows_evolve L (delete_subscription s u L)"
  "rows_evolve L (delete_rows_with_key k L)"
  by (auto simp: rows_evolve_def delete_subscription_def delete_rows_with_key_def)

lemma rows_evolve_same_subs: "subs L' = subs L \<Longrightarrow> rows_evolve L L'"
  by (auto simp: rows_evolve_def)

lemmas rows_evolve_ops [intro] = rows_evolve_set_flags rows_evolve_deletes

subsection \<open>Functional behaviour\<close>

lemma extend_subscription_row:
  assumes "r \<in> set (subs L)" and "sub_id r = s" and "user_id r = u"
  shows "r\<lparr>expires_at := expires_at r + days (int d)\<rparr> \<in> set (subs (extend_subscription u s d L))"
  using assms by (auto simp: extend_subscription_def update_where_def)

lemma extend_subscription_other:
  "r \<in> set (subs L) \<Longrightarrow> \<not> (sub_id r = s \<and> user_id r = u) \<Longrightarrow>
   r \<in> set (subs (extend_subscription u s d L))"
  by (force simp: extend_subscription_def update_where_def)

lemma purchases_unchanged [simp]:
  "purchases (extend_subscription u s d L) = purchases L"
  "purchases (delete_subscription s u L) = purchases L"
  "purchases (set_notified_5_days s L) = purchases L"
  "purchases (set_notified_1_day s L) = purchases L"
  "purchases (set_notified_expired s L) = purchases L"
  "purchases (delete_rows_with_key k L) = purchases L"
  "purchases (add_test_usage u now L) = purchases L"
  by (simp_all add: ledger_ops)

lemma db_key_ids_set_flags [simp]:
  "db_key_ids (set_notified_5_days s L) = db_key_ids L"
  "db_key_ids (set_notified_1_day s L) = db_key_ids L"
  "db_key_ids (set_notified_expired s L) = db_key_ids L"
  by (simp_all add: db_key_ids_def set_notified_5_days_def set_notified_1_day_def
      set_notified_expired_def map_update_where_keep)

lemma rows_evolve_same_key:
  assumes "rows_evolve L0 L" and "distinct (map key_id (subs L0))" and "r \<in> set (subs L0)"
    and "x \<in> set (subs L)" and "key_id x = key_id r"
  shows "sub_id x = sub_id r \<and> user_id x = user_id r"
proof -
  from assms(1,4) obtain x0 where x0: "x0 \<in> set (subs L0)" "sub_id x = sub_id x0"
    "user_id x = user_id x0" "key_id x = key_id x0"
    by (auto simp: rows_evolve_def)
  with assms(2,3,5) have "x0 = r" by (metis distinct_map inj_on_eq_iff)
  with x0 show ?thesis by simp
qed

lemma rows_evolve_same_id:
  assumes "rows_evolve L0 L" and "distinct (map sub_id (subs L0))" and "r \<in> set (subs L0)"
    and "x \<in> set (subs L)" and "sub_id x = sub_id r"
  shows "user_id x = user_id r \<and> key_id x = key_id r"
proof -
  from assms(1,4) obtain x0 where x0: "x0 \<in> set (subs L0)" "sub_id x = sub_id x0"
    "user_id x = user_id x0" "key_id x = key_id x0"
    by (auto simp: rows_evolve_def)
  with assms(2,3,5) have "x0 = r" by (metis distinct_map inj_on_eq_iff)
  with x0 show ?thesis by simp
qed

lemma operation_processed_iff: "operation_processed op L \<longleftrightarrow> op \<in> set (map p_operation_id (purchases L))"
  by (auto simp: operation_processed_def filter_empty_conv)

lemma has_used_test_iff: "has_used_test u L \<longleftrightarrow> u \<in> fst ` set (test_usage L)"
  by (force simp: has_used_test_def filter_empty_conv)

end
