(* ===== verification/PyStr.thy ===== *)
theory PyStr
  imports Prelude
begin

text \<open>
  The Python string built-ins the handlers apply to labels, amounts and callback data:
  \<open>str.split(sep)\<close> with a one-character separator, \<open>sep.join\<close>,
  \<open>str.isdigit\<close>, \<open>int\<close> on a digit string, \<open>str(n)\<close> of a natural number,
  \<open>str.startswith\<close>, \<open>str.replace\<close> of one character and \<open>str.strip()\<close>.
  Characters are Latin-1 code points (\<open>char\<close> is a byte), so \<open>str.isdigit\<close>
  (\<open>py_str_isdigit\<close>, which also accepts the superscript digits) and
  \<open>str.isspace\<close> are the Unicode predicates restricted to code points below 256, and
  \<open>py_isdigit\<close> is the narrower set of decimal digits that \<open>int()\<close> reads.
  The theory proves the round trips the payment labels rely on: splitting a joined
  list, joining a split string, and reading back a printed number.
\<close>

subsection \<open>Splitting and joining\<close>

text \<open>\<open>s.split(c)\<close>: the pieces between the occurrences of \<open>c\<close>, always at least one.\<close>

fun py_split :: "char \<Rightarrow> string \<Rightarrow> string list" where
  "py_split c [] = [[]]"
| "py_split c (x # xs) =
     (let ps = py_split c xs in if x = c then [] # ps else (x # hd ps) # tl ps)"

text \<open>\<open>c.join(ps)\<close>.\<close>

fun py_join :: "char \<Rightarrow> string list \<Rightarrow> string" where
  "py_join c [] = []"
| "py_join c [p] = p"
| "py_join c (p # q # ps) = p @ c # py_join c (q # ps)"

subsection \<open>Digits and numbers\<close>

definition is_digit :: "char \<Rightarrow> bool" where
  "is_digit ch \<longleftrightarrow> 48 \<le> (of_char ch :: nat) \<and> (of_char ch :: nat) \<le> 57"

text \<open>
  A non-empty string of decimal digits, the strings \<open>int()\<close> and \<open>Decimal()\<close> read:
  below code point 256 the only characters of Unicode category Nd are the ASCII digits.
\<close>

definition py_isdigit :: "string \<Rightarrow> bool" where
  "py_isdigit s \<longleftrightarrow> s \<noteq> [] \<and> list_all is_digit s"

text \<open>
  \<open>str.isdigit()\<close>: non-empty and every character a digit in Python's wider sense,
  which below code point 256 adds the superscripts two, three and one (U+00B2, U+00B3,
  U+00B9); \<open>int()\<close> raises \<open>ValueError\<close> on those.
\<close>

definition is_str_digit :: "char \<Rightarrow> bool" where
  "is_str_digit ch \<longleftrightarrow> is_digit ch \<or> (of_char ch :: nat) \<in> {178, 179, 185}"

definition py_str_isdigit :: "string \<Rightarrow> bool" where
  "py_str_isdigit s \<longleftrightarrow> s \<noteq> [] \<and> list_all is_str_digit s"

definition digit_val :: "char \<Rightarrow> nat" where
  "digit_val ch = (of_char ch :: nat) - 48"

text \<open>\<open>int(s)\<close> on a string of decimal digits (\<open>py_isdigit\<close>).\<close>

definition py_int :: "string \<Rightarrow> nat" where
  "py_int s = foldl (\<lambda>n ch. 10 * n + digit_val ch) 0 s"

definition digit_char :: "nat \<Rightarrow> char" where
  "digit_char d = char_of (48 + d)"

text \<open>\<open>str(n)\<close> of a natural number.\<close>

fun py_str :: "nat \<Rightarrow> string" where
  "py_str n = (if n < 10 then [digit_char n] else py_str (n div 10) @ [digit_char (n mod 10)])"

declare py_str.simps [simp del]

subsection \<open>Prefixes, replacement, stripping\<close>

definition py_startswith :: "string \<Rightarrow> string \<Rightarrow> bool" where
  "py_startswith s p \<longleftrightarrow> take (length p) s = p"

definition py_replace :: "char \<Rightarrow> char \<Rightarrow> string \<Rightarrow> string" where
  "py_replace a b s = map (\<lambda>x. if x = a then b else x) s"

text \<open>\<open>str.isspace\<close> on code points below 256.\<close>

definition py_isspace :: "char \<Rightarrow> bool" where
  "py_isspace ch \<longleftrightarrow> (of_char ch :: nat) \<in> {9, 10, 11, 12, 13, 28, 29, 30, 31, 32, 133, 160}"

definition py_strip :: "string \<Rightarrow> string" where
  "py_strip s = rev (dropWhile py_isspace (rev (dropWhile py_isspace s)))"

text \<open>\<open>str(i)\<close> of an integer.\<close>

definition py_str_int :: "int \<Rightarrow> string" where
  "py_str_int i = (if i < 0 then CHR ''-'' # py_str (nat (- i)) else py_str (nat i))"

text \<open>
  \<open>int(s)\<close> on any string: surrounding whitespace, an optional sign and at least one
  digit; anything else raises \<open>ValueError\<close>. (Underscores between digit groups,
  which Python also accepts, are not modelled.)
\<close>

definition py_int_parse :: "string \<Rightarrow> exn + int" where
  "py_int_parse s =
     (case py_strip s of
        [] \<Rightarrow> Inl ValueError
      | c # ds \<Rightarrow>
          (if c = CHR ''-'' \<and> py_isdigit ds then Inr (- int (py_int ds))
           else if c = CHR ''+'' \<and> py_isdigit ds then Inr (int (py_int ds))
           else if py_isdigit (c # ds) then Inr (int (py_int (c # ds)))
           else Inl ValueError))"

section \<open>Properties\<close>

subsection \<open>Split and join\<close>

lemma py_split_nonempty [simp]: "py_split c s \<noteq> []"
  by (induction s) (auto simp: Let_def)

lemma py_join_Cons_Cons: "py_join c ((x # p) # ps) = x # py_join c (p # ps)"
  by (cases ps) auto

lemma py_join_Nil_Cons: "ps \<noteq> [] \<Longrightarrow> py_join c ([] # ps) = c # py_join c ps"
  by (cases ps) auto

theorem py_join_split: "py_join c (py_split c s) = s"
proof (induction s)
  case Nil
  then show ?case by simp
next
  case (Cons x xs)
  have ne: "py_split c xs \<noteq> []" by simp
  then obtain p ps where sp: "py_split c xs = p # ps" by (cases "py_split c xs") auto
  show ?case
  proof (cases "x = c")
    case True
    with ne Cons.IH show ?thesis by (simp add: py_join_Nil_Cons)
  next
    case False
    with sp Cons.IH show ?thesis by (simp add: py_join_Cons_Cons)
  qed
qed

lemma py_split_no_sep: "c \<notin> set s \<Longrightarrow> py_split c s = [s]"
  by (induction s) auto

lemma py_split_append_sep:
  "c \<notin> set p \<Longrightarrow> py_split c (p @ c # s) = p # py_split c s"
proof (induction p)
  case Nil
  then show ?case by simp
next
  case (Cons x p)
  then have "x \<noteq> c" and "c \<notin> set p" by auto
  with Cons.IH show ?case by (simp add: Let_def)
qed

theorem py_split_join:
  "ps \<noteq> [] \<Longrightarrow> (\<forall>p\<in>set ps. c \<notin> set p) \<Longrightarrow> py_split c (py_join c ps) = ps"
proof (induction c ps rule: py_join.induct)
  case (1 c)
  then show ?case by simp
next
  case (2 c p)
  then show ?case by (simp add: py_split_no_sep)
next
  case (3 c p q ps)
  then show ?case by (simp add: py_split_append_sep)
qed

lemma length_py_split: "length (py_split c s) = Suc (count_list s c)"
  by (induction s) (auto simp: Let_def)

subsection \<open>Numbers\<close>

lemma of_char_digit_char [simp]: "d < 10 \<Longrightarrow> of_char (digit_char d) = 48 + d"
  by (simp add: digit_char_def of_char_of)

lemma is_digit_digit_char [simp]: "d < 10 \<Longrightarrow> is_digit (digit_char d)"
  by (simp add: is_digit_def)

lemma digit_val_digit_char [simp]: "d < 10 \<Longrightarrow> digit_val (digit_char d) = d"
  by (simp add: digit_val_def)

lemma digit_char_eq_iff: "d < 10 \<Longrightarrow> digit_char d = c \<longleftrightarrow> of_char c = 48 + d"
  by (metis of_char_digit_char of_char_eq_iff)

lemma char_of_eq_iff: "n < 256 \<Longrightarrow> char_of n = c \<longleftrightarrow> of_char c = (n :: nat)"
  by (metis char_of_char mod_less of_char_of)

lemma eq_digit_char_iff: "d < 10 \<Longrightarrow> c = digit_char d \<longleftrightarrow> of_char c = 48 + d"
  by (metis digit_char_eq_iff)

lemma py_int_snoc: "py_int (s @ [ch]) = 10 * py_int s + digit_val ch"
  by (simp add: py_int_def)

lemma py_str_digits: "py_str n \<noteq> [] \<and> list_all is_digit (py_str n)"
proof (induction n rule: py_str.induct)
  case (1 n)
  then show ?case by (auto simp: py_str.simps [of n])
qed

lemma py_isdigit_py_str [simp]: "py_isdigit (py_str n)"
  using py_str_digits by (simp add: py_isdigit_def)

lemma py_isdigit_str_isdigit: "py_isdigit s \<Longrightarrow> py_str_isdigit s"
  by (auto simp: py_isdigit_def py_str_isdigit_def is_str_digit_def list_all_iff)

lemma py_str_isdigit_py_str [simp]: "py_str_isdigit (py_str n)"
  by (rule py_isdigit_str_isdigit) simp

theorem py_int_py_str [simp]: "py_int (py_str n) = n"
proof (induction n rule: py_str.induct)
  case (1 n)
  show ?case
  proof (cases "n < 10")
    case True
    then show ?thesis by (subst py_str.simps) (simp add: py_int_def)
  next
    case False
    with "1.IH" show ?thesis by (subst py_str.simps) (simp add: py_int_snoc)
  qed
qed

lemma is_digit_not_underscore: "is_digit ch \<Longrightarrow> ch \<noteq> CHR ''_''"
  by (auto simp: is_digit_def)

lemma py_str_no_underscore [simp]: "CHR ''_'' \<notin> set (py_str n)"
  using py_str_digits[of n] by (auto simp: list_all_iff dest: is_digit_not_underscore)

lemma py_startswith_append [simp]: "py_startswith (p @ s) p"
  by (simp add: py_startswith_def)

subsection \<open>Parsing integers\<close>

lemma is_digit_not_space: "is_digit c \<Longrightarrow> \<not> py_isspace c"
  by (auto simp: is_digit_def py_isspace_def)

lemma py_strip_no_space:
  assumes "list_all (\<lambda>c. \<not> py_isspace c) s"
  shows "py_strip s = s"
proof -
  have d: "\<And>t. list_all (\<lambda>c. \<not> py_isspace c) t \<Longrightarrow> dropWhile py_isspace t = t"
    by (case_tac t) auto
  show ?thesis using assms by (simp add: py_strip_def d)
qed

lemma py_str_no_space: "list_all (\<lambda>c. \<not> py_isspace c) (py_str n)"
  using py_str_digits[of n] by (auto simp: list_all_iff is_digit_not_space)

lemma py_strip_py_str [simp]: "py_strip (py_str n) = py_str n"
  by (rule py_strip_no_space[OF py_str_no_space])

lemma py_str_not_sign: "py_str n = c # ds \<Longrightarrow> c \<noteq> CHR ''-'' \<and> c \<noteq> CHR ''+''"
  using py_str_digits[of n] by (auto simp: is_digit_def)

theorem py_int_parse_py_str [simp]: "py_int_parse (py_str n) = Inr (int n)"
proof -
  obtain c ds where s: "py_str n = c # ds" using py_str_digits[of n] by (cases "py_str n") auto
  then have "py_isdigit (c # ds)" using py_isdigit_py_str[of n] by simp
  then show ?thesis using s py_str_not_sign[OF s] py_int_py_str[of n] py_strip_py_str[of n]
    by (simp add: py_int_parse_def)
qed

theorem py_int_parse_py_str_int [simp]: "py_int_parse (py_str_int i) = Inr i"
proof (cases "i < 0")
  case True
  have "py_strip (CHR ''-'' # py_str (nat (- i))) = CHR ''-'' # py_str (nat (- i))"
    using py_str_no_space[of "nat (- i)"] by (intro py_strip_no_space) (simp add: py_isspace_def)
  then show ?thesis using True by (simp add: py_str_int_def py_int_parse_def)
next
  case False
  then show ?thesis by (simp add: py_str_int_def)
qed

lemma py_str_int_nat [simp]: "py_str_int (int n) = py_str n"
  by (simp add: py_str_int_def)

end
