(* ===== verification/Services.thy ===== *)
theory Services
  imports Ledger PyStr
begin

text \<open>
  The collaborators the program calls and the world they live in. The Outline server
  (the \<open>outline_vpn\<close> library's \<open>OutlineVPN\<close> client: \<open>create_key\<close>,
  \<open>rename_key\<close>, \<open>get_key\<close>, \<open>delete_key\<close>, \<open>get_keys\<close>) and the Telegram sink
  (\<open>bot.send_message\<close>) are not part of the sources; they are modelled at the
  interface of section 6 of the specification. Every call may fail: the world carries a
  fault script, a list of booleans of which each external call consumes the head, and
  the call raises when the head is \<open>True\<close>. A theorem quantified over all fault
  scripts covers every pattern of failures; \<open>faults w = []\<close> is a run where nothing
  fails. The one operation of the sources here is \<open>create_vpn_key_with_name\<close> of
  \<open>vpn_manager.py\<close>, which catches every failure and returns \<open>None\<close>.
\<close>

record okey =
  ok_id :: kid
  ok_name :: string
  ok_url :: string

record remote =
  rkeys :: "okey list"
  next_key :: kid

text \<open>The messages the program sends through \<open>bot.send_message\<close>.\<close>

datatype msg =
    Msg_5_days                \<comment> \<open>"5 days left", with a renewal button\<close>
  | Msg_1_day                 \<comment> \<open>"1 day left", with a renewal button\<close>
  | Msg_expired               \<comment> \<open>"subscription expired, key deleted"\<close>
  | Msg_delete_failed kid     \<comment> \<open>"error deleting your key ..., contact support"\<close>
  | Msg_wrong_amount          \<comment> \<open>"wrong payment amount received"\<close>
  | Msg_renewed nat           \<comment> \<open>"payment received, extended by ... days"\<close>
  | Msg_paid                  \<comment> \<open>"payment received! your key:"\<close>
  | Msg_access_url string     \<comment> \<open>the key's access URL, with an instruction button\<close>
  | Msg_key_error             \<comment> \<open>"error creating the VPN key"\<close>
  | Msg_trial_used            \<comment> \<open>"you have already used the test period"\<close>
  | Msg_trial_key             \<comment> \<open>"your test key:"\<close>
  | Msg_trial_valid           \<comment> \<open>"the key is valid for 1 hour"\<close>
  | Msg_trial_error           \<comment> \<open>"an error occurred creating the test subscription"\<close>
  | Msg_trial_failed          \<comment> \<open>"could not create a test key"\<close>

record world =
  ledger :: ledger
  remote :: remote
  outbox :: "(uid \<times> msg) list"
  faults :: "bool list"

type_synonym outcome = "(exn \<times> world) + world"
type_synonym 'a result = "(exn \<times> world) + ('a \<times> world)"

definition next_fault :: "world \<Rightarrow> bool \<times> world" where
  "next_fault w = (case faults w of [] \<Rightarrow> (False, w) | f # fs \<Rightarrow> (f, w\<lparr>faults := fs\<rparr>))"

definition remote_key_ids :: "world \<Rightarrow> kid list" where
  "remote_key_ids w = map ok_id (rkeys (remote w))"

text \<open>
  The guarantee of section 4.1: every key the ledger holds exists on the server (a
  crash may leave a server key with no row, never a row whose key is gone).
\<close>

definition keys_consistent :: "world \<Rightarrow> bool" where
  "keys_consistent w \<longleftrightarrow> set (db_key_ids (ledger w)) \<subseteq> set (remote_key_ids w)"

text \<open>
  The provider hands out fresh ids: every key on the server has an id below the next
  one \<open>create_key\<close> returns.
\<close>

definition remote_wf :: "world \<Rightarrow> bool" where
  "remote_wf w \<longleftrightarrow> (\<forall>x\<in>set (rkeys (remote w)). ok_id x < next_key (remote w))"

text \<open>
  The invariant of the whole world that every component keeps: the ledger is
  well formed, its keys exist on the server, and the server's ids are fresh.
\<close>

definition world_inv :: "world \<Rightarrow> bool" where
  "world_inv w \<longleftrightarrow> ledger_wf (ledger w) \<and> keys_consistent w \<and> remote_wf w"

definition outcome_world :: "outcome \<Rightarrow> world" where
  "outcome_world r = (case r of Inl (e, w) \<Rightarrow> w | Inr w \<Rightarrow> w)"

subsection \<open>The Outline server\<close>

definition key_url :: "kid \<Rightarrow> string" where
  "key_url k = ''ss://'' @ py_str k"

definition create_key :: "world \<Rightarrow> okey result" where
  "create_key w =
     (let (f, w1) = next_fault w in
      if f then Inl (ProviderError, w1)
      else let k = \<lparr>ok_id = next_key (remote w1), ok_name = [], ok_url = key_url (next_key (remote w1))\<rparr>
           in Inr (k, w1\<lparr>remote := \<lparr>rkeys = rkeys (remote w1) @ [k],
                                    next_key = Suc (next_key (remote w1))\<rparr>\<rparr>))"

definition rename_key :: "kid \<Rightarrow> string \<Rightarrow> world \<Rightarrow> outcome" where
  "rename_key k nm w =
     (let (f, w1) = next_fault w in
      if f then Inl (ProviderError, w1)
      else Inr (w1\<lparr>remote := (remote w1)\<lparr>rkeys :=
                  update_where (\<lambda>x. ok_id x = k) (\<lambda>x. x\<lparr>ok_name := nm\<rparr>) (rkeys (remote w1))\<rparr>\<rparr>))"

definition get_key :: "kid \<Rightarrow> world \<Rightarrow> okey result" where
  "get_key k w =
     (let (f, w1) = next_fault w in
      if f then Inl (ProviderError, w1)
      else (case find (\<lambda>x. ok_id x = k) (rkeys (remote w1)) of
              None \<Rightarrow> Inl (ProviderError, w1)
            | Some x \<Rightarrow> Inr (x, w1)))"

definition delete_key :: "kid \<Rightarrow> world \<Rightarrow> outcome" where
  "delete_key k w =
     (let (f, w1) = next_fault w in
      if f then Inl (ProviderError, w1)
      else Inr (w1\<lparr>remote := (remote w1)\<lparr>rkeys := delete_where (\<lambda>x. ok_id x = k) (rkeys (remote w1))\<rparr>\<rparr>))"

definition get_keys :: "world \<Rightarrow> okey list result" where
  "get_keys w = (let (f, w1) = next_fault w in
                 if f then Inl (ProviderError, w1) else Inr (rkeys (remote w1), w1))"

subsection \<open>The Telegram sink\<close>

definition send_message :: "uid \<Rightarrow> msg \<Rightarrow> world \<Rightarrow> outcome" where
  "send_message u m w =
     (let (f, w1) = next_fault w in
      if f then Inl (SendError u, w1) else Inr (w1\<lparr>outbox := outbox w1 @ [(u, m)]\<rparr>))"

subsection \<open>\<open>vpn_manager.create_vpn_key_with_name\<close>\<close>

text \<open>
  The key's name embeds the user id and the current time's ISO string, which the caller
  reads from the clock and passes as \<open>stamp\<close>. A failure after \<open>create_key\<close>
  succeeded leaves the new key on the server: the function returns \<open>None\<close> but does not
  delete it.
\<close>

definition key_name :: "uid \<Rightarrow> string \<Rightarrow> string" where
  "key_name u stamp = ''User_'' @ py_str u @ ''_'' @ stamp"

definition create_vpn_key_with_name :: "uid \<Rightarrow> string \<Rightarrow> world \<Rightarrow> okey option \<times> world" where
  "create_vpn_key_with_name u stamp w =
     (case create_key w of
        Inl (_, w1) \<Rightarrow> (None, w1)
      | Inr (k, w1) \<Rightarrow>
          (case rename_key (ok_id k) (key_name u stamp) w1 of
             Inl (_, w2) \<Rightarrow> (None, w2)
           | Inr w2 \<Rightarrow>
               (case get_key (ok_id k) w2 of
                  Inl (_, w3) \<Rightarrow> (None, w3)
                | Inr (k', w3) \<Rightarrow> (Some k', w3))))"

section \<open>Properties\<close>

lemma next_fault_Nil [simp]: "faults w = [] \<Longrightarrow> next_fault w = (False, w)"
  by (simp add: next_fault_def)

lemma next_fault_Cons [simp]: "faults w = f # fs \<Longrightarrow> next_fault w = (f, w\<lparr>faults := fs\<rparr>)"
  by (simp add: next_fault_def)

lemma next_fault_frame [simp]:
  "ledger (snd (next_fault w)) = ledger w" "remote (snd (next_fault w)) = remote w"
  "outbox (snd (next_fault w)) = outbox w"
  by (simp_all add: next_fault_def split: list.splits)

lemma next_fault_frameD:
  "next_fault w = (f, w1) \<Longrightarrow> ledger w1 = ledger w \<and> remote w1 = remote w \<and> outbox w1 = outbox w"
  by (auto simp: next_fault_def split: list.splits)

lemma next_fault_NilD: "next_fault w = (f, w1) \<Longrightarrow> faults w = [] \<Longrightarrow> \<not> f \<and> w1 = w"
  by (simp add: next_fault_def)

lemmas service_defs [world_simps] = create_key_def rename_key_def get_key_def delete_key_def
  get_keys_def send_message_def

subsection \<open>Frames: what each call leaves alone\<close>

lemma ledger_send_message:
  "send_message u m w = Inr w' \<Longrightarrow> ledger w' = ledger w \<and> remote w' = remote w"
  "send_message u m w = Inl (e, w') \<Longrightarrow> ledger w' = ledger w \<and> remote w' = remote w \<and> outbox w' = outbox w"
  by (auto simp: send_message_def split: prod.splits if_splits dest: next_fault_frameD)

lemma ledger_delete_key:
  "delete_key k w = Inr w' \<Longrightarrow> ledger w' = ledger w \<and> outbox w' = outbox w"
  "delete_key k w = Inl (e, w') \<Longrightarrow> ledger w' = ledger w \<and> remote w' = remote w \<and> outbox w' = outbox w"
  by (auto simp: delete_key_def split: prod.splits if_splits dest: next_fault_frameD)

lemma delete_key_keys:
  assumes "delete_key k w = Inr w'"
  shows "set (remote_key_ids w') = set (remote_key_ids w) - {k}"
proof -
  obtain w1 where "next_fault w = (False, w1)"
    and w': "w' = w1\<lparr>remote := (remote w1)\<lparr>rkeys := delete_where (\<lambda>x. ok_id x = k) (rkeys (remote w1))\<rparr>\<rparr>"
    using assms by (auto simp: delete_key_def split: prod.splits if_splits)
  then have "remote w1 = remote w" by (auto dest: next_fault_frameD)
  then show ?thesis by (auto simp: w' remote_key_ids_def)
qed

lemma ledger_get_keys:
  "get_keys w = Inr (ks, w') \<Longrightarrow> ledger w' = ledger w \<and> remote w' = remote w \<and> outbox w' = outbox w \<and> ks = rkeys (remote w)"
  "get_keys w = Inl (e, w') \<Longrightarrow> ledger w' = ledger w \<and> remote w' = remote w \<and> outbox w' = outbox w"
  by (auto simp: get_keys_def split: prod.splits if_splits dest: next_fault_frameD)

subsection \<open>Calls that succeed when nothing fails\<close>

lemma send_message_ok:
  "faults w = [] \<Longrightarrow> send_message u m w = Inr (w\<lparr>outbox := outbox w @ [(u, m)]\<rparr>)"
  by (simp add: send_message_def)

lemma delete_key_ok:
  "faults w = [] \<Longrightarrow> delete_key k w =
     Inr (w\<lparr>remote := (remote w)\<lparr>rkeys := delete_where (\<lambda>x. ok_id x = k) (rkeys (remote w))\<rparr>\<rparr>)"
  by (simp add: delete_key_def)

lemma get_keys_ok: "faults w = [] \<Longrightarrow> get_keys w = Inr (rkeys (remote w), w)"
  by (simp add: get_keys_def)

lemma send_message_fails: "faults w = True # fs \<Longrightarrow> send_message u m w = Inl (SendError u, w\<lparr>faults := fs\<rparr>)"
  by (simp add: send_message_def)

lemma delete_key_fails: "faults w = True # fs \<Longrightarrow> delete_key k w = Inl (ProviderError, w\<lparr>faults := fs\<rparr>)"
  by (simp add: delete_key_def)

lemma get_keys_fails: "faults w = True # fs \<Longrightarrow> get_keys w = Inl (ProviderError, w\<lparr>faults := fs\<rparr>)"
  by (simp add: get_keys_def)

lemma faults_after_ok:
  "faults w = [] \<Longrightarrow> send_message u m w = Inr w' \<Longrightarrow> faults w' = []"
  "faults w = [] \<Longrightarrow> delete_key k w = Inr w' \<Longrightarrow> faults w' = []"
  by (auto simp: send_message_def delete_key_def dest: next_fault_NilD split: prod.splits if_splits)

subsection \<open>Frames of \<open>create_vpn_key_with_name\<close>\<close>

lemma create_key_frame:
  "create_key w = Inl (e, w1) \<Longrightarrow> ledger w1 = ledger w \<and> remote w1 = remote w \<and> outbox w1 = outbox w"
  "create_key w = Inr (k, w1) \<Longrightarrow> ledger w1 = ledger w \<and> outbox w1 = outbox w \<and>
     rkeys (remote w1) = rkeys (remote w) @ [k] \<and> ok_id k = next_key (remote w) \<and>
     next_key (remote w1) = Suc (next_key (remote w))"
  by (auto simp: create_key_def Let_def split: prod.splits if_splits dest: next_fault_frameD)

lemma rename_key_frame:
  "rename_key k nm w = Inl (e, w1) \<Longrightarrow> ledger w1 = ledger w \<and> remote w1 = remote w \<and> outbox w1 = outbox w"
  "rename_key k nm w = Inr w1 \<Longrightarrow> ledger w1 = ledger w \<and> outbox w1 = outbox w \<and>
     map ok_id (rkeys (remote w1)) = map ok_id (rkeys (remote w)) \<and> next_key (remote w1) = next_key (remote w)"
  by (auto simp: rename_key_def map_update_where_keep split: prod.splits if_splits dest: next_fault_frameD)

lemma get_key_frame:
  "get_key k w = Inl (e, w1) \<Longrightarrow> ledger w1 = ledger w \<and> remote w1 = remote w \<and> outbox w1 = outbox w"
  "get_key k w = Inr (x, w1) \<Longrightarrow> ledger w1 = ledger w \<and> remote w1 = remote w \<and> outbox w1 = outbox w \<and>
     ok_id x = k \<and> x \<in> set (rkeys (remote w))"
  by (auto simp: get_key_def split: prod.splits if_splits option.splits dest!: next_fault_frameD find_SomeD)

lemma remote_wf_ids: "remote_wf w \<longleftrightarrow> (\<forall>i\<in>set (remote_key_ids w). i < next_key (remote w))"
  by (auto simp: remote_wf_def remote_key_ids_def)

lemma create_vpn_key_with_name_frame:
  assumes "create_vpn_key_with_name u st w = (ko, w1)"
  shows "ledger w1 = ledger w \<and> outbox w1 = outbox w \<and> set (remote_key_ids w) \<subseteq> set (remote_key_ids w1) \<and>
    (\<forall>k. ko = Some k \<longrightarrow> ok_id k \<in> set (remote_key_ids w1)) \<and> (remote_wf w \<longrightarrow> remote_wf w1)"
proof (cases "create_key w")
  case (Inl a)
  then obtain e wa where "create_key w = Inl (e, wa)" by (cases a) auto
  with assms show ?thesis
    by (auto simp: create_vpn_key_with_name_def remote_key_ids_def remote_wf_def dest: create_key_frame(1))
next
  case (Inr b)
  then obtain k wa where c: "create_key w = Inr (k, wa)" by (cases b) auto
  note ca = create_key_frame(2)[OF c]
  have ida: "set (remote_key_ids wa) = insert (ok_id k) (set (remote_key_ids w))"
    using ca by (auto simp: remote_key_ids_def)
  have wfa: "remote_wf w \<longrightarrow> remote_wf wa" using ca by (auto simp: remote_wf_ids ida)
  show ?thesis
  proof (cases "rename_key (ok_id k) (key_name u st) wa")
    case (Inl a)
    then obtain e wb where r: "rename_key (ok_id k) (key_name u st) wa = Inl (e, wb)" by (cases a) auto
    with assms c have "w1 = wb \<and> ko = None" by (simp add: create_vpn_key_with_name_def)
    with rename_key_frame(1)[OF r] ca ida wfa show ?thesis by (auto simp: remote_wf_ids remote_key_ids_def)
  next
    case (Inr wb)
    note r = this
    note rb = rename_key_frame(2)[OF r]
    have idb: "set (remote_key_ids wb) = set (remote_key_ids wa)"
      using rb by (simp add: remote_key_ids_def)
    have wfb: "remote_wf wa \<longrightarrow> remote_wf wb" using rb idb by (simp add: remote_wf_ids)
    show ?thesis
    proof (cases "get_key (ok_id k) wb")
      case (Inl a)
      then obtain e wc where g: "get_key (ok_id k) wb = Inl (e, wc)" by (cases a) auto
      with assms c r have "w1 = wc \<and> ko = None" by (simp add: create_vpn_key_with_name_def)
      with get_key_frame(1)[OF g] ca rb ida idb wfa wfb show ?thesis
        by (auto simp: remote_wf_ids remote_key_ids_def)
    next
      case (Inr b)
      then obtain x wc where g: "get_key (ok_id k) wb = Inr (x, wc)" by (cases b) auto
      with assms c r have "w1 = wc \<and> ko = Some x" by (simp add: create_vpn_key_with_name_def)
      with get_key_frame(2)[OF g] ca rb ida idb wfa wfb show ?thesis
        by (auto simp: remote_wf_ids remote_key_ids_def)
    qed
  qed
qed

lemma create_vpn_key_with_name_ok:
  assumes "faults w = []" "remote_wf w"
  shows "create_vpn_key_with_name u st w =
    (Some \<lparr>ok_id = next_key (remote w), ok_name = key_name u st, ok_url = key_url (next_key (remote w))\<rparr>,
     w\<lparr>remote := \<lparr>rkeys = rkeys (remote w) @ [\<lparr>ok_id = next_key (remote w), ok_name = key_name u st,
        ok_url = key_url (next_key (remote w))\<rparr>], next_key = Suc (next_key (remote w))\<rparr>\<rparr>)"
proof -
  have fresh: "\<forall>x\<in>set (rkeys (remote w)). ok_id x \<noteq> next_key (remote w)"
    using assms(2) by (auto simp: remote_wf_def)
  then show ?thesis using assms(1)
    by (simp add: create_vpn_key_with_name_def service_defs Let_def
      update_where_only[where ys = "[]", simplified] find_snoc_none)
qed

subsection \<open>The world invariant across the calls\<close>

lemma world_inv_send_message:
  "world_inv w \<Longrightarrow> send_message u m w = Inr w' \<Longrightarrow> world_inv w'"
  "world_inv w \<Longrightarrow> send_message u m w = Inl (e, w') \<Longrightarrow> world_inv w'"
  by (auto simp: world_inv_def keys_consistent_def remote_key_ids_def remote_wf_def
      dest!: ledger_send_message)

lemma world_inv_create_vpn_key:
  "create_vpn_key_with_name u st w = (ko, w1) \<Longrightarrow> world_inv w \<Longrightarrow>
     world_inv w1 \<and> ledger w1 = ledger w \<and> (\<forall>k. ko = Some k \<longrightarrow> ok_id k \<in> set (remote_key_ids w1))"
  by (drule create_vpn_key_with_name_frame) (auto simp: world_inv_def keys_consistent_def)

lemma world_inv_ledger_step:
  "world_inv w \<Longrightarrow> ledger_wf L \<Longrightarrow> set (db_key_ids L) \<subseteq> set (remote_key_ids w) \<Longrightarrow>
     world_inv (w\<lparr>ledger := L\<rparr>)"
  by (auto simp: world_inv_def keys_consistent_def remote_key_ids_def remote_wf_def)

lemma fresh_key:
  "keys_consistent w \<Longrightarrow> remote_wf w \<Longrightarrow> next_key (remote w) \<notin> set (map key_id (subs (ledger w)))"
  by (auto simp: keys_consistent_def remote_wf_ids db_key_ids_def)

end
