(* ===== verification/Sweeper.thy ===== *)
theory Sweeper
  imports Services
begin

text \<open>
  The Lifecycle Sweeper, \<open>check_subscriptions\<close> of \<open>tasks.py\<close>. One cycle reads
  every row of \<open>subscriptions\<close> once (a snapshot) and runs, for each row in turn, the
  first of three branches whose condition holds on the time left: the 5-day notice, the
  1-day notice, and the teardown of an expired subscription. A failed notice is logged
  and leaves the flags alone; a failed teardown is answered with an error message to the
  user, and a failure of that message escapes the loop and ends the task. The cycle is
  \<open>sweep_rows\<close> over the snapshot; the \<open>while True\<close> loop with its one-hour sleep is
  \<open>sweeper_loop\<close>, one cycle per element of a list of start times, stopped by the first
  escaping exception. The clock is read once per cycle (the code reads it once per row;
  a cycle takes far less than the one-second resolution of the thresholds' windows).

  The theory states the abstract behaviour of a cycle without failures,
  \<open>sweep_spec\<close>, a map over the rows, and proves that the code refines it; the
  exactly-once notification, the teardown and the crash path follow.
\<close>

subsection \<open>Branch conditions (\<open>tasks.py\<close> lines 30, 49, 68)\<close>

definition fires_5_days :: "time \<Rightarrow> subscription \<Rightarrow> bool" where
  "fires_5_days now r \<longleftrightarrow>
     secs 345600 < expires_at r - now \<and> expires_at r - now \<le> secs 432000 \<and> \<not> notified_5_days r"

definition fires_1_day :: "time \<Rightarrow> subscription \<Rightarrow> bool" where
  "fires_1_day now r \<longleftrightarrow>
     0 < expires_at r - now \<and> expires_at r - now \<le> secs 86400 \<and> \<not> notified_1_day r"

definition fires_expiry :: "time \<Rightarrow> subscription \<Rightarrow> bool" where
  "fires_expiry now r \<longleftrightarrow> expires_at r - now \<le> 0 \<and> \<not> notified_expired r"

subsection \<open>One row, one cycle, the loop\<close>

text \<open>
  The \<open>try\<close> block of the expiry branch: delete the key on the server, delete the
  row, tell the user, then set \<open>notified_expired\<close> on the row that was just deleted.
\<close>

definition expire_teardown :: "subscription \<Rightarrow> world \<Rightarrow> outcome" where
  "expire_teardown r w =
     (case delete_key (key_id r) w of
        Inl e \<Rightarrow> Inl e
      | Inr w1 \<Rightarrow>
          (let w2 = w1\<lparr>ledger := delete_subscription (sub_id r) (user_id r) (ledger w1)\<rparr> in
           case send_message (user_id r) Msg_expired w2 of
             Inl e \<Rightarrow> Inl e
           | Inr w3 \<Rightarrow> Inr (w3\<lparr>ledger := set_notified_expired (sub_id r) (ledger w3)\<rparr>)))"

definition sweep_sub :: "time \<Rightarrow> subscription \<Rightarrow> world \<Rightarrow> outcome" where
  "sweep_sub now r w =
     (if fires_5_days now r then
        (case send_message (user_id r) Msg_5_days w of
           Inl (_, w1) \<Rightarrow> Inr w1
         | Inr w1 \<Rightarrow> Inr (w1\<lparr>ledger := set_notified_5_days (sub_id r) (ledger w1)\<rparr>))
      else if fires_1_day now r then
        (case send_message (user_id r) Msg_1_day w of
           Inl (_, w1) \<Rightarrow> Inr w1
         | Inr w1 \<Rightarrow> Inr (w1\<lparr>ledger := set_notified_1_day (sub_id r) (ledger w1)\<rparr>))
      else if fires_expiry now r then
        (case expire_teardown r w of
           Inr w1 \<Rightarrow> Inr w1
         | Inl (_, w1) \<Rightarrow> send_message (user_id r) (Msg_delete_failed (key_id r)) w1)
      else Inr w)"

fun sweep_rows :: "time \<Rightarrow> subscription list \<Rightarrow> world \<Rightarrow> outcome" where
  "sweep_rows now [] w = Inr w"
| "sweep_rows now (r # rs) w =
     (case sweep_sub now r w of Inl e \<Rightarrow> Inl e | Inr w1 \<Rightarrow> sweep_rows now rs w1)"

definition check_subscriptions_cycle :: "time \<Rightarrow> world \<Rightarrow> outcome" where
  "check_subscriptions_cycle now w = sweep_rows now (subs (ledger w)) w"

fun sweeper_loop :: "time list \<Rightarrow> world \<Rightarrow> outcome" where
  "sweeper_loop [] w = Inr w"
| "sweeper_loop (t # ts) w =
     (case check_subscriptions_cycle t w of Inl e \<Rightarrow> Inl e | Inr w1 \<Rightarrow> sweeper_loop ts w1)"

subsection \<open>The abstract cycle\<close>

text \<open>
  What a cycle does to one row when nothing fails: the row with its flag raised, or no
  row (torn down), or the row unchanged; and the messages it sends.
\<close>

definition sweep_row :: "time \<Rightarrow> subscription \<Rightarrow> subscription option" where
  "sweep_row now r =
     (if fires_5_days now r then Some (r\<lparr>notified_5_days := True\<rparr>)
      else if fires_1_day now r then Some (r\<lparr>notified_1_day := True\<rparr>)
      else if fires_expiry now r then None
      else Some r)"

definition sweep_row_msgs :: "time \<Rightarrow> subscription \<Rightarrow> (uid \<times> msg) list" where
  "sweep_row_msgs now r =
     (if fires_5_days now r then [(user_id r, Msg_5_days)]
      else if fires_1_day now r then [(user_id r, Msg_1_day)]
      else if fires_expiry now r then [(user_id r, Msg_expired)]
      else [])"

definition expired_keys :: "time \<Rightarrow> subscription list \<Rightarrow> kid set" where
  "expired_keys now rs = set (map key_id (filter (fires_expiry now) rs))"

definition sweep_spec :: "time \<Rightarrow> world \<Rightarrow> world" where
  "sweep_spec now w =
     w\<lparr>ledger := (ledger w)\<lparr>subs := List.map_filter (sweep_row now) (subs (ledger w))\<rparr>,
       remote := (remote w)\<lparr>rkeys := filter (\<lambda>x. ok_id x \<notin> expired_keys now (subs (ledger w)))
                                      (rkeys (remote w))\<rparr>,
       outbox := outbox w @ concat (map (sweep_row_msgs now) (subs (ledger w)))\<rparr>"

definition quiet :: "time \<Rightarrow> subscription \<Rightarrow> bool" where
  "quiet now r \<longleftrightarrow> \<not> fires_5_days now r \<and> \<not> fires_1_day now r \<and> \<not> fires_expiry now r"

definition no_expired_flag :: "ledger \<Rightarrow> bool" where
  "no_expired_flag L \<longleftrightarrow> (\<forall>x\<in>set (subs L). \<not> notified_expired x)"

text \<open>Concrete rows, keys and worlds for the witnesses.\<close>

abbreviation demo_sub :: "sid \<Rightarrow> uid \<Rightarrow> kid \<Rightarrow> time \<Rightarrow> subscription" where
  "demo_sub s u k e \<equiv> \<lparr>sub_id = s, user_id = u, key_id = k, access_url = key_url k, expires_at = e,
     notified_5_days = False, notified_1_day = False, notified_expired = False\<rparr>"

abbreviation demo_key :: "kid \<Rightarrow> okey" where
  "demo_key k \<equiv> \<lparr>ok_id = k, ok_name = [], ok_url = key_url k\<rparr>"

abbreviation demo_world :: "subscription list \<Rightarrow> bool list \<Rightarrow> world" where
  "demo_world rs fs \<equiv> \<lparr>ledger = \<lparr>subs = rs, test_usage = [], purchases = [], next_id = 3\<rparr>,
     remote = \<lparr>rkeys = [demo_key 7, demo_key 8], next_key = 9\<rparr>, outbox = [], faults = fs\<rparr>"

section \<open>Properties\<close>

subsection \<open>The branches\<close>

lemma fires_expiry_excl: "fires_expiry now r \<Longrightarrow> \<not> fires_5_days now r \<and> \<not> fires_1_day now r"
  by (auto simp: fires_expiry_def fires_5_days_def fires_1_day_def secs_def)

lemma fires_5_days_excl: "fires_5_days now r \<Longrightarrow> \<not> fires_1_day now r"
  by (auto simp: fires_5_days_def fires_1_day_def secs_def)

lemma sweep_row_keeps:
  "sweep_row now r = Some r' \<Longrightarrow> sub_id r' = sub_id r \<and> user_id r' = user_id r \<and>
     key_id r' = key_id r \<and> expires_at r' = expires_at r \<and> flags_le r r'"
  by (auto simp: sweep_row_def flags_le_def split: if_splits)

lemma sub_ids_map_filter_sweep_row:
  "set (map sub_id (List.map_filter (sweep_row now) ds)) \<subseteq> set (map sub_id ds)"
  by (force simp: set_map_filter dest: sweep_row_keeps)

subsection \<open>Refinement: a cycle without failures is \<open>sweep_spec\<close>\<close>

lemma sweep_sub_ok:
  assumes ok: "faults w = []" and L: "subs (ledger w) = xs @ r # ys"
    and nx: "sub_id r \<notin> set (map sub_id xs)" and ny: "sub_id r \<notin> set (map sub_id ys)"
  shows "sweep_sub now r w =
    Inr (w\<lparr>ledger := (ledger w)\<lparr>subs := xs @ (case sweep_row now r of None \<Rightarrow> [] | Some r' \<Rightarrow> [r']) @ ys\<rparr>,
           remote := (remote w)\<lparr>rkeys := filter (\<lambda>x. \<not> (fires_expiry now r \<and> ok_id x = key_id r)) (rkeys (remote w))\<rparr>,
           outbox := outbox w @ sweep_row_msgs now r\<rparr>)"
proof -
  have px: "\<forall>x\<in>set xs. sub_id x \<noteq> sub_id r"
    using nx by (metis imageI list.set_map)
  have py: "\<forall>x\<in>set ys. sub_id x \<noteq> sub_id r"
    using ny by (metis imageI list.set_map)
  consider (a) "fires_5_days now r" | (b) "\<not> fires_5_days now r" "fires_1_day now r"
    | (c) "fires_expiry now r" | (d) "quiet now r"
    by (auto simp: quiet_def)
  then show ?thesis
  proof cases
    case a
    have "\<not> fires_expiry now r" using a fires_expiry_excl by blast
    with a show ?thesis using ok L px py fires_5_days_excl[OF a]
      by (simp add: sweep_sub_def sweep_row_def sweep_row_msgs_def send_message_ok
          set_notified_5_days_def update_where_only fires_expiry_excl)
  next
    case b
    have "\<not> fires_expiry now r" using b fires_expiry_excl by blast
    with b show ?thesis using ok L px py
      by (simp add: sweep_sub_def sweep_row_def sweep_row_msgs_def send_message_ok
          set_notified_1_day_def update_where_only fires_expiry_excl)
  next
    case c
    have del: "delete_where (\<lambda>x. sub_id x = sub_id r \<and> user_id x = user_id r) (xs @ r # ys) = xs @ ys"
      using px py by (intro delete_where_only) auto
    have upd: "update_where (\<lambda>x. sub_id x = sub_id r) f (xs @ ys) = xs @ ys" for f
      by (rule update_where_none) (use px py in auto)
    from c show ?thesis using ok L fires_expiry_excl[OF c]
      by (simp add: sweep_sub_def sweep_row_def sweep_row_msgs_def expire_teardown_def
          send_message_ok delete_key_ok delete_subscription_def set_notified_expired_def del upd
          delete_where_def [of "\<lambda>x. ok_id x = key_id r"])
  next
    case d
    then show ?thesis using L
      by (simp add: sweep_sub_def sweep_row_def sweep_row_msgs_def quiet_def)
  qed
qed

lemma expired_keys_Cons:
  "expired_keys now (r # rs) = (if fires_expiry now r then insert (key_id r) (expired_keys now rs) else expired_keys now rs)"
  by (simp add: expired_keys_def)

lemma sweep_rows_refines:
  assumes "faults w = []" and "subs (ledger w) = List.map_filter (sweep_row now) ds @ rs"
    and "distinct (map sub_id (ds @ rs))"
  shows "sweep_rows now rs w =
    Inr (w\<lparr>ledger := (ledger w)\<lparr>subs := List.map_filter (sweep_row now) (ds @ rs)\<rparr>,
           remote := (remote w)\<lparr>rkeys := filter (\<lambda>x. ok_id x \<notin> expired_keys now rs) (rkeys (remote w))\<rparr>,
           outbox := outbox w @ concat (map (sweep_row_msgs now) rs)\<rparr>)"
  using assms
proof (induction rs arbitrary: ds w)
  case Nil
  then show ?case by (simp add: expired_keys_def)
next
  case (Cons r rs)
  let ?xs = "List.map_filter (sweep_row now) ds"
  have nx: "sub_id r \<notin> set (map sub_id ?xs)"
    using Cons.prems(3) sub_ids_map_filter_sweep_row[of now ds] by auto
  have ny: "sub_id r \<notin> set (map sub_id rs)"
    using Cons.prems(3) by simp
  let ?w1 = "w\<lparr>ledger := (ledger w)\<lparr>subs := ?xs @ (case sweep_row now r of None \<Rightarrow> [] | Some r' \<Rightarrow> [r']) @ rs\<rparr>,
           remote := (remote w)\<lparr>rkeys := filter (\<lambda>x. \<not> (fires_expiry now r \<and> ok_id x = key_id r)) (rkeys (remote w))\<rparr>,
           outbox := outbox w @ sweep_row_msgs now r\<rparr>"
  have step: "sweep_sub now r w = Inr ?w1"
    using sweep_sub_ok[OF Cons.prems(1,2) nx ny] .
  have L1: "subs (ledger ?w1) = List.map_filter (sweep_row now) (ds @ [r]) @ rs"
    by (simp split: option.splits)
  have "sweep_rows now rs ?w1 =
    Inr (?w1\<lparr>ledger := (ledger ?w1)\<lparr>subs := List.map_filter (sweep_row now) ((ds @ [r]) @ rs)\<rparr>,
           remote := (remote ?w1)\<lparr>rkeys := filter (\<lambda>x. ok_id x \<notin> expired_keys now rs) (rkeys (remote ?w1))\<rparr>,
           outbox := outbox ?w1 @ concat (map (sweep_row_msgs now) rs)\<rparr>)"
    by (rule Cons.IH) (use Cons.prems L1 in simp_all)
  with step show ?case
    by (simp add: filter_filter_conj expired_keys_Cons conj_commute)
qed


subsection \<open>Any fault script: what one row can do to the ledger and the server\<close>

lemma expire_teardown_cases:
  assumes "w' = outcome_world (expire_teardown r w)"
  shows "(ledger w' = ledger w \<and> remote w' = remote w \<and> (\<exists>e. expire_teardown r w = Inl (e, w'))) \<or>
         ((ledger w' = delete_subscription (sub_id r) (user_id r) (ledger w) \<or>
           ledger w' = set_notified_expired (sub_id r) (delete_subscription (sub_id r) (user_id r) (ledger w))) \<and>
          set (remote_key_ids w') = set (remote_key_ids w) - {key_id r})"
proof (cases "delete_key (key_id r) w")
  case (Inl a)
  then obtain e w1 where d: "delete_key (key_id r) w = Inl (e, w1)" by (cases a) auto
  then show ?thesis using assms ledger_delete_key(2)[OF d]
    by (simp add: expire_teardown_def outcome_world_def)
next
  case (Inr w1)
  note keys = delete_key_keys[OF Inr] and fr = ledger_delete_key(1)[OF Inr]
  let ?w2 = "w1\<lparr>ledger := delete_subscription (sub_id r) (user_id r) (ledger w1)\<rparr>"
  have k2: "set (remote_key_ids ?w2) = set (remote_key_ids w) - {key_id r}"
    using keys by (simp add: remote_key_ids_def)
  show ?thesis
  proof (cases "send_message (user_id r) Msg_expired ?w2")
    case (Inl a)
    then obtain e w3 where s: "send_message (user_id r) Msg_expired ?w2 = Inl (e, w3)" by (cases a) auto
    then show ?thesis using assms Inr fr k2 ledger_send_message(2)[OF s]
      by (simp add: expire_teardown_def outcome_world_def remote_key_ids_def)
  next
    case (Inr w3)
    then show ?thesis using assms \<open>delete_key (key_id r) w = Inr w1\<close> fr k2 ledger_send_message(1)[OF Inr]
      by (simp add: expire_teardown_def outcome_world_def remote_key_ids_def)
  qed
qed

lemma send_message_outcome:
  "ledger (outcome_world (send_message u m w)) = ledger w \<and> remote (outcome_world (send_message u m w)) = remote w"
  by (cases "send_message u m w") (auto simp: outcome_world_def dest: ledger_send_message)

lemma notify_branch:
  assumes "w' = outcome_world (case send_message u m w of Inl (_, w1) \<Rightarrow> Inr w1
                                | Inr w1 \<Rightarrow> Inr (w1\<lparr>ledger := f (ledger w1)\<rparr>))"
  shows "remote w' = remote w \<and> (ledger w' = ledger w \<or> ledger w' = f (ledger w))"
proof (cases "send_message u m w")
  case (Inl a)
  then obtain e w1 where "send_message u m w = Inl (e, w1)" by (cases a) auto
  with assms show ?thesis by (auto simp: outcome_world_def dest: ledger_send_message(2))
next
  case (Inr w1)
  with assms show ?thesis by (auto simp: outcome_world_def dest: ledger_send_message(1))
qed

lemma sweep_sub_branches:
  "fires_5_days now r \<Longrightarrow> sweep_sub now r w = (case send_message (user_id r) Msg_5_days w of
        Inl (_, w1) \<Rightarrow> Inr w1 | Inr w1 \<Rightarrow> Inr (w1\<lparr>ledger := set_notified_5_days (sub_id r) (ledger w1)\<rparr>))"
  "\<not> fires_5_days now r \<Longrightarrow> fires_1_day now r \<Longrightarrow> sweep_sub now r w = (case send_message (user_id r) Msg_1_day w of
        Inl (_, w1) \<Rightarrow> Inr w1 | Inr w1 \<Rightarrow> Inr (w1\<lparr>ledger := set_notified_1_day (sub_id r) (ledger w1)\<rparr>))"
  "fires_expiry now r \<Longrightarrow> sweep_sub now r w = (case expire_teardown r w of Inr w1 \<Rightarrow> Inr w1
        | Inl (_, w1) \<Rightarrow> send_message (user_id r) (Msg_delete_failed (key_id r)) w1)"
  "quiet now r \<Longrightarrow> sweep_sub now r w = Inr w"
  subgoal by (simp add: sweep_sub_def)
  subgoal by (simp add: sweep_sub_def)
  subgoal premises p using fires_expiry_excl[OF p] p by (simp add: sweep_sub_def)
  subgoal by (simp add: sweep_sub_def quiet_def)
  done

lemma sweep_sub_expiry_outcome:
  assumes c: "fires_expiry now r"
  shows "ledger (outcome_world (sweep_sub now r w)) = ledger (outcome_world (expire_teardown r w)) \<and>
         remote (outcome_world (sweep_sub now r w)) = remote (outcome_world (expire_teardown r w))"
proof (cases "expire_teardown r w")
  case (Inl a)
  then obtain e w1 where t: "expire_teardown r w = Inl (e, w1)" by (cases a) auto
  then show ?thesis
    using send_message_outcome[of "user_id r" "Msg_delete_failed (key_id r)" w1]
    by (simp add: sweep_sub_branches(3)[OF c] outcome_world_def)
next
  case (Inr w1)
  then show ?thesis by (simp add: sweep_sub_branches(3)[OF c] outcome_world_def)
qed
lemma sweep_sub_cases:
  assumes "w' = outcome_world (sweep_sub now r w)"
  shows "(remote w' = remote w \<and> (ledger w' = ledger w \<or> ledger w' = set_notified_5_days (sub_id r) (ledger w)
             \<or> ledger w' = set_notified_1_day (sub_id r) (ledger w))) \<or>
         ((ledger w' = delete_subscription (sub_id r) (user_id r) (ledger w) \<or>
           ledger w' = set_notified_expired (sub_id r) (delete_subscription (sub_id r) (user_id r) (ledger w))) \<and>
          set (remote_key_ids w') = set (remote_key_ids w) - {key_id r})"
proof -
  consider (a) "fires_5_days now r" | (b) "\<not> fires_5_days now r" "fires_1_day now r"
    | (c) "fires_expiry now r" | (d) "quiet now r"
    by (auto simp: quiet_def)
  then show ?thesis
  proof cases
    case a
    have "remote w' = remote w \<and> (ledger w' = ledger w \<or> ledger w' = set_notified_5_days (sub_id r) (ledger w))"
      by (rule notify_branch) (simp add: assms sweep_sub_branches(1)[OF a])
    then show ?thesis by blast
  next
    case b
    have "remote w' = remote w \<and> (ledger w' = ledger w \<or> ledger w' = set_notified_1_day (sub_id r) (ledger w))"
      by (rule notify_branch) (simp add: assms sweep_sub_branches(2)[OF b])
    then show ?thesis by blast
  next
    case c
    let ?w1 = "outcome_world (expire_teardown r w)"
    have e: "ledger w' = ledger ?w1 \<and> remote w' = remote ?w1"
      using sweep_sub_expiry_outcome[OF c] assms by simp
    then have k: "remote_key_ids w' = remote_key_ids ?w1" by (simp add: remote_key_ids_def)
    from expire_teardown_cases[of ?w1 r w]
    consider "ledger ?w1 = ledger w \<and> remote ?w1 = remote w"
      | "(ledger ?w1 = delete_subscription (sub_id r) (user_id r) (ledger w) \<or>
           ledger ?w1 = set_notified_expired (sub_id r) (delete_subscription (sub_id r) (user_id r) (ledger w))) \<and>
          set (remote_key_ids ?w1) = set (remote_key_ids w) - {key_id r}"
      by blast
    then show ?thesis
    proof cases
      case 1
      then show ?thesis using e by simp
    next
      case 2
      then show ?thesis using e k by simp
    qed
  next
    case d
    then have "w' = w" using assms by (simp add: sweep_sub_branches(4) outcome_world_def)
    then show ?thesis by simp
  qed
qed

lemma sweep_rows_invariant:
  assumes step: "\<And>r w. r \<in> set rs \<Longrightarrow> I w \<Longrightarrow> I (outcome_world (sweep_sub now r w))"
    and "I w"
  shows "I (outcome_world (sweep_rows now rs w))"
  using assms
proof (induction rs arbitrary: w)
  case Nil
  then show ?case by (simp add: outcome_world_def)
next
  case (Cons r rs)
  have "I (outcome_world (sweep_sub now r w))" using Cons.prems by simp
  then show ?case using Cons.IH Cons.prems(1)
    by (cases "sweep_sub now r w") (auto simp: outcome_world_def)
qed

lemma sweep_sub_rows_evolve: "rows_evolve (ledger w) (ledger (outcome_world (sweep_sub now r w)))"
proof -
  have t: "rows_evolve (ledger w) (set_notified_expired s (delete_subscription s u (ledger w)))" for s u
    by (rule rows_evolve_trans[OF rows_evolve_deletes(1) rows_evolve_set_flags(3)])
  show ?thesis using sweep_sub_cases[OF refl, of now r w] t by auto
qed

lemma sweep_sub_ledger_wf:
  assumes wf: "ledger_wf (ledger w)"
  shows "ledger_wf (ledger (outcome_world (sweep_sub now r w)))"
proof -
  let ?L = "ledger w"
  have "ledger_wf (set_notified_5_days (sub_id r) ?L)" "ledger_wf (set_notified_1_day (sub_id r) ?L)"
    "ledger_wf (delete_subscription (sub_id r) (user_id r) ?L)"
    "ledger_wf (set_notified_expired (sub_id r) (delete_subscription (sub_id r) (user_id r) ?L))"
    using wf by (simp_all add: ledger_wf_set_flags ledger_wf_delete_subscription)
  with wf show ?thesis using sweep_sub_cases[OF refl, of now r w] by (elim disjE conjE) simp_all
qed

lemma delete_subscription_keys:
  assumes "rows_evolve L0 L" and "distinct (map key_id (subs L0))" and "r \<in> set (subs L0)"
  shows "set (db_key_ids (delete_subscription (sub_id r) (user_id r) L)) \<subseteq> set (db_key_ids L) - {key_id r}"
  using rows_evolve_same_key[OF assms] by (auto simp: db_key_ids_def delete_subscription_def)

lemma sweep_sub_keys_consistent:
  assumes kc: "keys_consistent w" and "rows_evolve L0 (ledger w)" and "distinct (map key_id (subs L0))"
    and "r \<in> set (subs L0)"
  shows "keys_consistent (outcome_world (sweep_sub now r w))"
proof -
  note del = delete_subscription_keys[OF assms(2-4)]
  from sweep_sub_cases[OF refl, of now r w] show ?thesis
  proof (elim disjE conjE)
    assume "remote (outcome_world (sweep_sub now r w)) = remote w"
      and "ledger (outcome_world (sweep_sub now r w)) = ledger w"
    then show ?thesis using kc by (simp add: keys_consistent_def remote_key_ids_def)
  next
    assume "remote (outcome_world (sweep_sub now r w)) = remote w"
      and "ledger (outcome_world (sweep_sub now r w)) = set_notified_5_days (sub_id r) (ledger w)"
    then show ?thesis using kc by (simp add: keys_consistent_def remote_key_ids_def)
  next
    assume "remote (outcome_world (sweep_sub now r w)) = remote w"
      and "ledger (outcome_world (sweep_sub now r w)) = set_notified_1_day (sub_id r) (ledger w)"
    then show ?thesis using kc by (simp add: keys_consistent_def remote_key_ids_def)
  next
    assume "ledger (outcome_world (sweep_sub now r w)) = delete_subscription (sub_id r) (user_id r) (ledger w)"
      and "set (remote_key_ids (outcome_world (sweep_sub now r w))) = set (remote_key_ids w) - {key_id r}"
    then show ?thesis using kc del by (auto simp: keys_consistent_def)
  next
    assume "ledger (outcome_world (sweep_sub now r w)) =
        set_notified_expired (sub_id r) (delete_subscription (sub_id r) (user_id r) (ledger w))"
      and "set (remote_key_ids (outcome_world (sweep_sub now r w))) = set (remote_key_ids w) - {key_id r}"
    then show ?thesis using kc del by (auto simp: keys_consistent_def)
  qed
qed

lemma set_notified_expired_deleted:
  assumes "rows_evolve L0 L" and "distinct (map sub_id (subs L0))" and "r \<in> set (subs L0)"
  shows "set_notified_expired (sub_id r) (delete_subscription (sub_id r) (user_id r) L) =
         delete_subscription (sub_id r) (user_id r) L"
proof -
  have "\<forall>x\<in>set (delete_where (\<lambda>x. sub_id x = sub_id r \<and> user_id x = user_id r) (subs L)). sub_id x \<noteq> sub_id r"
    using rows_evolve_same_id[OF assms] by auto
  then show ?thesis
    by (simp add: set_notified_expired_def delete_subscription_def)
qed

lemma sweep_sub_no_expired_flag:
  assumes nf: "no_expired_flag (ledger w)" and "rows_evolve L0 (ledger w)" and "distinct (map sub_id (subs L0))"
    and "r \<in> set (subs L0)"
  shows "no_expired_flag (ledger (outcome_world (sweep_sub now r w)))"
proof -
  have keep: "no_expired_flag (set_notified_5_days s L)" "no_expired_flag (set_notified_1_day s L)"
    "no_expired_flag (delete_subscription s u L)" if "no_expired_flag L" for s u L
    using that by (auto simp: no_expired_flag_def set_notified_5_days_def set_notified_1_day_def
      delete_subscription_def update_where_def)
  note noop = set_notified_expired_deleted[OF assms(2-4)]
  from sweep_sub_cases[OF refl, of now r w] show ?thesis
    by (elim disjE conjE) (simp_all add: nf keep noop)
qed


subsection \<open>Exactly once\<close>

lemma sweep_row_quiet: "sweep_row now r = Some r' \<Longrightarrow> quiet now r'"
  by (auto simp: sweep_row_def quiet_def fires_5_days_def fires_1_day_def fires_expiry_def secs_def
      split: if_splits)

lemma quiet_sweep_row: "quiet now r \<Longrightarrow> sweep_row now r = Some r \<and> sweep_row_msgs now r = []"
  by (simp add: quiet_def sweep_row_def sweep_row_msgs_def)

lemma sweep_row_Some_idem:
  assumes "sweep_row now r = Some r'"
  shows "sweep_row now r' = Some r' \<and> sweep_row_msgs now r' = [] \<and> \<not> fires_expiry now r'"
proof -
  have q: "quiet now r'" by (rule sweep_row_quiet[OF assms])
  then show ?thesis using quiet_sweep_row[OF q] by (simp add: quiet_def)
qed

lemma sweep_row_twice:
  "List.map_filter (sweep_row now) (List.map_filter (sweep_row now) rs) = List.map_filter (sweep_row now) rs \<and>
   concat (map (sweep_row_msgs now) (List.map_filter (sweep_row now) rs)) = [] \<and>
   expired_keys now (List.map_filter (sweep_row now) rs) = {}"
proof (induction rs)
  case Nil
  then show ?case by (simp add: expired_keys_def)
next
  case (Cons r rs)
  show ?case
  proof (cases "sweep_row now r")
    case None
    then show ?thesis using Cons.IH by simp
  next
    case (Some r')
    with Cons.IH show ?thesis using sweep_row_Some_idem[OF Some] by (simp add: expired_keys_Cons)
  qed
qed

lemma distinct_sub_ids_sweep_row:
  "distinct (map sub_id rs) \<Longrightarrow> distinct (map sub_id (List.map_filter (sweep_row now) rs))"
proof (induction rs)
  case Nil
  then show ?case by simp
next
  case (Cons r rs)
  show ?case
  proof (cases "sweep_row now r")
    case None
    then show ?thesis using Cons by simp
  next
    case (Some r')
    have "sub_id r' \<notin> set (map sub_id (List.map_filter (sweep_row now) rs))"
      using Cons.prems sub_ids_map_filter_sweep_row[of now rs] sweep_row_keeps[OF Some] by auto
    then show ?thesis using Cons Some by simp
  qed
qed

lemma sweep_spec_idem: "sweep_spec now (sweep_spec now w) = sweep_spec now w"
  by (simp add: sweep_spec_def sweep_row_twice)

lemma cycle_eq_spec:
  assumes "faults w = []" and "distinct (map sub_id (subs (ledger w)))"
  shows "check_subscriptions_cycle now w = Inr (sweep_spec now w)"
  using sweep_rows_refines[of w now "[]" "subs (ledger w)"] assms
  by (simp add: check_subscriptions_cycle_def sweep_spec_def)

lemma cycle_exactly_once:
  assumes "faults w = []" and "distinct (map sub_id (subs (ledger w)))"
    and "check_subscriptions_cycle now w = Inr w'"
  shows "check_subscriptions_cycle now w' = Inr w'"
proof -
  have w': "w' = sweep_spec now w" using cycle_eq_spec[OF assms(1,2)] assms(3) by simp
  have "faults w' = []" using assms(1) by (simp add: w' sweep_spec_def)
  moreover have "distinct (map sub_id (subs (ledger w')))"
    using distinct_sub_ids_sweep_row[OF assms(2)] by (simp add: w' sweep_spec_def)
  ultimately have "check_subscriptions_cycle now w' = Inr (sweep_spec now w')" by (rule cycle_eq_spec)
  then show ?thesis by (simp add: w' sweep_spec_idem)
qed

lemma cycle_rows_evolve: "rows_evolve (ledger w) (ledger (outcome_world (check_subscriptions_cycle now w)))"
  unfolding check_subscriptions_cycle_def
proof (rule sweep_rows_invariant[where I = "\<lambda>w'. rows_evolve (ledger w) (ledger w')"])
  fix r and w1 :: world
  assume "rows_evolve (ledger w) (ledger w1)"
  then show "rows_evolve (ledger w) (ledger (outcome_world (sweep_sub now r w1)))"
    using sweep_sub_rows_evolve by (rule rows_evolve_trans)
qed simp

lemma cycle_ledger_wf: "ledger_wf (ledger w) \<Longrightarrow> ledger_wf (ledger (outcome_world (check_subscriptions_cycle now w)))"
  unfolding check_subscriptions_cycle_def
  by (rule sweep_rows_invariant[where I = "\<lambda>w'. ledger_wf (ledger w')"]) (simp_all add: sweep_sub_ledger_wf)

lemma cycle_keys_consistent:
  assumes wf: "ledger_wf (ledger w)" and kc: "keys_consistent w"
  shows "keys_consistent (outcome_world (check_subscriptions_cycle now w))"
proof -
  let ?I = "\<lambda>w'. keys_consistent w' \<and> rows_evolve (ledger w) (ledger w')"
  have dk: "distinct (map key_id (subs (ledger w)))" using wf by (simp add: ledger_wf_def)
  have "?I (outcome_world (sweep_rows now (subs (ledger w)) w))"
  proof (rule sweep_rows_invariant)
    fix r and w1 :: world
    assume r: "r \<in> set (subs (ledger w))" and I: "?I w1"
    then show "?I (outcome_world (sweep_sub now r w1))"
      using sweep_sub_keys_consistent[OF _ _ dk r] rows_evolve_trans[OF _ sweep_sub_rows_evolve] by blast
  qed (simp add: kc)
  then show ?thesis by (simp add: check_subscriptions_cycle_def)
qed

lemma cycle_no_expired_flag:
  assumes wf: "ledger_wf (ledger w)" and nf: "no_expired_flag (ledger w)"
  shows "no_expired_flag (ledger (outcome_world (check_subscriptions_cycle now w)))"
proof -
  let ?I = "\<lambda>w'. no_expired_flag (ledger w') \<and> rows_evolve (ledger w) (ledger w')"
  have di: "distinct (map sub_id (subs (ledger w)))" using wf by (simp add: ledger_wf_def)
  have "?I (outcome_world (sweep_rows now (subs (ledger w)) w))"
  proof (rule sweep_rows_invariant)
    fix r and w1 :: world
    assume r: "r \<in> set (subs (ledger w))" and I: "?I w1"
    then show "?I (outcome_world (sweep_sub now r w1))"
      using sweep_sub_no_expired_flag[OF _ _ di r] rows_evolve_trans[OF _ sweep_sub_rows_evolve] by blast
  qed (simp add: nf)
  then show ?thesis by (simp add: check_subscriptions_cycle_def)
qed

lemma demo_scenario_5_days:
  "check_subscriptions_cycle 0 (demo_world [demo_sub 1 42 7 (secs 388800)] []) =
   Inr ((demo_world [(demo_sub 1 42 7 (secs 388800))\<lparr>notified_5_days := True\<rparr>] [])\<lparr>outbox := [(42, Msg_5_days)]\<rparr>)"
  by (simp add: check_subscriptions_cycle_def sweep_sub_def fires_5_days_def secs_def
      send_message_def next_fault_def set_notified_5_days_def)

lemma demo_crash:
  "check_subscriptions_cycle 0 (demo_world [demo_sub 1 42 7 (-1), demo_sub 2 43 8 (-1)] [False, True, True]) =
   Inl (SendError 42, (demo_world [demo_sub 2 43 8 (-1)] [])\<lparr>remote := \<lparr>rkeys = [demo_key 8], next_key = 9\<rparr>\<rparr>)"
  by (simp add: check_subscriptions_cycle_def sweep_sub_def fires_5_days_def fires_1_day_def
      fires_expiry_def secs_def expire_teardown_def delete_key_def send_message_def next_fault_def
      delete_subscription_def)


subsection \<open>Claims\<close>

text \<open>
  C1. Refinement of the sweeper: when no external call fails and row ids are distinct,
  one cycle of \<open>check_subscriptions\<close> does exactly what the abstract cycle
  \<open>sweep_spec\<close> says: each row is notified and flagged, torn down (row deleted and key
  removed from the server), or left alone, by the first branch whose condition holds.
\<close>

theorem check_subscriptions_refines:
  assumes "faults w = []" and "distinct (map sub_id (subs (ledger w)))"
  shows "check_subscriptions_cycle now w = Inr (sweep_spec now w)"
  using assms by (rule cycle_eq_spec)

theorem check_subscriptions_refines_witness:
  "check_subscriptions_cycle 0 (demo_world [demo_sub 1 42 7 (-1), demo_sub 2 43 8 (secs 3600)] []) =
   Inr (sweep_spec 0 (demo_world [demo_sub 1 42 7 (-1), demo_sub 2 43 8 (secs 3600)] []))"
  by (rule check_subscriptions_refines) simp_all

text \<open>
  C2. Exactly-once notification: after a cycle without failures, a second cycle at the
  same time sends nothing and changes nothing; a subscription 4.5 days from expiry gets
  the 5-day notice and its flag once, and the next cycle in the same window is silent.
\<close>

theorem check_subscriptions_exactly_once:
  assumes "faults w = []" and "distinct (map sub_id (subs (ledger w)))"
    and "check_subscriptions_cycle now w = Inr w'"
  shows "check_subscriptions_cycle now w' = Inr w'"
  using assms by (rule cycle_exactly_once)

theorem check_subscriptions_exactly_once_witness:
  "check_subscriptions_cycle 0 (demo_world [demo_sub 1 42 7 (secs 388800)] []) =
     Inr ((demo_world [(demo_sub 1 42 7 (secs 388800))\<lparr>notified_5_days := True\<rparr>] [])\<lparr>outbox := [(42, Msg_5_days)]\<rparr>) \<and>
   check_subscriptions_cycle 0 ((demo_world [(demo_sub 1 42 7 (secs 388800))\<lparr>notified_5_days := True\<rparr>] [])\<lparr>outbox := [(42, Msg_5_days)]\<rparr>) =
     Inr ((demo_world [(demo_sub 1 42 7 (secs 388800))\<lparr>notified_5_days := True\<rparr>] [])\<lparr>outbox := [(42, Msg_5_days)]\<rparr>)"
  using demo_scenario_5_days check_subscriptions_exactly_once[OF _ _ demo_scenario_5_days] by simp

text \<open>
  C3. Teardown order: whatever fails during a cycle, if every key of a well-formed ledger
  exists on the server before the cycle, it still does after it, crash included: the key
  is deleted on the server before its row is deleted from the ledger.
\<close>

theorem check_subscriptions_keys_consistent:
  assumes "ledger_wf (ledger w)" and "keys_consistent w"
  shows "keys_consistent (outcome_world (check_subscriptions_cycle now w))"
  using assms by (rule cycle_keys_consistent)

theorem check_subscriptions_keys_consistent_witness:
  "ledger_wf (ledger (demo_world [demo_sub 1 42 7 (-1), demo_sub 2 43 8 (-1)] [False, True, True])) \<and>
   keys_consistent (demo_world [demo_sub 1 42 7 (-1), demo_sub 2 43 8 (-1)] [False, True, True]) \<and>
   keys_consistent (outcome_world (check_subscriptions_cycle 0
     (demo_world [demo_sub 1 42 7 (-1), demo_sub 2 43 8 (-1)] [False, True, True])))"
proof -
  have h: "ledger_wf (ledger (demo_world [demo_sub 1 42 7 (-1), demo_sub 2 43 8 (-1)] [False, True, True]))"
    "keys_consistent (demo_world [demo_sub 1 42 7 (-1), demo_sub 2 43 8 (-1)] [False, True, True])"
    by (simp_all add: ledger_wf_def keys_consistent_def db_key_ids_def remote_key_ids_def)
  then show ?thesis using check_subscriptions_keys_consistent[OF h] by simp
qed

text \<open>
  C4. A failure in the expiry branch's error handler ends the sweeper for good: when the
  "expired" message to a user who blocked the bot fails, the handler's own message
  fails too, the exception leaves the \<open>while True\<close> loop, and the expired
  subscription of another user in the same snapshot is never torn down, in this cycle
  or any later one.
\<close>

theorem check_subscriptions_crash_stops_sweeper:
  "sweeper_loop [0, secs 3600, secs 7200] (demo_world [demo_sub 1 42 7 (-1), demo_sub 2 43 8 (-1)] [False, True, True]) =
     Inl (SendError 42, (demo_world [demo_sub 2 43 8 (-1)] [])\<lparr>remote := \<lparr>rkeys = [demo_key 8], next_key = 9\<rparr>\<rparr>) \<and>
   fires_expiry (secs 7200) (demo_sub 2 43 8 (-1))"
  using demo_crash by (simp add: fires_expiry_def secs_def)

text \<open>
  C5. Notification flags are monotone: whatever fails, a cycle never creates a row,
  never changes a row's owner, key or expiry, and never turns a flag from true to false.
\<close>

theorem check_subscriptions_flags_monotone:
  "rows_evolve (ledger w) (ledger (outcome_world (check_subscriptions_cycle now w)))"
  by (rule cycle_rows_evolve)

theorem check_subscriptions_flags_monotone_witness:
  "rows_evolve (ledger (demo_world [demo_sub 1 42 7 (secs 388800), demo_sub 2 43 8 (-1)] [True]))
     (ledger (outcome_world (check_subscriptions_cycle 0
        (demo_world [demo_sub 1 42 7 (secs 388800), demo_sub 2 43 8 (-1)] [True]))))"
  by (rule check_subscriptions_flags_monotone)

text \<open>
  C6. The flag \<open>notified_expired\<close> is dead: the code sets it after deleting the row,
  so the update matches no row; in a well-formed ledger where no row carries the flag,
  no cycle, whatever fails, produces a row that carries it.
\<close>

theorem check_subscriptions_never_sets_expired_flag:
  assumes "ledger_wf (ledger w)" and "no_expired_flag (ledger w)"
  shows "no_expired_flag (ledger (outcome_world (check_subscriptions_cycle now w)))"
  using assms by (rule cycle_no_expired_flag)

theorem check_subscriptions_never_sets_expired_flag_witness:
  "ledger_wf (ledger (demo_world [demo_sub 1 42 7 (-1), demo_sub 2 43 8 (secs 3600)] [])) \<and>
   no_expired_flag (ledger (demo_world [demo_sub 1 42 7 (-1), demo_sub 2 43 8 (secs 3600)] [])) \<and>
   no_expired_flag (ledger (outcome_world (check_subscriptions_cycle 0
     (demo_world [demo_sub 1 42 7 (-1), demo_sub 2 43 8 (secs 3600)] []))))"
proof -
  have h: "ledger_wf (ledger (demo_world [demo_sub 1 42 7 (-1), demo_sub 2 43 8 (secs 3600)] []))"
    "no_expired_flag (ledger (demo_world [demo_sub 1 42 7 (-1), demo_sub 2 43 8 (secs 3600)] []))"
    by (simp_all add: ledger_wf_def no_expired_flag_def)
  then show ?thesis using check_subscriptions_never_sets_expired_flag[OF h] by simp
qed

end
