(* ===== verification/Reconcile.thy ===== *)
theory Reconcile
  imports Services
begin

text \<open>
  The Reconciliation Engine, \<open>sync_keys\<close> of \<open>tasks.py\<close>. One cycle lists the
  server's keys (outside any \<open>try\<close>: a failure there ends the task), reads the
  ledger's key ids, deletes on the server every key the ledger does not hold (each
  failure logged and skipped), and deletes from the ledger every row whose key the
  server does not hold. Python iterates the two set differences in an unspecified
  order; the model takes them in ascending order, which no result depends on when no
  call fails. The abstract cycle \<open>sync_spec\<close> intersects the two key sets; the code
  refines it, is idempotent, and leaves a ledger whose keys all exist on the server
  whenever the cycle completes.
\<close>

fun delete_orphan_keys :: "kid list \<Rightarrow> world \<Rightarrow> world" where
  "delete_orphan_keys [] w = w"
| "delete_orphan_keys (k # ks) w =
     (case delete_key k w of
        Inl (_, w1) \<Rightarrow> delete_orphan_keys ks w1
      | Inr w1 \<Rightarrow> delete_orphan_keys ks w1)"

fun delete_orphan_rows :: "kid list \<Rightarrow> ledger \<Rightarrow> ledger" where
  "delete_orphan_rows [] L = L"
| "delete_orphan_rows (k # ks) L = delete_orphan_rows ks (delete_rows_with_key k L)"

definition sync_keys_cycle :: "world \<Rightarrow> outcome" where
  "sync_keys_cycle w =
     (case get_keys w of
        Inl e \<Rightarrow> Inl e
      | Inr (ks, w1) \<Rightarrow>
          (let server = set (map ok_id ks);
               db = set (db_key_ids (ledger w1));
               w2 = delete_orphan_keys (sorted_list_of_set (server - db)) w1
           in Inr (w2\<lparr>ledger := delete_orphan_rows (sorted_list_of_set (db - server)) (ledger w2)\<rparr>)))"

fun sync_keys_loop :: "nat \<Rightarrow> world \<Rightarrow> outcome" where
  "sync_keys_loop 0 w = Inr w"
| "sync_keys_loop (Suc n) w =
     (case sync_keys_cycle w of Inl e \<Rightarrow> Inl e | Inr w1 \<Rightarrow> sync_keys_loop n w1)"

subsection \<open>The abstract cycle\<close>

definition key_sets :: "world \<Rightarrow> kid set \<times> kid set" where
  "key_sets w = (set (db_key_ids (ledger w)), set (remote_key_ids w))"

definition sync_spec :: "world \<Rightarrow> world" where
  "sync_spec w =
     w\<lparr>ledger := (ledger w)\<lparr>subs := filter (\<lambda>r. key_id r \<in> set (remote_key_ids w)) (subs (ledger w))\<rparr>,
       remote := (remote w)\<lparr>rkeys := filter (\<lambda>x. ok_id x \<in> set (db_key_ids (ledger w))) (rkeys (remote w))\<rparr>\<rparr>"

text \<open>Worlds for the witnesses: a ledger row for key 7 and server keys 7 and 9.\<close>

abbreviation sync_demo :: "bool list \<Rightarrow> world" where
  "sync_demo fs \<equiv> \<lparr>ledger = \<lparr>subs = [\<lparr>sub_id = 1, user_id = 42, key_id = 7, access_url = key_url 7,
       expires_at = 0, notified_5_days = False, notified_1_day = False, notified_expired = False\<rparr>],
       test_usage = [], purchases = [], next_id = 2\<rparr>,
     remote = \<lparr>rkeys = [\<lparr>ok_id = 7, ok_name = [], ok_url = key_url 7\<rparr>, \<lparr>ok_id = 9, ok_name = [], ok_url = key_url 9\<rparr>],
       next_key = 10\<rparr>, outbox = [], faults = fs\<rparr>"

section \<open>Properties\<close>

lemma delete_orphan_keys_ok:
  "faults w = [] \<Longrightarrow> delete_orphan_keys ks w =
     w\<lparr>remote := (remote w)\<lparr>rkeys := filter (\<lambda>x. ok_id x \<notin> set ks) (rkeys (remote w))\<rparr>\<rparr>"
proof (induction ks arbitrary: w)
  case Nil
  then show ?case by simp
next
  case (Cons k ks)
  then show ?case by (simp add: delete_key_ok delete_where_def filter_filter_conj conj_commute)
qed

lemma delete_orphan_keys_frame:
  "ledger (delete_orphan_keys ks w) = ledger w \<and> outbox (delete_orphan_keys ks w) = outbox w \<and>
   set (remote_key_ids w) - set ks \<subseteq> set (remote_key_ids (delete_orphan_keys ks w)) \<and>
   set (remote_key_ids (delete_orphan_keys ks w)) \<subseteq> set (remote_key_ids w)"
proof (induction ks arbitrary: w)
  case Nil
  then show ?case by simp
next
  case (Cons k ks)
  show ?case
  proof (cases "delete_key k w")
    case (Inl a)
    then obtain e w1 where d: "delete_key k w = Inl (e, w1)" by (cases a) auto
    have "remote_key_ids w1 = remote_key_ids w" using ledger_delete_key(2)[OF d]
      by (simp add: remote_key_ids_def)
    then show ?thesis using Cons.IH[of w1] ledger_delete_key(2)[OF d] d by auto
  next
    case (Inr w1)
    then show ?thesis using Cons.IH[of w1] ledger_delete_key(1)[OF Inr] delete_key_keys[OF Inr] by auto
  qed
qed

lemma delete_orphan_rows_eq:
  "delete_orphan_rows ks L = L\<lparr>subs := filter (\<lambda>r. key_id r \<notin> set ks) (subs L)\<rparr>"
  by (induction ks arbitrary: L) (simp_all add: delete_rows_with_key_def delete_where_def filter_filter_conj conj_commute)

lemma sync_keys_cycle_Inr:
  assumes "sync_keys_cycle w = Inr w'"
  obtains w1 where "get_keys w = Inr (rkeys (remote w), w1)" "ledger w1 = ledger w" "remote w1 = remote w"
    "w' = (delete_orphan_keys (sorted_list_of_set (set (remote_key_ids w) - set (db_key_ids (ledger w)))) w1)
          \<lparr>ledger := delete_orphan_rows (sorted_list_of_set (set (db_key_ids (ledger w)) - set (remote_key_ids w)))
             (ledger w)\<rparr>"
proof -
  from assms obtain ks w1 where g: "get_keys w = Inr (ks, w1)"
    by (auto simp: sync_keys_cycle_def split: sum.splits prod.splits)
  note fr = ledger_get_keys(1)[OF g]
  have "w' = (delete_orphan_keys (sorted_list_of_set (set (remote_key_ids w) - set (db_key_ids (ledger w)))) w1)
          \<lparr>ledger := delete_orphan_rows (sorted_list_of_set (set (db_key_ids (ledger w)) - set (remote_key_ids w)))
             (ledger w)\<rparr>"
    using assms g fr by (simp add: sync_keys_cycle_def remote_key_ids_def Let_def delete_orphan_keys_frame)
  with that g fr show ?thesis by simp
qed

lemma sync_cycle_eq_spec: "faults w = [] \<Longrightarrow> sync_keys_cycle w = Inr (sync_spec w)"
  by (simp add: sync_keys_cycle_def get_keys_ok delete_orphan_keys_ok delete_orphan_rows_eq
      sync_spec_def remote_key_ids_def db_key_ids_def)

lemma key_sets_sync_spec:
  "key_sets (sync_spec w) = (fst (key_sets w) \<inter> snd (key_sets w), fst (key_sets w) \<inter> snd (key_sets w))"
  by (auto simp: key_sets_def sync_spec_def db_key_ids_def remote_key_ids_def)

lemma sync_spec_fix:
  assumes "set (db_key_ids (ledger w)) = set (remote_key_ids w)"
  shows "sync_spec w = w"
proof -
  have "filter (\<lambda>r. key_id r \<in> set (remote_key_ids w)) (subs (ledger w)) = subs (ledger w)"
    using assms by (intro filter_True) (auto simp: db_key_ids_def)
  moreover have "filter (\<lambda>x. ok_id x \<in> set (db_key_ids (ledger w))) (rkeys (remote w)) = rkeys (remote w)"
    using assms by (intro filter_True) (auto simp: remote_key_ids_def)
  ultimately show ?thesis by (simp add: sync_spec_def)
qed

lemma sync_spec_idem: "sync_spec (sync_spec w) = sync_spec w"
  using key_sets_sync_spec[of w] by (intro sync_spec_fix) (simp add: key_sets_def)

lemma sync_cycle_consistent:
  assumes "sync_keys_cycle w = Inr w'"
  shows "keys_consistent w'"
proof -
  obtain w1 where g: "ledger w1 = ledger w" "remote w1 = remote w"
    and w': "w' = (delete_orphan_keys (sorted_list_of_set (set (remote_key_ids w) - set (db_key_ids (ledger w)))) w1)
          \<lparr>ledger := delete_orphan_rows (sorted_list_of_set (set (db_key_ids (ledger w)) - set (remote_key_ids w)))
             (ledger w)\<rparr>"
    using sync_keys_cycle_Inr[OF assms] by blast
  let ?ks = "sorted_list_of_set (set (remote_key_ids w) - set (db_key_ids (ledger w)))"
  let ?d = "delete_orphan_keys ?ks w1"
  have ks: "set ?ks = set (remote_key_ids w) - set (db_key_ids (ledger w))" by simp
  have r1: "remote_key_ids w1 = remote_key_ids w" using g by (simp add: remote_key_ids_def)
  have "set (remote_key_ids w) \<inter> set (db_key_ids (ledger w)) \<subseteq> set (remote_key_ids ?d)"
    using delete_orphan_keys_frame[of ?ks w1] ks r1 by auto
  moreover have "set (db_key_ids (delete_orphan_rows (sorted_list_of_set (set (db_key_ids (ledger w)) - set (remote_key_ids w))) (ledger w)))
      \<subseteq> set (remote_key_ids w) \<inter> set (db_key_ids (ledger w))"
    by (auto simp: delete_orphan_rows_eq db_key_ids_def)
  ultimately show ?thesis using delete_orphan_keys_frame[of ?ks w1]
    by (auto simp: w' keys_consistent_def remote_key_ids_def)
qed

subsection \<open>Claims\<close>

text \<open>
  C7. Refinement of the reconciliation: with no failing call a cycle completes, and it
  maps the ledger's key set \<open>L\<close> and the server's key set \<open>R\<close> both to
  \<open>L \<inter> R\<close>: orphans on either side are removed and nothing else. In the spec's
  scenario, key 9 on the server with no ledger row is deleted and the ledger is left
  untouched.
\<close>

theorem sync_keys_refines:
  assumes "faults w = []"
  shows "sync_keys_cycle w = Inr (sync_spec w) \<and>
         key_sets (sync_spec w) = (fst (key_sets w) \<inter> snd (key_sets w), fst (key_sets w) \<inter> snd (key_sets w))"
  using sync_cycle_eq_spec[OF assms] key_sets_sync_spec by simp

theorem sync_keys_refines_witness:
  "sync_keys_cycle (sync_demo []) =
     Inr ((sync_demo [])\<lparr>remote := \<lparr>rkeys = [\<lparr>ok_id = 7, ok_name = [], ok_url = key_url 7\<rparr>], next_key = 10\<rparr>\<rparr>)"
proof -
  have "sync_keys_cycle (sync_demo []) = Inr (sync_spec (sync_demo []))"
    using sync_keys_refines[of "sync_demo []"] by simp
  then show ?thesis by (simp add: sync_spec_def remote_key_ids_def db_key_ids_def)
qed

text \<open>
  C8. The reconciliation is idempotent: after a cycle in which nothing fails, a second
  cycle changes nothing on either side.
\<close>

theorem sync_keys_idempotent:
  assumes "faults w = []" and "sync_keys_cycle w = Inr w'"
  shows "sync_keys_cycle w' = Inr w'"
proof -
  have w': "w' = sync_spec w" using sync_cycle_eq_spec[OF assms(1)] assms(2) by simp
  have "faults w' = []" using assms(1) by (simp add: w' sync_spec_def)
  then show ?thesis using sync_cycle_eq_spec by (simp add: w' sync_spec_idem)
qed

theorem sync_keys_idempotent_witness:
  "sync_keys_cycle ((sync_demo [])\<lparr>remote := \<lparr>rkeys = [\<lparr>ok_id = 7, ok_name = [], ok_url = key_url 7\<rparr>], next_key = 10\<rparr>\<rparr>) =
     Inr ((sync_demo [])\<lparr>remote := \<lparr>rkeys = [\<lparr>ok_id = 7, ok_name = [], ok_url = key_url 7\<rparr>], next_key = 10\<rparr>\<rparr>)"
proof -
  have c: "sync_keys_cycle (sync_demo []) =
     Inr ((sync_demo [])\<lparr>remote := \<lparr>rkeys = [\<lparr>ok_id = 7, ok_name = [], ok_url = key_url 7\<rparr>], next_key = 10\<rparr>\<rparr>)"
    by (simp add: sync_cycle_eq_spec sync_spec_def remote_key_ids_def db_key_ids_def)
  show ?thesis by (rule sync_keys_idempotent[OF _ c]) simp
qed

text \<open>
  C9. Whatever fails among the per-key deletions, a cycle that completes leaves every key
  of the ledger on the server: rows whose key the server lacks are deleted, and only
  keys the ledger does not hold are deleted on the server.
\<close>

theorem sync_keys_restores_consistency:
  assumes "sync_keys_cycle w = Inr w'"
  shows "keys_consistent w'"
  using assms by (rule sync_cycle_consistent)

theorem sync_keys_restores_consistency_witness:
  "\<exists>w'. sync_keys_cycle (sync_demo [False, True]) = Inr w' \<and> keys_consistent w' \<and>
     remote_key_ids w' = [7, 9]"
proof -
  have c: "sync_keys_cycle (sync_demo [False, True]) = Inr ((sync_demo []))"
    by (simp add: sync_keys_cycle_def get_keys_def delete_key_def next_fault_def db_key_ids_def
        delete_rows_with_key_def)
  show ?thesis using sync_keys_restores_consistency[OF c] c by (simp add: remote_key_ids_def)
qed

text \<open>
  C10. One failure of \<open>get_keys\<close> ends the reconciliation for good: the call is
  outside any \<open>try\<close>, so the exception leaves the \<open>while True\<close> loop, and no
  later cycle runs.
\<close>

theorem sync_keys_get_keys_failure_stops_task:
  assumes "faults w = True # fs"
  shows "sync_keys_loop (Suc n) w = Inl (ProviderError, w\<lparr>faults := fs\<rparr>)"
  using assms by (simp add: sync_keys_cycle_def get_keys_fails)

theorem sync_keys_get_keys_failure_stops_task_witness:
  "sync_keys_loop 3 (sync_demo [True]) = Inl (ProviderError, sync_demo [])"
  using sync_keys_get_keys_failure_stops_task[of "sync_demo [True]" "[]" 2]
  by (simp add: numeral_3_eq_3)

end
