(* ===== verification/PyDecimal.thy ===== *)
theory PyDecimal
  imports PyStr
begin

text \<open>
  Python's \<open>decimal\<close> module as the payment handler uses it: the constructor
  \<open>Decimal(s)\<close> on a string, \<open>quantize(Decimal('1.00'))\<close> in the default context
  (precision 28, \<open>ROUND_HALF_EVEN\<close>, \<open>InvalidOperation\<close> trapped), and the
  comparison with a NaN operand, which signals \<open>InvalidOperation\<close>. A finite value is
  \<open>DFinite c e\<close>, the number \<open>c * 10 ^ e\<close>; the constructor accepts an optional
  sign, digits with at most one point, an optional exponent, and the case-insensitive
  words \<open>Inf\<close>, \<open>Infinity\<close>, \<open>NaN\<close> and \<open>sNaN\<close> (the NaNs with an optional
  payload of digits). Unicode digits and the underscores the constructor also accepts
  are outside the model (the model rejects them). A quantized amount is held as an
  integer number of kopecks.
\<close>

datatype decimal = DFinite int int | DInfinity | DNaN | DsNaN

datatype qdec = QCents int | QNaN

definition py_lower_char :: "char \<Rightarrow> char" where
  "py_lower_char c = (if 65 \<le> (of_char c :: nat) \<and> (of_char c :: nat) \<le> 90 then char_of ((of_char c :: nat) + 32) else c)"

definition parse_exponent :: "string \<Rightarrow> int option" where
  "parse_exponent s =
     (case s of
        [] \<Rightarrow> None
      | c # r \<Rightarrow>
          if c = CHR ''+'' then (if py_isdigit r then Some (int (py_int r)) else None)
          else if c = CHR ''-'' then (if py_isdigit r then Some (- int (py_int r)) else None)
          else if py_isdigit s then Some (int (py_int s)) else None)"

definition is_exp_char :: "char \<Rightarrow> bool" where
  "is_exp_char c \<longleftrightarrow> c = CHR ''e'' \<or> c = CHR ''E''"

definition parse_unsigned :: "string \<Rightarrow> decimal option" where
  "parse_unsigned s =
     (let l = map py_lower_char s in
      if l = ''inf'' \<or> l = ''infinity'' then Some DInfinity
      else if take 3 l = ''nan'' \<and> list_all is_digit (drop 3 l) then Some DNaN
      else if take 4 l = ''snan'' \<and> list_all is_digit (drop 4 l) then Some DsNaN
      else
        (let m = takeWhile (\<lambda>c. \<not> is_exp_char c) s;
             ex = dropWhile (\<lambda>c. \<not> is_exp_char c) s;
             ip = takeWhile (\<lambda>c. c \<noteq> CHR ''.'') m;
             fp = drop 1 (dropWhile (\<lambda>c. c \<noteq> CHR ''.'') m)
         in if \<not> list_all is_digit ip \<or> \<not> list_all is_digit fp \<or> (ip = [] \<and> fp = []) then None
            else (case (if ex = [] then Some 0 else parse_exponent (tl ex)) of
                    None \<Rightarrow> None
                  | Some x \<Rightarrow> Some (DFinite (int (py_int (ip @ fp))) (x - int (length fp))))))"

definition dneg :: "decimal \<Rightarrow> decimal" where
  "dneg d = (case d of DFinite c e \<Rightarrow> DFinite (- c) e | _ \<Rightarrow> d)"

text \<open>\<open>decimal.Decimal(s)\<close>: \<open>None\<close> is the \<open>InvalidOperation\<close> it raises.\<close>

definition parse_decimal :: "string \<Rightarrow> decimal option" where
  "parse_decimal s =
     (case s of
        [] \<Rightarrow> None
      | c # r \<Rightarrow>
          if c = CHR ''-'' then map_option dneg (parse_unsigned r)
          else if c = CHR ''+'' then parse_unsigned r
          else parse_unsigned s)"

text \<open>Division of a non-negative integer by \<open>d > 0\<close>, rounded half to even.\<close>

definition round_half_even :: "int \<Rightarrow> int \<Rightarrow> int" where
  "round_half_even a d =
     (let q = a div d; r = a mod d in if d < 2 * r \<or> (2 * r = d \<and> odd q) then q + 1 else q)"

definition num_digits :: "int \<Rightarrow> nat" where
  "num_digits c = length (py_str (nat \<bar>c\<bar>))"

text \<open>\<open>x.quantize(Decimal('1.00'))\<close>: \<open>None\<close> is \<open>InvalidOperation\<close>.\<close>

fun quantize_cents :: "decimal \<Rightarrow> qdec option" where
  "quantize_cents (DFinite c e) =
     (let c' = (if -2 \<le> e then c * 10 ^ nat (e + 2)
                else sgn c * round_half_even \<bar>c\<bar> (10 ^ nat (-2 - e)))
      in if 28 < num_digits c' then None else Some (QCents c'))"
| "quantize_cents DInfinity = None"
| "quantize_cents DNaN = Some QNaN"
| "quantize_cents DsNaN = None"

text \<open>The string \<open>str(d)\<close> of an amount of kopecks, as two decimals.\<close>

definition cents_string :: "nat \<Rightarrow> string" where
  "cents_string c = py_str (c div 100) @ CHR ''.'' # [digit_char (c mod 100 div 10), digit_char (c mod 10)]"

section \<open>Properties\<close>

lemma is_digit_not_special:
  "is_digit c \<Longrightarrow> \<not> is_exp_char c \<and> c \<noteq> CHR ''.'' \<and> c \<noteq> CHR ''-'' \<and> c \<noteq> CHR ''+'' \<and>
     c \<noteq> CHR ''i'' \<and> c \<noteq> CHR ''n'' \<and> c \<noteq> CHR ''s''"
  by (auto simp: is_digit_def is_exp_char_def)

lemma is_digit_lower: "is_digit c \<Longrightarrow> py_lower_char c = c"
  by (simp add: is_digit_def py_lower_char_def)

lemma digits_lower: "list_all is_digit s \<Longrightarrow> map py_lower_char s = s"
  by (induction s) (auto simp: is_digit_lower)

lemma py_str_hd_digit: "\<exists>c r. py_str n = c # r \<and> is_digit c"
  using py_str_digits[of n] by (cases "py_str n") auto

lemma py_int_append2:
  "a < 10 \<Longrightarrow> b < 10 \<Longrightarrow> py_int (s @ [digit_char a, digit_char b]) = 100 * py_int s + 10 * a + b"
  using py_int_snoc[of "s @ [digit_char a]" "digit_char b"] py_int_snoc[of s "digit_char a"] by simp

lemma parse_cents_string: "parse_decimal (cents_string c) = Some (DFinite (int c) (-2))"
proof -
  let ?q = "py_str (c div 100)" and ?a = "c mod 100 div 10" and ?b = "c mod 10"
  let ?s = "?q @ CHR ''.'' # [digit_char ?a, digit_char ?b]"
  obtain c0 r0 where q: "?q = c0 # r0" and d0: "is_digit c0" using py_str_hd_digit by blast
  have ab: "?a < 10" "?b < 10" by auto
  have qd: "list_all is_digit ?q" using py_str_digits by blast
  then have qe: "\<forall>x\<in>set ?q. \<not> is_exp_char x \<and> x \<noteq> CHR ''.''"
    by (auto simp: list_all_iff dest: is_digit_not_special)
  have dot: "py_lower_char (CHR ''.'') = CHR ''.''" by (simp add: py_lower_char_def)
  have low: "map py_lower_char ?s = ?s"
    using qd ab by (simp add: digits_lower is_digit_lower dot)
  have ne: "?s \<noteq> ''inf'' \<and> ?s \<noteq> ''infinity'' \<and> take 3 ?s \<noteq> ''nan'' \<and> take 4 ?s \<noteq> ''snan''"
    using is_digit_not_special[OF d0] by (simp add: q)
  have m: "takeWhile (\<lambda>c. \<not> is_exp_char c) ?s = ?s" "dropWhile (\<lambda>c. \<not> is_exp_char c) ?s = []"
    using qe is_digit_not_special[OF is_digit_digit_char[OF ab(1)]]
      is_digit_not_special[OF is_digit_digit_char[OF ab(2)]]
    by (simp_all add: takeWhile_eq_all_conv dropWhile_eq_Nil_conv is_exp_char_def)
  have ip: "takeWhile (\<lambda>c. c \<noteq> CHR ''.'') ?s = ?q"
    using qe by (subst takeWhile_append2) auto
  have fp: "drop 1 (dropWhile (\<lambda>c. c \<noteq> CHR ''.'') ?s) = [digit_char ?a, digit_char ?b]"
    using qe by (subst dropWhile_append2) auto
  have "c mod 100 mod 10 = c mod 10" by (simp add: mod_mod_cancel)
  moreover have "10 * ?a + c mod 100 mod 10 = c mod 100" by (rule mult_div_mod_eq)
  ultimately have "100 * (c div 100) + 10 * ?a + ?b = c"
    using mult_div_mod_eq[of 100 c] by linarith
  then have v: "py_int (?q @ [digit_char ?a, digit_char ?b]) = c"
    using py_int_append2[OF ab, of ?q] by simp
  have "parse_unsigned ?s = Some (DFinite (int c) (-2))"
    using low ne m ip fp v qd ab by (simp add: parse_unsigned_def Let_def)
  moreover have "parse_decimal ?s = parse_unsigned ?s"
    using is_digit_not_special[OF d0] by (simp add: parse_decimal_def q)
  ultimately show ?thesis by (simp add: cents_string_def)
qed

lemma quantize_exact: "num_digits c \<le> 28 \<Longrightarrow> quantize_cents (DFinite c (-2)) = Some (QCents c)"
  by simp

end
