(* ===== verification/Payment.thy ===== *)
theory Payment
  imports Services PyDecimal
begin

text \<open>
  The payment notification processor: \<open>yoomoney_notification\<close> of
  \<open>telegram_bot.py\<close>, the webhook the payment gateway calls once a payment has
  settled, and the two label generators of the purchase flow
  (\<open>process_new_subscription\<close>, \<open>process_renew_subscription\<close>). The handler is a
  sequence of gates: the SHA-1 signature over the signed fields, the idempotency check
  on \<open>operation_id\<close>, the presence of a label, the parse of \<open>withdraw_amount\<close>
  as a \<open>Decimal\<close> rounded to kopecks, the match against the plan table, and the
  routing on the label to an extension or a new key. Its value is the response text
  with the final world, or the exception that escapes the handler (the web framework
  answers it with a server error, which the gateway retries) with the world at that
  point. The SHA-1 hex digest is a parameter \<open>digest\<close> of the model, so every theorem
  holds for any hash function; the secret is a parameter too.
\<close>

record notification =
  notification_type :: string
  operation_id :: string
  amount :: string
  currency :: string
  datetime_str :: string
  sender :: string
  codepro :: string
  label :: string
  sha1_hash :: string
  withdraw_amount :: string

subsection \<open>Labels of the purchase flow\<close>

text \<open>\<open>f"{user_id}_{int(datetime.now().timestamp())}"\<close>\<close>

definition new_label :: "uid \<Rightarrow> nat \<Rightarrow> string" where
  "new_label u ts = py_str u @ ''_'' @ py_str ts"

text \<open>\<open>f"renew_{user_id}_{sub_id}_{int(datetime.now().timestamp())}"\<close>\<close>

definition renew_label :: "uid \<Rightarrow> sid \<Rightarrow> nat \<Rightarrow> string" where
  "renew_label u s ts = ''renew_'' @ py_str u @ ''_'' @ py_str s @ ''_'' @ py_str ts"

subsection \<open>The gates of \<open>yoomoney_notification\<close>\<close>

text \<open>The string the signature is computed over: \<open>'&'.join(params_list)\<close>.\<close>

definition signature_string :: "string \<Rightarrow> notification \<Rightarrow> string" where
  "signature_string secret n = py_join CHR ''&''
     [notification_type n, operation_id n, amount n, currency n, datetime_str n, sender n,
      codepro n, secret, label n]"

definition signature_ok :: "(string \<Rightarrow> string) \<Rightarrow> string \<Rightarrow> notification \<Rightarrow> bool" where
  "signature_ok digest secret n \<longleftrightarrow> digest (signature_string secret n) = sha1_hash n"

text \<open>
  \<open>Decimal(withdraw_amount.replace(',', '.').strip()).quantize(Decimal('1.00'))\<close>;
  \<open>None\<close> is the \<open>InvalidOperation\<close> the handler catches.
\<close>

definition paid_amount :: "notification \<Rightarrow> qdec option" where
  "paid_amount n =
     (case parse_decimal (py_strip (py_replace CHR '','' CHR ''.'' (withdraw_amount n))) of
        None \<Rightarrow> None
      | Some d \<Rightarrow> quantize_cents d)"

text \<open>The plan table, prices in kopecks, in the dictionary's iteration order.\<close>

definition amount_mapping :: "(int \<times> nat) list" where
  "amount_mapping = [(20000, 30), (50000, 90), (100000, 180)]"

text \<open>
  The matching loop: the first plan whose price is within \<open>0.01\<close> of the paid amount.
  With a NaN amount the first comparison \<open>difference <= Decimal('0.01')\<close> raises
  \<open>InvalidOperation\<close>, outside the \<open>try\<close>.
\<close>

definition match_amount :: "qdec \<Rightarrow> exn + (int \<times> nat) option" where
  "match_amount q =
     (case q of
        QNaN \<Rightarrow> Inl InvalidOperation
      | QCents c \<Rightarrow> Inr (find (\<lambda>(a, d). \<bar>c - a\<bar> \<le> 1) amount_mapping))"

text \<open>The notice on a mismatched amount, sent when the label names a user.\<close>

definition mismatch_notice :: "notification \<Rightarrow> world \<Rightarrow> outcome" where
  "mismatch_notice n w =
     (if py_startswith (label n) ''renew_'' \<or> py_startswith (label n) ''new_subscribe_'' then
        (let parts = py_split CHR ''_'' (label n) in
         if 2 \<le> length parts \<and> py_str_isdigit (parts ! 1)
         then (if py_isdigit (parts ! 1) then send_message (py_int (parts ! 1)) Msg_wrong_amount w
               else Inl (ValueError, w))
         else Inr w)
      else Inr w)"

subsection \<open>The two routes\<close>

text \<open>
  A renewal: the label must split into exactly four parts (fewer is an error response,
  more makes the tuple unpacking raise \<open>ValueError\<close>), the user and the row are
  read from it, the row is extended, the purchase recorded, the user told.
\<close>

definition renew_branch :: "notification \<Rightarrow> int \<times> nat \<Rightarrow> time \<Rightarrow> world \<Rightarrow> string result" where
  "renew_branch n pd now w =
     (let parts = py_split CHR ''_'' (label n) in
      if length parts < 4 then Inr (''Invalid label format for renew'', w)
      else if length parts \<noteq> 4 then Inl (ValueError, w)
      else if \<not> py_str_isdigit (parts ! 1) \<or> \<not> py_str_isdigit (parts ! 2)
      then Inr (''Invalid user or sub ID in label'', w)
      else if \<not> py_isdigit (parts ! 1) \<or> \<not> py_isdigit (parts ! 2) then Inl (ValueError, w)
      else
        (let u = py_int (parts ! 1); s = py_int (parts ! 2);
             w1 = w\<lparr>ledger := extend_subscription u s (snd pd) (ledger w)\<rparr> in
         case save_purchase_history u (fst pd) (snd pd) Renew_subscription (label n)
                (operation_id n) now (ledger w1) of
           Inl e \<Rightarrow> Inl (e, w1)
         | Inr L \<Rightarrow>
             (case send_message u (Msg_renewed (snd pd)) (w1\<lparr>ledger := L\<rparr>) of
                Inl ew \<Rightarrow> Inl ew
              | Inr w2 \<Rightarrow> Inr (''OK'', w2))))"

text \<open>
  The part of the new-subscription route after the key exists (lines 471-485): save the
  row and the purchase, then send the confirmation and the access URL.
\<close>

definition finish_new_subscription ::
  "notification \<Rightarrow> int \<times> nat \<Rightarrow> time \<Rightarrow> uid \<Rightarrow> okey \<Rightarrow> world \<Rightarrow> string result" where
  "finish_new_subscription n pd now u k w1 =
     (case save_subscription u (ok_id k) (ok_url k) (days (int (snd pd))) now (ledger w1) of
        Inl e \<Rightarrow> Inl (e, w1)
      | Inr L \<Rightarrow>
          (case save_purchase_history u (fst pd) (snd pd) New_subscription (label n)
                  (operation_id n) now L of
             Inl e \<Rightarrow> Inl (e, w1\<lparr>ledger := L\<rparr>)
           | Inr L' \<Rightarrow>
               (case send_message u Msg_paid (w1\<lparr>ledger := L'\<rparr>) of
                  Inl ew \<Rightarrow> Inl ew
                | Inr w2 \<Rightarrow>
                    (case send_message u (Msg_access_url (ok_url k)) w2 of
                       Inl ew \<Rightarrow> Inl ew
                     | Inr w3 \<Rightarrow> Inr (''OK'', w3)))))"

text \<open>
  A new subscription: the user id is the label's first part; a key is created on the
  server, the row and the purchase are saved, and the user is sent the access URL.
  When the key cannot be created the user is told so (that send is not guarded).
\<close>

definition new_branch ::
  "notification \<Rightarrow> int \<times> nat \<Rightarrow> time \<Rightarrow> string \<Rightarrow> world \<Rightarrow> string result" where
  "new_branch n pd now stamp w =
     (let parts = py_split CHR ''_'' (label n) in
      if length parts < 2 then Inr (''Invalid label format for new subscription'', w)
      else if \<not> py_str_isdigit (parts ! 0) then Inr (''Invalid user ID in label'', w)
      else if \<not> py_isdigit (parts ! 0) then Inl (ValueError, w)
      else
        (let u = py_int (parts ! 0) in
         case create_vpn_key_with_name u stamp w of
           (Some k, w1) \<Rightarrow> finish_new_subscription n pd now u k w1
         | (None, w1) \<Rightarrow>
             (case send_message u Msg_key_error w1 of
                Inl ew \<Rightarrow> Inl ew
              | Inr w2 \<Rightarrow> Inr (''Error creating VPN key'', w2))))"

subsection \<open>The handler\<close>

definition yoomoney_notification ::
  "(string \<Rightarrow> string) \<Rightarrow> string \<Rightarrow> time \<Rightarrow> string \<Rightarrow> notification \<Rightarrow> world \<Rightarrow> string result" where
  "yoomoney_notification digest secret now stamp n w =
     (if \<not> signature_ok digest secret n then Inr (''Invalid signature'', w)
      else if operation_processed (operation_id n) (ledger w) then Inr (''OK'', w)
      else if label n = [] then Inr (''Invalid label'', w)
      else
        (case paid_amount n of
           None \<Rightarrow> Inr (''Invalid withdraw_amount'', w)
         | Some q \<Rightarrow>
             (case match_amount q of
                Inl e \<Rightarrow> Inl (e, w)
              | Inr None \<Rightarrow>
                  (case mismatch_notice n w of
                     Inl ew \<Rightarrow> Inl ew
                   | Inr w1 \<Rightarrow> Inr (''Invalid amount'', w1))
              | Inr (Some pd) \<Rightarrow>
                  if py_startswith (label n) ''renew_'' then renew_branch n pd now w
                  else new_branch n pd now stamp w)))"

text \<open>The world a run of the handler leaves, whether it answered or raised.\<close>

definition res_world :: "'a result \<Rightarrow> world" where
  "res_world r = (case r of Inl (e, w) \<Rightarrow> w | Inr (a, w) \<Rightarrow> w)"

subsection \<open>Concrete notifications\<close>

text \<open>
  A notification signed with the secret \<open>''s3cr3t''\<close>, under the identity as digest,
  and a world with one row (user 42, row 1, key 7) for the concrete runs below.
\<close>

definition signed_note :: "string \<Rightarrow> string \<Rightarrow> string \<Rightarrow> notification" where
  "signed_note op l wa =
     (let n = \<lparr>notification_type = ''p2p-incoming'', operation_id = op, amount = ''490.00'',
               currency = ''643'', datetime_str = ''2023-11-14T22:13:20Z'', sender = ''41001'',
               codepro = ''false'', label = l, sha1_hash = [], withdraw_amount = wa\<rparr>
      in n\<lparr>sha1_hash := signature_string ''s3cr3t'' n\<rparr>)"

abbreviation pay_world :: "bool list \<Rightarrow> world" where
  "pay_world fs \<equiv> \<lparr>ledger = \<lparr>subs = [\<lparr>sub_id = 1, user_id = 42, key_id = 7, access_url = key_url 7,
       expires_at = days 2, notified_5_days = True, notified_1_day = False, notified_expired = False\<rparr>],
       test_usage = [], purchases = [], next_id = 2\<rparr>,
     remote = \<lparr>rkeys = [\<lparr>ok_id = 7, ok_name = ''User_42'', ok_url = key_url 7\<rparr>], next_key = 8\<rparr>,
     outbox = [], faults = fs\<rparr>"

section \<open>Properties\<close>

subsection \<open>Labels, amounts and the plan table\<close>

lemma digit_not_letter: "is_digit c \<Longrightarrow> c \<noteq> CHR ''r'' \<and> c \<noteq> CHR ''n'' \<and> c \<noteq> CHR '',''"
  by (auto simp: is_digit_def)

lemma split_renew_label:
  "py_split CHR ''_'' (renew_label u s ts) = [''renew'', py_str u, py_str s, py_str ts]"
  by (simp add: renew_label_def py_split_append_sep py_split_no_sep)

lemma split_new_label: "py_split CHR ''_'' (new_label u ts) = [py_str u, py_str ts]"
  by (simp add: new_label_def py_split_append_sep py_split_no_sep)

lemma renew_label_prefix: "py_startswith (renew_label u s ts) ''renew_''"
  by (simp add: renew_label_def py_startswith_def)

lemma new_label_prefix:
  "\<not> py_startswith (new_label u ts) ''renew_'' \<and> \<not> py_startswith (new_label u ts) ''new_subscribe_''"
proof -
  obtain c r where "py_str u = c # r" and "is_digit c" using py_str_hd_digit by blast
  then show ?thesis using digit_not_letter by (auto simp: new_label_def py_startswith_def)
qed

lemma new_label_nonempty: "new_label u ts \<noteq> []" "renew_label u s ts \<noteq> []"
  by (simp_all add: new_label_def renew_label_def)

lemma match_amount_iff:
  "match_amount (QCents c) = Inr (Some (p, d)) \<longleftrightarrow> (p, d) \<in> set amount_mapping \<and> \<bar>c - p\<bar> \<le> 1"
  by (auto simp: match_amount_def amount_mapping_def)

lemma match_amount_None:
  "match_amount (QCents c) = Inr None \<longleftrightarrow> (\<forall>(p, d)\<in>set amount_mapping. 1 < \<bar>c - p\<bar>)"
  by (auto simp: match_amount_def amount_mapping_def)

lemma length_py_str_le: "n < 10 ^ k \<Longrightarrow> 0 < k \<Longrightarrow> length (py_str n) \<le> k"
proof (induction n arbitrary: k rule: py_str.induct)
  case (1 n)
  show ?case
  proof (cases "n < 10")
    case True
    then show ?thesis using "1.prems" by (simp add: py_str.simps [of n])
  next
    case False
    then obtain k' where k: "k = Suc k'" using "1.prems" by (cases k) auto
    have lt: "n < 10 ^ k' * 10" using "1.prems" k by (simp add: mult.commute)
    then have "n div 10 < 10 ^ k'" by (simp add: less_mult_imp_div_less)
    moreover have "0 < k'" using False lt by (cases k') auto
    ultimately show ?thesis using "1.IH" False k by (simp add: py_str.simps [of n])
  qed
qed

lemma dropWhile_hd_keep: "xs \<noteq> [] \<Longrightarrow> \<not> P (hd xs) \<Longrightarrow> dropWhile P xs = xs"
  by (cases xs) auto

lemma py_strip_id:
  assumes "s \<noteq> []" "\<not> py_isspace (hd s)" "\<not> py_isspace (last s)"
  shows "py_strip s = s"
proof -
  have "dropWhile py_isspace s = s" using assms(1,2) by (rule dropWhile_hd_keep)
  moreover have "dropWhile py_isspace (rev s) = rev s"
    using assms(1,3) by (intro dropWhile_hd_keep) (simp_all add: hd_rev)
  ultimately show ?thesis by (simp add: py_strip_def)
qed

lemma digit_not_space: "is_digit c \<Longrightarrow> \<not> py_isspace c"
  by (auto simp: is_digit_def py_isspace_def)

lemma cents_string_chars: "\<forall>x\<in>set (cents_string c). is_digit x \<or> x = CHR ''.''"
  using py_str_digits[of "c div 100"] by (auto simp: cents_string_def list_all_iff)

lemma paid_amount_cents_string:
  assumes "withdraw_amount n = cents_string c" "c < 10 ^ 28"
  shows "paid_amount n = Some (QCents (int c))"
proof -
  have "py_replace CHR '','' CHR ''.'' (cents_string c) = cents_string c"
    unfolding py_replace_def by (rule map_idI) (use cents_string_chars[of c] digit_not_letter in auto)
  moreover obtain c0 r0 where "py_str (c div 100) = c0 # r0" "is_digit c0" using py_str_hd_digit by blast
  then have "py_strip (cents_string c) = cents_string c"
    by (intro py_strip_id) (auto simp: cents_string_def digit_not_space)
  moreover have "num_digits (int c) \<le> 28"
    using length_py_str_le[of c 28] assms(2) by (simp add: num_digits_def)
  ultimately show ?thesis using assms(1) by (simp add: paid_amount_def parse_cents_string quantize_exact)
qed

subsection \<open>The two routes\<close>

lemma renew_branch_ok:
  assumes "faults w = []" "\<not> operation_processed (operation_id n) (ledger w)"
    and "label n = renew_label u s ts"
  shows "renew_branch n (p, d) now w =
    Inr (''OK'', w\<lparr>ledger := (extend_subscription u s d (ledger w))\<lparr>purchases := purchases (ledger w) @
          [\<lparr>p_user = u, p_amount = p, p_period = d, p_kind = Renew_subscription, p_label = label n,
            p_operation_id = operation_id n, p_recorded_at = now\<rparr>]\<rparr>,
        outbox := outbox w @ [(u, Msg_renewed d)]\<rparr>)"
  using assms by (simp add: renew_branch_def split_renew_label Let_def save_purchase_history_def
    operation_processed_iff send_message_ok)

lemma new_branch_ok:
  assumes "faults w = []" "remote_wf w" "keys_consistent w"
    and "\<not> operation_processed (operation_id n) (ledger w)" and "label n = new_label u ts"
  shows "new_branch n (p, d) now st w =
    Inr (''OK'', w\<lparr>ledger := (ledger w)\<lparr>
          subs := subs (ledger w) @ [\<lparr>sub_id = next_id (ledger w), user_id = u, key_id = next_key (remote w),
            access_url = key_url (next_key (remote w)), expires_at = now + days (int d),
            notified_5_days = False, notified_1_day = False, notified_expired = False\<rparr>],
          purchases := purchases (ledger w) @
          [\<lparr>p_user = u, p_amount = p, p_period = d, p_kind = New_subscription, p_label = label n,
            p_operation_id = operation_id n, p_recorded_at = now\<rparr>],
          next_id := Suc (next_id (ledger w))\<rparr>,
        remote := \<lparr>rkeys = rkeys (remote w) @ [\<lparr>ok_id = next_key (remote w), ok_name = key_name u st,
          ok_url = key_url (next_key (remote w))\<rparr>], next_key = Suc (next_key (remote w))\<rparr>,
        outbox := outbox w @ [(u, Msg_paid), (u, Msg_access_url (key_url (next_key (remote w))))]\<rparr>)"
  using assms fresh_key[OF assms(3,2)]
  by (simp add: new_branch_def finish_new_subscription_def split_new_label Let_def create_vpn_key_with_name_ok save_subscription_def
    save_purchase_history_def operation_processed_iff send_message_ok)

lemma save_purchase_history_Inr:
  "save_purchase_history u a d kd l op now L = Inr L' \<Longrightarrow>
     operation_processed op L' \<and> subs L' = subs L \<and> next_id L' = next_id L"
  by (auto simp: save_purchase_history_def operation_processed_iff split: if_splits)

lemma save_subscription_keys:
  "save_subscription u k url dur now L = Inr L' \<Longrightarrow>
     set (db_key_ids L') = insert k (set (db_key_ids L)) \<and> purchases L' = purchases L"
  by (auto simp: save_subscription_def db_key_ids_def split: if_splits)

lemma db_key_ids_extend [simp]: "db_key_ids (extend_subscription u s d L) = db_key_ids L"
  by (simp add: db_key_ids_def extend_subscription_def map_update_where_keep)

lemma mismatch_notice_frame:
  "mismatch_notice n w = Inr w' \<Longrightarrow> ledger w' = ledger w \<and> remote w' = remote w"
  "mismatch_notice n w = Inl (e, w') \<Longrightarrow> ledger w' = ledger w \<and> remote w' = remote w"
  by (auto simp: mismatch_notice_def Let_def split: if_splits dest: ledger_send_message)

lemma renew_branch_OK:
  "renew_branch n pd now w = Inr (''OK'', w') \<Longrightarrow> operation_processed (operation_id n) (ledger w')"
  by (auto simp: renew_branch_def Let_def split: if_splits sum.splits
      dest!: ledger_send_message(1) save_purchase_history_Inr)

lemma renew_branch_not_OK: "renew_branch n pd now w = Inr (r, w') \<Longrightarrow> r \<noteq> ''OK'' \<Longrightarrow> w' = w"
  by (auto simp: renew_branch_def Let_def split: if_splits sum.splits)

lemma new_branch_OK:
  "new_branch n pd now st w = Inr (''OK'', w') \<Longrightarrow> operation_processed (operation_id n) (ledger w')"
  by (auto simp: new_branch_def finish_new_subscription_def Let_def split: if_splits sum.splits prod.splits option.splits
      dest!: ledger_send_message(1) save_purchase_history_Inr)

lemma new_branch_not_OK:
  "new_branch n pd now st w = Inr (r, w') \<Longrightarrow> r \<noteq> ''OK'' \<Longrightarrow> ledger w' = ledger w"
  by (auto simp: new_branch_def finish_new_subscription_def Let_def split: if_splits sum.splits prod.splits option.splits
      dest!: ledger_send_message(1) create_vpn_key_with_name_frame)

subsection \<open>The handler keeps the world invariant\<close>

lemma res_world_simps [simp]: "res_world (Inl (e, w)) = w" "res_world (Inr (a, w)) = w"
  by (simp_all add: res_world_def)

lemma world_inv_extend:
  "world_inv w \<Longrightarrow> world_inv (w\<lparr>ledger := extend_subscription u s d (ledger w)\<rparr>)"
  by (rule world_inv_ledger_step) (auto simp: world_inv_def keys_consistent_def ledger_wf_extend_subscription)

lemma world_inv_save_purchase:
  assumes "world_inv (w\<lparr>ledger := L0\<rparr>)" and "save_purchase_history u a d kd l op now L0 = Inr L"
  shows "world_inv (w\<lparr>ledger := L\<rparr>)"
proof -
  have "subs L = subs L0" "ledger_wf L"
    using assms save_purchase_history_Inr ledger_wf_save_purchase_history by (auto simp: world_inv_def)
  with assms(1) show ?thesis by (auto simp: world_inv_def keys_consistent_def db_key_ids_def remote_key_ids_def remote_wf_def)
qed

lemma world_inv_save_subscription:
  assumes "world_inv w" "k \<in> set (remote_key_ids w)" and "save_subscription u k url dur now (ledger w) = Inr L"
  shows "world_inv (w\<lparr>ledger := L\<rparr>)"
proof -
  have "set (db_key_ids L) = insert k (set (db_key_ids (ledger w)))" "ledger_wf L"
    using assms save_subscription_keys ledger_wf_save_subscription by (auto simp: world_inv_def)
  with assms(1,2) show ?thesis by (auto simp: world_inv_def keys_consistent_def remote_key_ids_def remote_wf_def)
qed

text \<open>
  The routes keep any property \<open>Q\<close> of the world that the calls they make keep: the
  interface a world invariant has to meet. \<open>world_inv\<close> and \<open>store_wf\<close> below are
  two instances.
\<close>

lemma renew_branch_preserves:
  assumes q: "Q w"
    and ext: "\<And>u s d. Q (w\<lparr>ledger := extend_subscription u s d (ledger w)\<rparr>)"
    and pur: "\<And>wa L0 L u a d kd l op. Q (wa\<lparr>ledger := L0\<rparr>) \<Longrightarrow>
       save_purchase_history u a d kd l op now L0 = Inr L \<Longrightarrow> Q (wa\<lparr>ledger := L\<rparr>)"
    and sok: "\<And>u m w1 w2. Q w1 \<Longrightarrow> send_message u m w1 = Inr w2 \<Longrightarrow> Q w2"
    and serr: "\<And>u m w1 w2 e. Q w1 \<Longrightarrow> send_message u m w1 = Inl (e, w2) \<Longrightarrow> Q w2"
  shows "Q (res_world (renew_branch n pd now w))"
proof -
  let ?parts = "py_split CHR ''_'' (label n)"
  let ?u = "py_int (?parts ! 1)" and ?s = "py_int (?parts ! 2)"
  let ?w1 = "w\<lparr>ledger := extend_subscription ?u ?s (snd pd) (ledger w)\<rparr>"
  have w1: "Q ?w1" by (rule ext)
  show ?thesis
  proof (cases "save_purchase_history ?u (fst pd) (snd pd) Renew_subscription (label n) (operation_id n) now
      (ledger ?w1)")
    case (Inl e)
    then show ?thesis using q w1 by (simp add: renew_branch_def Let_def)
  next
    case (Inr L)
    then have "Q (w\<lparr>ledger := L\<rparr>)" using pur[where wa = w] w1 by simp
    then show ?thesis using q Inr
      by (auto simp: renew_branch_def Let_def split: sum.splits dest: sok serr)
  qed
qed

lemma new_branch_preserves:
  assumes q: "Q w"
    and create: "\<And>u ko w1. create_vpn_key_with_name u st w = (ko, w1) \<Longrightarrow>
       Q w1 \<and> (\<forall>k. ko = Some k \<longrightarrow> ok_id k \<in> set (remote_key_ids w1))"
    and sub: "\<And>w1 u k url dur L. Q w1 \<Longrightarrow> k \<in> set (remote_key_ids w1) \<Longrightarrow>
       save_subscription u k url dur now (ledger w1) = Inr L \<Longrightarrow> Q (w1\<lparr>ledger := L\<rparr>)"
    and pur: "\<And>wa L0 L u a d kd l op. Q (wa\<lparr>ledger := L0\<rparr>) \<Longrightarrow>
       save_purchase_history u a d kd l op now L0 = Inr L \<Longrightarrow> Q (wa\<lparr>ledger := L\<rparr>)"
    and sok: "\<And>u m w1 w2. Q w1 \<Longrightarrow> send_message u m w1 = Inr w2 \<Longrightarrow> Q w2"
    and serr: "\<And>u m w1 w2 e. Q w1 \<Longrightarrow> send_message u m w1 = Inl (e, w2) \<Longrightarrow> Q w2"
  shows "Q (res_world (new_branch n pd now st w))"
proof (cases "length (py_split CHR ''_'' (label n)) < 2 \<or> \<not> py_str_isdigit (py_split CHR ''_'' (label n) ! 0)
    \<or> \<not> py_isdigit (py_split CHR ''_'' (label n) ! 0)")
  case True
  then show ?thesis using q by (auto simp: new_branch_def Let_def)
next
  case False
  let ?u = "py_int (py_split CHR ''_'' (label n) ! 0)"
  obtain ko w1 where c: "create_vpn_key_with_name ?u st w = (ko, w1)" by (cases "create_vpn_key_with_name ?u st w")
  note i1 = create[OF c]
  have run: "new_branch n pd now st w =
    (case ko of
       Some k \<Rightarrow> finish_new_subscription n pd now ?u k w1
     | None \<Rightarrow>
         (case send_message ?u Msg_key_error w1 of
            Inl ew \<Rightarrow> Inl ew
          | Inr w2 \<Rightarrow> Inr (''Error creating VPN key'', w2)))"
    using False c by (simp add: new_branch_def Let_def split: option.splits)
  show ?thesis
  proof (cases ko)
    case None
    then show ?thesis using i1 by (auto simp: run split: sum.splits dest: sok serr)
  next
    case (Some k)
    show ?thesis
    proof (cases "save_subscription ?u (ok_id k) (ok_url k) (days (int (snd pd))) now (ledger w1)")
      case (Inl e)
      then show ?thesis using i1 Some by (simp add: run finish_new_subscription_def)
    next
      case (Inr L)
      have i2: "Q (w1\<lparr>ledger := L\<rparr>)" using sub[OF conjunct1[OF i1] _ Inr] i1 Some by simp
      show ?thesis
      proof (cases "save_purchase_history ?u (fst pd) (snd pd) New_subscription (label n) (operation_id n) now L")
        case (Inl e)
        then show ?thesis using i2 Some \<open>_ = Inr L\<close> by (simp add: run finish_new_subscription_def)
      next
        case (Inr L')
        have "Q (w1\<lparr>ledger := L'\<rparr>)" using pur[where wa = w1] i2 Inr by simp
        then show ?thesis using Some \<open>_ = Inr L\<close> Inr
          by (auto simp: run finish_new_subscription_def split: sum.splits dest: sok serr)
      qed
    qed
  qed
qed

lemma mismatch_notice_preserves:
  assumes "Q w"
    and sok: "\<And>u m w1 w2. Q w1 \<Longrightarrow> send_message u m w1 = Inr w2 \<Longrightarrow> Q w2"
    and serr: "\<And>u m w1 w2 e. Q w1 \<Longrightarrow> send_message u m w1 = Inl (e, w2) \<Longrightarrow> Q w2"
  shows "Q (outcome_world (mismatch_notice n w))"
  using assms(1) by (auto simp: mismatch_notice_def outcome_world_def Let_def split: sum.splits dest: sok serr)

lemma yoomoney_preserves:
  assumes q: "Q w"
    and ext: "\<And>u s d. Q (w\<lparr>ledger := extend_subscription u s d (ledger w)\<rparr>)"
    and create: "\<And>u ko w1. create_vpn_key_with_name u st w = (ko, w1) \<Longrightarrow>
       Q w1 \<and> (\<forall>k. ko = Some k \<longrightarrow> ok_id k \<in> set (remote_key_ids w1))"
    and sub: "\<And>w1 u k url dur L. Q w1 \<Longrightarrow> k \<in> set (remote_key_ids w1) \<Longrightarrow>
       save_subscription u k url dur now (ledger w1) = Inr L \<Longrightarrow> Q (w1\<lparr>ledger := L\<rparr>)"
    and pur: "\<And>wa L0 L u a d kd l op. Q (wa\<lparr>ledger := L0\<rparr>) \<Longrightarrow>
       save_purchase_history u a d kd l op now L0 = Inr L \<Longrightarrow> Q (wa\<lparr>ledger := L\<rparr>)"
    and sok: "\<And>u m w1 w2. Q w1 \<Longrightarrow> send_message u m w1 = Inr w2 \<Longrightarrow> Q w2"
    and serr: "\<And>u m w1 w2 e. Q w1 \<Longrightarrow> send_message u m w1 = Inl (e, w2) \<Longrightarrow> Q w2"
  shows "Q (res_world (yoomoney_notification digest secret now st n w))"
proof -
  have r: "Q (res_world (renew_branch n pd now w))" for pd
    using q ext pur sok serr by (rule renew_branch_preserves)
  have b: "Q (res_world (new_branch n pd now st w))" for pd
    using q create sub pur sok serr by (rule new_branch_preserves)
  have m: "Q (outcome_world (mismatch_notice n w))"
    using q sok serr by (rule mismatch_notice_preserves)
  show ?thesis using q r b m
    by (auto simp: yoomoney_notification_def outcome_world_def split: option.splits sum.splits)
qed

lemma renew_branch_world_inv: "world_inv w \<Longrightarrow> world_inv (res_world (renew_branch n pd now w))"
  by (rule renew_branch_preserves) (auto intro: world_inv_extend world_inv_save_purchase dest: world_inv_send_message)

lemma new_branch_world_inv: "world_inv w \<Longrightarrow> world_inv (res_world (new_branch n pd now st w))"
  by (rule new_branch_preserves)
    (auto intro: world_inv_save_subscription world_inv_save_purchase dest: world_inv_send_message world_inv_create_vpn_key)

lemma yoomoney_route:
  assumes "signature_ok digest secret n" "\<not> operation_processed (operation_id n) (ledger w)"
    and "label n \<noteq> []" "paid_amount n = Some (QCents c)" "(p, d) \<in> set amount_mapping" "\<bar>c - p\<bar> \<le> 1"
  shows "yoomoney_notification digest secret now st n w =
    (if py_startswith (label n) ''renew_'' then renew_branch n (p, d) now w else new_branch n (p, d) now st w)"
proof -
  have "match_amount (QCents c) = Inr (Some (p, d))" using assms(5,6) by (simp add: match_amount_iff)
  then show ?thesis using assms(1-4) by (simp add: yoomoney_notification_def)
qed

lemma yoomoney_world_inv:
  "world_inv w \<Longrightarrow> world_inv (res_world (yoomoney_notification digest secret now st n w))"
  by (rule yoomoney_preserves)
    (auto intro: world_inv_extend world_inv_save_subscription world_inv_save_purchase
      dest: world_inv_send_message world_inv_create_vpn_key)

lemma yoomoney_OK_processed:
  "yoomoney_notification digest secret now st n w = Inr (''OK'', w') \<Longrightarrow>
     signature_ok digest secret n \<and> operation_processed (operation_id n) (ledger w')"
  by (auto simp: yoomoney_notification_def split: if_splits option.splits sum.splits
      dest: renew_branch_OK new_branch_OK)

lemma yoomoney_not_OK:
  "yoomoney_notification digest secret now st n w = Inr (r, w') \<Longrightarrow> r \<noteq> ''OK'' \<Longrightarrow> ledger w' = ledger w"
  by (auto simp: yoomoney_notification_def split: if_splits option.splits sum.splits
      dest: renew_branch_not_OK new_branch_not_OK mismatch_notice_frame)

subsection \<open>Runs of the whole handler\<close>

lemma yoomoney_renew_ok:
  assumes "signature_ok digest secret n" "\<not> operation_processed (operation_id n) (ledger w)"
    and "label n = renew_label u s ts" "paid_amount n = Some (QCents c)"
    and "(p, d) \<in> set amount_mapping" "\<bar>c - p\<bar> \<le> 1" "faults w = []"
  shows "yoomoney_notification digest secret now st n w =
    Inr (''OK'', w\<lparr>ledger := (extend_subscription u s d (ledger w))\<lparr>purchases := purchases (ledger w) @
          [\<lparr>p_user = u, p_amount = p, p_period = d, p_kind = Renew_subscription, p_label = label n,
            p_operation_id = operation_id n, p_recorded_at = now\<rparr>]\<rparr>,
        outbox := outbox w @ [(u, Msg_renewed d)]\<rparr>)"
  using assms yoomoney_route[OF assms(1,2) _ assms(4-6)]
  by (simp add: renew_label_prefix new_label_nonempty renew_branch_ok)

lemma yoomoney_new_ok:
  assumes "signature_ok digest secret n" "\<not> operation_processed (operation_id n) (ledger w)"
    and "label n = new_label u ts" "paid_amount n = Some (QCents c)"
    and "(p, d) \<in> set amount_mapping" "\<bar>c - p\<bar> \<le> 1" "faults w = []" "world_inv w"
  shows "yoomoney_notification digest secret now st n w =
    Inr (''OK'', w\<lparr>ledger := (ledger w)\<lparr>
          subs := subs (ledger w) @ [\<lparr>sub_id = next_id (ledger w), user_id = u, key_id = next_key (remote w),
            access_url = key_url (next_key (remote w)), expires_at = now + days (int d),
            notified_5_days = False, notified_1_day = False, notified_expired = False\<rparr>],
          purchases := purchases (ledger w) @
          [\<lparr>p_user = u, p_amount = p, p_period = d, p_kind = New_subscription, p_label = label n,
            p_operation_id = operation_id n, p_recorded_at = now\<rparr>],
          next_id := Suc (next_id (ledger w))\<rparr>,
        remote := \<lparr>rkeys = rkeys (remote w) @ [\<lparr>ok_id = next_key (remote w), ok_name = key_name u st,
          ok_url = key_url (next_key (remote w))\<rparr>], next_key = Suc (next_key (remote w))\<rparr>,
        outbox := outbox w @ [(u, Msg_paid), (u, Msg_access_url (key_url (next_key (remote w))))]\<rparr>)"
  using assms yoomoney_route[OF assms(1,2) _ assms(4-6)] new_branch_ok[OF assms(7) _ _ assms(2,3)]
  by (simp add: new_label_prefix new_label_nonempty world_inv_def)

subsection \<open>The handler's claims\<close>

lemmas note_eval = signed_note_def signature_ok_def signature_string_def operation_processed_def
  paid_amount_def py_replace_def py_strip_def py_isspace_def parse_decimal_def parse_unsigned_def
  py_lower_char_def is_exp_char_def is_digit_def py_isdigit_def py_int_def digit_val_def num_digits_def
  py_str.simps digit_char_eq_iff eq_digit_char_iff char_of_eq_iff new_label_def renew_label_def py_startswith_def amount_mapping_def

lemma world_inv_pay_world: "world_inv (pay_world fs)"
  by (simp add: world_inv_def ledger_wf_def keys_consistent_def db_key_ids_def remote_key_ids_def remote_wf_def)



text \<open>
  C12: Gateway retries are absorbed: once a notification has been answered \<open>OK\<close>, the
  same notification, delivered again at any later time, is answered \<open>OK\<close> and changes
  nothing.
\<close>

theorem yoomoney_retry_idempotent:
  assumes "yoomoney_notification digest secret now st n w = Inr (''OK'', w')"
  shows "yoomoney_notification digest secret now' st' n w' = Inr (''OK'', w')"
  using yoomoney_OK_processed[OF assms] by (simp add: yoomoney_notification_def)

theorem yoomoney_retry_idempotent_witness:
  "\<exists>w'. yoomoney_notification id ''s3cr3t'' 1000 ''T'' (signed_note ''op1'' ''42_1700000000'' ''500.00'')
          (pay_world []) = Inr (''OK'', w') \<and>
        yoomoney_notification id ''s3cr3t'' 5000 ''U'' (signed_note ''op1'' ''42_1700000000'' ''500.00'') w' =
          Inr (''OK'', w')"
proof -
  let ?n = "signed_note ''op1'' ''42_1700000000'' ''500.00''"
  have l: "label ?n = new_label 42 1700000000"
    by (simp add: signed_note_def new_label_def py_str.simps eq_digit_char_iff)
  have p: "paid_amount ?n = Some (QCents 50000)" by (simp add: note_eval)
  have s: "signature_ok id ''s3cr3t'' ?n" by (simp add: note_eval)
  have o: "\<not> operation_processed (operation_id ?n) (ledger (pay_world []))" by (simp add: note_eval)
  have m: "(50000, 90) \<in> set amount_mapping" by (simp add: amount_mapping_def)
  obtain w' where r: "yoomoney_notification id ''s3cr3t'' 1000 ''T'' ?n (pay_world []) = Inr (''OK'', w')"
    using yoomoney_new_ok[OF s o l p m _ _ world_inv_pay_world, of 1000 "''T''"] by simp
  then show ?thesis using yoomoney_retry_idempotent[OF r, of 5000 "''U''"] by blast
qed

text \<open>
  C13: A new-subscription callback whose label was written by the purchase flow and whose
  amount matches a plan creates one key on the server, one row for the user expiring
  \<open>now + days\<close>, one purchase record keyed by the callback's operation id, and sends the
  user the key's access URL.
\<close>

theorem yoomoney_new_subscription:
  assumes "signature_ok digest secret n" "\<not> operation_processed (operation_id n) (ledger w)"
    and "label n = new_label u ts" "paid_amount n = Some (QCents c)"
    and "(p, d) \<in> set amount_mapping" "\<bar>c - p\<bar> \<le> 1" "faults w = []" "world_inv w"
  shows "yoomoney_notification digest secret now st n w =
    Inr (''OK'', w\<lparr>ledger := (ledger w)\<lparr>
          subs := subs (ledger w) @ [\<lparr>sub_id = next_id (ledger w), user_id = u, key_id = next_key (remote w),
            access_url = key_url (next_key (remote w)), expires_at = now + days (int d),
            notified_5_days = False, notified_1_day = False, notified_expired = False\<rparr>],
          purchases := purchases (ledger w) @
          [\<lparr>p_user = u, p_amount = p, p_period = d, p_kind = New_subscription, p_label = label n,
            p_operation_id = operation_id n, p_recorded_at = now\<rparr>],
          next_id := Suc (next_id (ledger w))\<rparr>,
        remote := \<lparr>rkeys = rkeys (remote w) @ [\<lparr>ok_id = next_key (remote w), ok_name = key_name u st,
          ok_url = key_url (next_key (remote w))\<rparr>], next_key = Suc (next_key (remote w))\<rparr>,
        outbox := outbox w @ [(u, Msg_paid), (u, Msg_access_url (key_url (next_key (remote w))))]\<rparr>)"
  using assms by (rule yoomoney_new_ok)

text \<open>The scenario of the specification: 500.00 with label \<open>42_1700000000\<close>.\<close>

theorem yoomoney_new_subscription_witness:
  "yoomoney_notification id ''s3cr3t'' 1000 ''T'' (signed_note ''op1'' ''42_1700000000'' ''500.00'') (pay_world []) =
   Inr (''OK'', (pay_world [])\<lparr>ledger := (ledger (pay_world []))\<lparr>
      subs := subs (ledger (pay_world [])) @ [\<lparr>sub_id = 2, user_id = 42, key_id = 8, access_url = key_url 8,
         expires_at = 1000 + days 90, notified_5_days = False, notified_1_day = False, notified_expired = False\<rparr>],
      purchases := [\<lparr>p_user = 42, p_amount = 50000, p_period = 90, p_kind = New_subscription,
         p_label = ''42_1700000000'', p_operation_id = ''op1'', p_recorded_at = 1000\<rparr>], next_id := 3\<rparr>,
      remote := \<lparr>rkeys = rkeys (remote (pay_world [])) @ [\<lparr>ok_id = 8, ok_name = key_name 42 ''T'', ok_url = key_url 8\<rparr>],
         next_key = 9\<rparr>,
      outbox := [(42, Msg_paid), (42, Msg_access_url (key_url 8))]\<rparr>)"
proof -
  let ?n = "signed_note ''op1'' ''42_1700000000'' ''500.00''"
  have l: "label ?n = new_label 42 1700000000"
    by (simp add: signed_note_def new_label_def py_str.simps eq_digit_char_iff)
  have p: "paid_amount ?n = Some (QCents 50000)" by (simp add: note_eval)
  have s: "signature_ok id ''s3cr3t'' ?n" by (simp add: note_eval)
  have o: "\<not> operation_processed (operation_id ?n) (ledger (pay_world []))" by (simp add: note_eval)
  have m: "(50000, 90) \<in> set amount_mapping" by (simp add: amount_mapping_def)
  from yoomoney_new_subscription[OF s o l p m _ _ world_inv_pay_world, of 1000 "''T''"] show ?thesis
    by (simp add: signed_note_def)
qed

text \<open>
  C14: Renewal is additive: a callback with a renewal label of the purchase flow extends
  the named row of the named user by the plan's days from its current expiry (not from
  now), records the purchase and tells the user.
\<close>

theorem yoomoney_renewal_additive:
  assumes "signature_ok digest secret n" "\<not> operation_processed (operation_id n) (ledger w)"
    and "label n = renew_label u s ts" "paid_amount n = Some (QCents c)"
    and "(p, d) \<in> set amount_mapping" "\<bar>c - p\<bar> \<le> 1" "faults w = []"
    and "r \<in> set (subs (ledger w))" "sub_id r = s" "user_id r = u"
  shows "\<exists>w'. yoomoney_notification digest secret now st n w = Inr (''OK'', w') \<and>
    r\<lparr>expires_at := expires_at r + days (int d)\<rparr> \<in> set (subs (ledger w')) \<and>
    operation_processed (operation_id n) (ledger w') \<and> outbox w' = outbox w @ [(u, Msg_renewed d)]"
  using yoomoney_renew_ok[OF assms(1-7)] extend_subscription_row[OF assms(8-10)]
  by (simp add: operation_processed_iff)

theorem yoomoney_renewal_additive_witness:
  "\<exists>w'. yoomoney_notification id ''s3cr3t'' 1000 ''T'' (signed_note ''op2'' ''renew_42_1_1700000000'' ''200.00'')
          (pay_world []) = Inr (''OK'', w') \<and>
     (hd (subs (ledger (pay_world []))))\<lparr>expires_at := days 2 + days 30\<rparr> \<in> set (subs (ledger w')) \<and>
     operation_processed ''op2'' (ledger w') \<and> outbox w' = [(42, Msg_renewed 30)]"
proof -
  let ?n = "signed_note ''op2'' ''renew_42_1_1700000000'' ''200.00''"
  have l: "label ?n = renew_label 42 1 1700000000"
    by (simp add: signed_note_def renew_label_def py_str.simps eq_digit_char_iff)
  have p: "paid_amount ?n = Some (QCents 20000)" by (simp add: note_eval)
  have s: "signature_ok id ''s3cr3t'' ?n" by (simp add: note_eval)
  have o: "\<not> operation_processed (operation_id ?n) (ledger (pay_world []))" by (simp add: note_eval)
  have m: "(20000, 30) \<in> set amount_mapping" by (simp add: amount_mapping_def)
  have r: "hd (subs (ledger (pay_world []))) \<in> set (subs (ledger (pay_world [])))" by simp
  from yoomoney_renewal_additive[OF s o l p m _ _ r, of 1000 "''T''"] show ?thesis
    by (simp add: signed_note_def)
qed

text \<open>
  C15: Every answer other than \<open>OK\<close> leaves the ledger as it was: no partial purchase
  record, no row created or extended, so that the gateway's retry can still succeed.
\<close>

theorem yoomoney_error_keeps_ledger:
  assumes "yoomoney_notification digest secret now st n w = Inr (r, w')" and "r \<noteq> ''OK''"
  shows "ledger w' = ledger w"
  using assms by (rule yoomoney_not_OK)

theorem yoomoney_error_keeps_ledger_witness:
  "yoomoney_notification id ''s3cr3t'' 1000 ''T'' (signed_note ''op3'' ''42_1700000000'' ''abc'') (pay_world []) =
     Inr (''Invalid withdraw_amount'', pay_world []) \<and> ''Invalid withdraw_amount'' \<noteq> ''OK'' \<and>
   ledger (pay_world []) = ledger (pay_world [])"
proof -
  have "yoomoney_notification id ''s3cr3t'' 1000 ''T'' (signed_note ''op3'' ''42_1700000000'' ''abc'') (pay_world []) =
     Inr (''Invalid withdraw_amount'', pay_world [])"
    by (simp add: yoomoney_notification_def note_eval)
  with yoomoney_error_keeps_ledger[OF this] show ?thesis by simp
qed

text \<open>
  C16: Whatever the faults of the server and of Telegram, a run of the handler, answered
  or raised, keeps the world invariant: the ledger is well formed, each of its keys is on
  the server, and the server's key ids are fresh.
\<close>

theorem yoomoney_keeps_world_inv:
  "world_inv w \<Longrightarrow> world_inv (res_world (yoomoney_notification digest secret now st n w))"
  by (rule yoomoney_world_inv)

theorem yoomoney_keeps_world_inv_witness:
  "world_inv (pay_world [False, True]) \<and>
   world_inv (res_world (yoomoney_notification id ''s3cr3t'' 1000 ''T''
     (signed_note ''op1'' ''42_1700000000'' ''500.00'') (pay_world [False, True])))"
  using yoomoney_keeps_world_inv[OF world_inv_pay_world] world_inv_pay_world by blast

text \<open>
  C17: The plan is chosen from \<open>withdraw_amount\<close>, a field the signature does not cover:
  any validly signed renewal notification, with its \<open>withdraw_amount\<close> replaced by
  \<open>1000.00\<close>, still passes the signature check and buys the 180-day plan.
\<close>

theorem yoomoney_withdraw_amount_unsigned:
  assumes "signature_ok digest secret n" "\<not> operation_processed (operation_id n) (ledger w)"
    and "label n = renew_label u s ts" "faults w = []"
  shows "yoomoney_notification digest secret now st (n\<lparr>withdraw_amount := ''1000.00''\<rparr>) w =
    Inr (''OK'', w\<lparr>ledger := (extend_subscription u s 180 (ledger w))\<lparr>purchases := purchases (ledger w) @
          [\<lparr>p_user = u, p_amount = 100000, p_period = 180, p_kind = Renew_subscription, p_label = label n,
            p_operation_id = operation_id n, p_recorded_at = now\<rparr>]\<rparr>,
        outbox := outbox w @ [(u, Msg_renewed 180)]\<rparr>)"
proof -
  let ?n = "n\<lparr>withdraw_amount := ''1000.00''\<rparr>"
  have "cents_string 100000 = ''1000.00''"
    by (simp add: cents_string_def py_str.simps digit_char_eq_iff)
  then have "paid_amount ?n = Some (QCents 100000)"
    using paid_amount_cents_string[of ?n 100000] by simp
  moreover have "signature_ok digest secret ?n" using assms(1) by (simp add: signature_ok_def signature_string_def)
  moreover have "(100000, 180) \<in> set amount_mapping" by (simp add: amount_mapping_def)
  ultimately show ?thesis using yoomoney_renew_ok[of digest secret ?n w u s ts 100000 100000 180] assms(2-4)
    by simp
qed

theorem yoomoney_withdraw_amount_unsigned_witness:
  "signature_ok id ''s3cr3t'' (signed_note ''op2'' ''renew_42_1_1700000000'' ''200.00'') \<and>
   yoomoney_notification id ''s3cr3t'' 1000 ''T''
     ((signed_note ''op2'' ''renew_42_1_1700000000'' ''200.00'')\<lparr>withdraw_amount := ''1000.00''\<rparr>) (pay_world []) =
   Inr (''OK'', (pay_world [])\<lparr>ledger := (extend_subscription 42 1 180 (ledger (pay_world [])))\<lparr>purchases :=
          [\<lparr>p_user = 42, p_amount = 100000, p_period = 180, p_kind = Renew_subscription,
            p_label = ''renew_42_1_1700000000'', p_operation_id = ''op2'', p_recorded_at = 1000\<rparr>]\<rparr>,
        outbox := [(42, Msg_renewed 180)]\<rparr>)"
proof -
  let ?n = "signed_note ''op2'' ''renew_42_1_1700000000'' ''200.00''"
  have l: "label ?n = renew_label 42 1 1700000000"
    by (simp add: signed_note_def renew_label_def py_str.simps eq_digit_char_iff)
  have s: "signature_ok id ''s3cr3t'' ?n" by (simp add: note_eval)
  have o: "\<not> operation_processed (operation_id ?n) (ledger (pay_world []))" by (simp add: note_eval)
  from yoomoney_withdraw_amount_unsigned[OF s o l, of 1000 "''T''"] s show ?thesis
    by (simp add: signed_note_def)
qed

text \<open>
  C18: A renewal paid for a row that is not the user's or no longer exists (the sweeper
  deleted it on expiry) is accepted: the answer is \<open>OK\<close> and the purchase is recorded,
  but no row is extended.
\<close>

theorem yoomoney_renewal_of_missing_row:
  assumes "signature_ok digest secret n" "\<not> operation_processed (operation_id n) (ledger w)"
    and "label n = renew_label u s ts" "paid_amount n = Some (QCents c)"
    and "(p, d) \<in> set amount_mapping" "\<bar>c - p\<bar> \<le> 1" "faults w = []"
    and "\<forall>r\<in>set (subs (ledger w)). \<not> (sub_id r = s \<and> user_id r = u)"
  shows "\<exists>w'. yoomoney_notification digest secret now st n w = Inr (''OK'', w') \<and>
    subs (ledger w') = subs (ledger w) \<and> operation_processed (operation_id n) (ledger w')"
  using yoomoney_renew_ok[OF assms(1-7)] assms(8)
  by (simp add: extend_subscription_def operation_processed_iff)

theorem yoomoney_renewal_of_missing_row_witness:
  "\<exists>w'. yoomoney_notification id ''s3cr3t'' 1000 ''T'' (signed_note ''op4'' ''renew_43_1_1700000000'' ''200.00'')
          (pay_world []) = Inr (''OK'', w') \<and>
     subs (ledger w') = subs (ledger (pay_world [])) \<and> operation_processed ''op4'' (ledger w')"
proof -
  let ?n = "signed_note ''op4'' ''renew_43_1_1700000000'' ''200.00''"
  have l: "label ?n = renew_label 43 1 1700000000"
    by (simp add: signed_note_def renew_label_def py_str.simps eq_digit_char_iff)
  have p: "paid_amount ?n = Some (QCents 20000)" by (simp add: note_eval)
  have s: "signature_ok id ''s3cr3t'' ?n" by (simp add: note_eval)
  have o: "\<not> operation_processed (operation_id ?n) (ledger (pay_world []))" by (simp add: note_eval)
  have m: "(20000, 30) \<in> set amount_mapping" by (simp add: amount_mapping_def)
  have r: "\<forall>r\<in>set (subs (ledger (pay_world []))). \<not> (sub_id r = 1 \<and> user_id r = 43)" by simp
  from yoomoney_renewal_of_missing_row[OF s o l p m _ _ r, of 1000 "''T''"] show ?thesis
    by (simp add: signed_note_def)
qed

text \<open>
  C19: A \<open>withdraw_amount\<close> of \<open>NaN\<close> passes the parse and the rounding, and the
  first comparison with a plan price raises \<open>InvalidOperation\<close> out of the handler,
  with nothing changed.
\<close>

theorem yoomoney_nan_amount_raises:
  assumes "signature_ok digest secret n" "\<not> operation_processed (operation_id n) (ledger w)"
    and "label n \<noteq> []" "paid_amount n = Some QNaN"
  shows "yoomoney_notification digest secret now st n w = Inl (InvalidOperation, w)"
  using assms by (simp add: yoomoney_notification_def match_amount_def)

theorem yoomoney_nan_amount_raises_witness:
  "signature_ok id ''s3cr3t'' (signed_note ''op5'' ''42_1700000000'' ''NaN'') \<and>
   paid_amount (signed_note ''op5'' ''42_1700000000'' ''NaN'') = Some QNaN \<and>
   yoomoney_notification id ''s3cr3t'' 1000 ''T'' (signed_note ''op5'' ''42_1700000000'' ''NaN'') (pay_world []) =
     Inl (InvalidOperation, pay_world [])"
proof -
  let ?n = "signed_note ''op5'' ''42_1700000000'' ''NaN''"
  have p: "paid_amount ?n = Some QNaN" by (simp add: note_eval)
  have s: "signature_ok id ''s3cr3t'' ?n" by (simp add: note_eval)
  have o: "\<not> operation_processed (operation_id ?n) (ledger (pay_world []))" by (simp add: note_eval)
  have l: "label ?n \<noteq> []" by (simp add: signed_note_def)
  from yoomoney_nan_amount_raises[OF s o l p] p s show ?thesis by simp
qed

text \<open>
  When the amount matches no plan, the user of a new-purchase label (the label
  \<open>"{user_id}_{timestamp}"\<close> the purchase flow writes) is not told: only labels
  starting with \<open>renew_\<close> or \<open>new_subscribe_\<close> are read for a user id.
\<close>

theorem yoomoney_new_label_mismatch_silent:
  assumes "signature_ok digest secret n" "\<not> operation_processed (operation_id n) (ledger w)"
    and "label n = new_label u ts" "paid_amount n = Some (QCents c)"
    and "\<forall>(p, d)\<in>set amount_mapping. 1 < \<bar>c - p\<bar>"
  shows "yoomoney_notification digest secret now st n w = Inr (''Invalid amount'', w)"
proof -
  have "match_amount (QCents c) = Inr None" using assms(5) by (simp add: match_amount_None)
  then show ?thesis using assms(1-4) new_label_prefix[of u ts]
    by (simp add: yoomoney_notification_def mismatch_notice_def new_label_nonempty)
qed

theorem yoomoney_new_label_mismatch_silent_witness:
  "yoomoney_notification id ''s3cr3t'' 1000 ''T'' (signed_note ''op6'' ''42_1700000000'' ''300.00'') (pay_world []) =
     Inr (''Invalid amount'', pay_world [])"
proof -
  let ?n = "signed_note ''op6'' ''42_1700000000'' ''300.00''"
  have l: "label ?n = new_label 42 1700000000"
    by (simp add: signed_note_def new_label_def py_str.simps eq_digit_char_iff)
  have p: "paid_amount ?n = Some (QCents 30000)" by (simp add: note_eval)
  have s: "signature_ok id ''s3cr3t'' ?n" by (simp add: note_eval)
  have o: "\<not> operation_processed (operation_id ?n) (ledger (pay_world []))" by (simp add: note_eval)
  have m: "\<forall>(p, d)\<in>set amount_mapping. 1 < \<bar>(30000::int) - p\<bar>" by (simp add: amount_mapping_def)
  from yoomoney_new_label_mismatch_silent[OF s o l p m] show ?thesis .
qed

text \<open>
  C20: A renewal label with more than four parts passes every gate up to the tuple
  unpacking \<open>_, user_id_str, sub_id_str, _ = parts\<close>, which raises \<open>ValueError\<close>
  out of the handler, where a malformed label should get an error answer.
\<close>

theorem yoomoney_renew_extra_parts_raises:
  assumes "signature_ok digest secret n" "\<not> operation_processed (operation_id n) (ledger w)"
    and "paid_amount n = Some (QCents c)" "(p, d) \<in> set amount_mapping" "\<bar>c - p\<bar> \<le> 1"
    and "py_startswith (label n) ''renew_''" "4 < length (py_split CHR ''_'' (label n))"
  shows "yoomoney_notification digest secret now st n w = Inl (ValueError, w)"
proof -
  have "label n \<noteq> []" using assms(7) by auto
  then show ?thesis using yoomoney_route[OF assms(1,2) _ assms(3-5)] assms(6,7)
    by (simp add: renew_branch_def Let_def)
qed

theorem yoomoney_renew_extra_parts_raises_witness:
  "yoomoney_notification id ''s3cr3t'' 1000 ''T'' (signed_note ''op7'' ''renew_42_1_17_0'' ''200.00'') (pay_world []) =
     Inl (ValueError, pay_world [])"
proof -
  let ?n = "signed_note ''op7'' ''renew_42_1_17_0'' ''200.00''"
  have p: "paid_amount ?n = Some (QCents 20000)" by (simp add: note_eval)
  have s: "signature_ok id ''s3cr3t'' ?n" by (simp add: note_eval)
  have o: "\<not> operation_processed (operation_id ?n) (ledger (pay_world []))" by (simp add: note_eval)
  have m: "(20000, 30) \<in> set amount_mapping" by (simp add: amount_mapping_def)
  have r: "py_startswith (label ?n) ''renew_''" by (simp add: note_eval)
  have k: "4 < length (py_split CHR ''_'' (label ?n))" by (simp add: signed_note_def)
  from yoomoney_renew_extra_parts_raises[OF s o p m _ r k] show ?thesis by simp
qed

text \<open>
  C21: A new-purchase label whose user id carries a superscript digit (for example
  \<open>4\<^sup>2_1700000000\<close>, with U+00B2) passes \<open>user_id_str.isdigit()\<close>, and the
  following \<open>int(user_id_str)\<close> raises \<open>ValueError\<close> out of the handler: the
  gateway gets a server error for a settled payment, and no key is created.
\<close>

theorem yoomoney_superscript_user_id_raises:
  assumes "signature_ok digest secret n" "\<not> operation_processed (operation_id n) (ledger w)"
    and "paid_amount n = Some (QCents c)" "(p, d) \<in> set amount_mapping" "\<bar>c - p\<bar> \<le> 1"
    and "label n = py_str u @ CHR 0xB2 # ''_'' @ py_str ts"
  shows "yoomoney_notification digest secret now st n w = Inl (ValueError, w)"
proof -
  obtain c0 r0 where h: "py_str u = c0 # r0" "is_digit c0" using py_str_hd_digit by blast
  have ne: "label n \<noteq> []" and nr: "\<not> py_startswith (label n) ''renew_''"
    using assms(6) h digit_not_letter[OF h(2)] by (simp_all add: py_startswith_def)
  have sp: "py_split CHR ''_'' (label n) = [py_str u @ [CHR 0xB2], py_str ts]"
    using assms(6) py_split_append_sep[of "CHR ''_''" "py_str u @ [CHR 0xB2]" "py_str ts"]
    by (simp add: py_split_no_sep)
  have sd: "py_str_isdigit (py_str u @ [CHR 0xB2])" "\<not> py_isdigit (py_str u @ [CHR 0xB2])"
    using py_str_isdigit_py_str[of u]
    by (simp_all add: py_str_isdigit_def is_str_digit_def py_isdigit_def is_digit_def)
  show ?thesis
    using yoomoney_route[OF assms(1,2) ne assms(3-5)] nr sp sd
    by (simp add: new_branch_def Let_def)
qed

theorem yoomoney_superscript_user_id_raises_witness:
  "yoomoney_notification id ''s3cr3t'' 1000 ''T''
     (signed_note ''op8'' (py_str 42 @ CHR 0xB2 # ''_'' @ py_str 1700000000) ''500.00'') (pay_world []) =
   Inl (ValueError, pay_world [])"
proof -
  let ?n = "signed_note ''op8'' (py_str 42 @ CHR 0xB2 # ''_'' @ py_str 1700000000) ''500.00''"
  have p: "paid_amount ?n = Some (QCents 50000)" by (simp add: note_eval)
  have s: "signature_ok id ''s3cr3t'' ?n" by (simp add: note_eval)
  have o: "\<not> operation_processed (operation_id ?n) (ledger (pay_world []))" by (simp add: note_eval)
  have m: "(50000, 90) \<in> set amount_mapping" by (simp add: amount_mapping_def)
  have l: "label ?n = py_str 42 @ CHR 0xB2 # ''_'' @ py_str 1700000000" by (simp add: signed_note_def)
  from yoomoney_superscript_user_id_raises[OF s o p m _ l] show ?thesis by simp
qed

text \<open>
  C22: The amount round trip: a \<open>withdraw_amount\<close> written as \<open>str\<close> of an amount of
  kopecks with two decimals (below the 28 digits of the context's precision) is read
  back by the parse and the rounding to the same amount.
\<close>

theorem withdraw_amount_roundtrip:
  "c < 10 ^ 28 \<Longrightarrow> paid_amount (n\<lparr>withdraw_amount := cents_string c\<rparr>) = Some (QCents (int c))"
  by (rule paid_amount_cents_string) simp_all

theorem withdraw_amount_roundtrip_witness:
  "(50000::nat) < 10 ^ 28 \<and>
   paid_amount ((signed_note ''op1'' ''42_1700000000'' ''0'')\<lparr>withdraw_amount := cents_string 50000\<rparr>) =
     Some (QCents 50000)"
  using withdraw_amount_roundtrip[of 50000 "signed_note ''op1'' ''42_1700000000'' ''0''"] by simp

end
