(* ===== verification/Trial.thy ===== *)
theory Trial
  imports Services
begin

text \<open>
  The trial grant, \<open>handle_test_vpn\<close> of \<open>telegram_bot.py\<close>: a user who has no
  \<open>test_usage\<close> row gets a key valid for one hour. The handler reads the
  \<open>test_usage\<close> count, creates a key through \<open>create_vpn_key_with_name\<close>, and in one
  \<open>try\<close> block saves the row, inserts the \<open>test_usage\<close> row and sends the key with
  three answers; any exception there deletes the key on the server (that failure is
  swallowed) and sends an error answer, which is not guarded. The duration
  \<open>1 / 24\<close> day is the \<open>timedelta\<close> of 3600 seconds (the float rounds to the
  microsecond). Every \<open>message.answer\<close> is a send to the user's chat.
\<close>

text \<open>Consecutive \<open>await callback_query.message.answer(...)\<close> calls.\<close>

fun send_answers :: "uid \<Rightarrow> msg list \<Rightarrow> world \<Rightarrow> outcome" where
  "send_answers u [] w = Inr w"
| "send_answers u (m # ms) w =
     (case send_message u m w of Inl ew \<Rightarrow> Inl ew | Inr w1 \<Rightarrow> send_answers u ms w1)"

text \<open>The \<open>try\<close> block: save the row, record the trial, send the key.\<close>

definition trial_grant :: "uid \<Rightarrow> okey \<Rightarrow> time \<Rightarrow> world \<Rightarrow> outcome" where
  "trial_grant u k now w =
     (case save_subscription u (ok_id k) (ok_url k) (secs 3600) now (ledger w) of
        Inl e \<Rightarrow> Inl (e, w)
      | Inr L \<Rightarrow>
          send_answers u [Msg_trial_key, Msg_access_url (ok_url k), Msg_trial_valid]
            (w\<lparr>ledger := add_test_usage u now L\<rparr>))"

definition handle_test_vpn :: "uid \<Rightarrow> time \<Rightarrow> string \<Rightarrow> world \<Rightarrow> outcome" where
  "handle_test_vpn u now stamp w =
     (if has_used_test u (ledger w) then send_message u Msg_trial_used w
      else
        (case create_vpn_key_with_name u stamp w of
           (None, w1) \<Rightarrow> send_message u Msg_trial_failed w1
         | (Some k, w1) \<Rightarrow>
             (case trial_grant u k now w1 of
                Inr w2 \<Rightarrow> Inr w2
              | Inl (_, w2) \<Rightarrow>
                  send_message u Msg_trial_error (outcome_world (delete_key (ok_id k) w2)))))"

text \<open>A world with one paid row (user 42, key 7) for the concrete runs.\<close>

abbreviation trial_world :: "(uid \<times> time) list \<Rightarrow> bool list \<Rightarrow> world" where
  "trial_world tu fs \<equiv> \<lparr>ledger = \<lparr>subs = [\<lparr>sub_id = 1, user_id = 42, key_id = 7, access_url = key_url 7,
       expires_at = days 30, notified_5_days = False, notified_1_day = False, notified_expired = False\<rparr>],
       test_usage = tu, purchases = [], next_id = 2\<rparr>,
     remote = \<lparr>rkeys = [\<lparr>ok_id = 7, ok_name = ''User_42'', ok_url = key_url 7\<rparr>], next_key = 8\<rparr>,
     outbox = [], faults = fs\<rparr>"

section \<open>Properties\<close>

lemma send_answers_frame:
  "(send_answers u ms w = Inr w' \<longrightarrow> ledger w' = ledger w \<and> remote w' = remote w) \<and>
   (send_answers u ms w = Inl (e, w') \<longrightarrow> ledger w' = ledger w \<and> remote w' = remote w)"
proof (induction ms arbitrary: w)
  case Nil
  then show ?case by simp
next
  case (Cons m ms)
  show ?case
  proof (cases "send_message u m w")
    case (Inl a)
    then show ?thesis by (cases a) (auto dest: ledger_send_message(2))
  next
    case (Inr w1)
    then show ?thesis using Cons.IH[of w1] ledger_send_message(1)[OF Inr] by simp
  qed
qed

lemma send_answers_ok:
  "faults w = [] \<Longrightarrow> send_answers u ms w = Inr (w\<lparr>outbox := outbox w @ map (\<lambda>m. (u, m)) ms\<rparr>)"
  by (induction u ms w rule: send_answers.induct) (simp_all add: send_message_ok)

lemma outcome_world_send_message:
  "ledger (outcome_world (send_message u m w)) = ledger w \<and> remote (outcome_world (send_message u m w)) = remote w"
  by (auto simp: outcome_world_def split: sum.splits dest!: ledger_send_message)

lemma outcome_world_delete_key:
  "ledger (outcome_world (delete_key k w)) = ledger w \<and>
   set (remote_key_ids (outcome_world (delete_key k w))) \<subseteq> set (remote_key_ids w) \<and>
   next_key (remote (outcome_world (delete_key k w))) = next_key (remote w)"
  by (auto simp: outcome_world_def delete_key_def remote_key_ids_def split: sum.splits prod.splits if_splits
      dest!: next_fault_frameD)


lemma outcome_world_send_answers:
  "ledger (outcome_world (send_answers u ms w)) = ledger w \<and> remote (outcome_world (send_answers u ms w)) = remote w"
proof (cases "send_answers u ms w")
  case (Inl a)
  then obtain e w' where r: "send_answers u ms w = Inl (e, w')" by (cases a) auto
  have "ledger w' = ledger w \<and> remote w' = remote w" using send_answers_frame[of u ms w w' e] r by blast
  then show ?thesis using r by (simp add: outcome_world_def)
next
  case (Inr w')
  have "ledger w' = ledger w \<and> remote w' = remote w" using send_answers_frame[of u ms w w'] Inr by blast
  then show ?thesis using Inr by (simp add: outcome_world_def)
qed

lemma trial_grant_cases:
  "(ledger (outcome_world (trial_grant u k now w)) = ledger w \<and> remote (outcome_world (trial_grant u k now w)) = remote w) \<or>
   (\<exists>L. save_subscription u (ok_id k) (ok_url k) (secs 3600) now (ledger w) = Inr L \<and>
      ledger (outcome_world (trial_grant u k now w)) = add_test_usage u now L \<and>
      remote (outcome_world (trial_grant u k now w)) = remote w)"
proof (cases "save_subscription u (ok_id k) (ok_url k) (secs 3600) now (ledger w)")
  case (Inl e)
  then show ?thesis by (simp add: trial_grant_def outcome_world_def)
next
  case (Inr L)
  let ?w = "w\<lparr>ledger := add_test_usage u now L\<rparr>"
  show ?thesis
    using Inr outcome_world_send_answers[of u "[Msg_trial_key, Msg_access_url (ok_url k), Msg_trial_valid]" ?w]
    by (simp add: trial_grant_def del: send_answers.simps)
qed

lemma handle_test_vpn_some:
  assumes "\<not> has_used_test u (ledger w)" and c: "create_vpn_key_with_name u st w = (Some k, w1)"
  shows "ledger (outcome_world (handle_test_vpn u now st w)) = ledger (outcome_world (trial_grant u k now w1))"
proof (cases "trial_grant u k now w1")
  case (Inl a)
  then obtain e w2 where t: "trial_grant u k now w1 = Inl (e, w2)" by (cases a) auto
  then show ?thesis using assms outcome_world_send_message outcome_world_delete_key
    by (simp add: handle_test_vpn_def outcome_world_def[of "Inl _"])
next
  case (Inr w2)
  then show ?thesis using assms by (simp add: handle_test_vpn_def outcome_world_def)
qed

lemma handle_test_vpn_cases:
  "ledger (outcome_world (handle_test_vpn u now st w)) = ledger w \<or>
   (\<exists>k w1 L. create_vpn_key_with_name u st w = (Some k, w1) \<and>
      save_subscription u (ok_id k) (ok_url k) (secs 3600) now (ledger w) = Inr L \<and>
      ledger (outcome_world (handle_test_vpn u now st w)) = add_test_usage u now L)"
proof (cases "has_used_test u (ledger w)")
  case True
  then show ?thesis using outcome_world_send_message by (simp add: handle_test_vpn_def)
next
  case False
  obtain ko w1 where c: "create_vpn_key_with_name u st w = (ko, w1)" by fastforce
  have l1: "ledger w1 = ledger w" using create_vpn_key_with_name_frame[OF c] by simp
  show ?thesis
  proof (cases ko)
    case None
    then show ?thesis using False c l1 outcome_world_send_message by (simp add: handle_test_vpn_def)
  next
    case (Some k)
    have h: "ledger (outcome_world (handle_test_vpn u now st w)) = ledger (outcome_world (trial_grant u k now w1))"
      using handle_test_vpn_some[OF False] c Some by simp
    from trial_grant_cases[of u k now w1] show ?thesis
    proof
      assume "ledger (outcome_world (trial_grant u k now w1)) = ledger w1 \<and> remote (outcome_world (trial_grant u k now w1)) = remote w1"
      then show ?thesis using h l1 by simp
    next
      assume "\<exists>L. save_subscription u (ok_id k) (ok_url k) (secs 3600) now (ledger w1) = Inr L \<and>
        ledger (outcome_world (trial_grant u k now w1)) = add_test_usage u now L \<and>
        remote (outcome_world (trial_grant u k now w1)) = remote w1"
      then show ?thesis using h l1 c Some by auto
    qed
  qed
qed

subsection \<open>Runs of the trial handler\<close>

lemma handle_test_vpn_used:
  "has_used_test u (ledger w) \<Longrightarrow> handle_test_vpn u now st w = send_message u Msg_trial_used w"
  by (simp add: handle_test_vpn_def)

lemma handle_test_vpn_ok:
  assumes "\<not> has_used_test u (ledger w)" "faults w = []" "world_inv w"
  shows "handle_test_vpn u now st w =
    Inr (w\<lparr>ledger := (ledger w)\<lparr>
          subs := subs (ledger w) @ [\<lparr>sub_id = next_id (ledger w), user_id = u, key_id = next_key (remote w),
            access_url = key_url (next_key (remote w)), expires_at = now + secs 3600,
            notified_5_days = False, notified_1_day = False, notified_expired = False\<rparr>],
          test_usage := test_usage (ledger w) @ [(u, now)],
          next_id := Suc (next_id (ledger w))\<rparr>,
        remote := \<lparr>rkeys = rkeys (remote w) @ [\<lparr>ok_id = next_key (remote w), ok_name = key_name u st,
          ok_url = key_url (next_key (remote w))\<rparr>], next_key = Suc (next_key (remote w))\<rparr>,
        outbox := outbox w @ [(u, Msg_trial_key), (u, Msg_access_url (key_url (next_key (remote w)))), (u, Msg_trial_valid)]\<rparr>)"
  using assms fresh_key[of w]
  by (simp add: handle_test_vpn_def create_vpn_key_with_name_ok world_inv_def trial_grant_def
      save_subscription_def add_test_usage_def send_answers_ok del: send_answers.simps)

lemma handle_test_vpn_ledger_wf:
  "ledger_wf (ledger w) \<Longrightarrow> ledger_wf (ledger (outcome_world (handle_test_vpn u now st w)))"
proof -
  assume wf: "ledger_wf (ledger w)"
  from handle_test_vpn_cases[of u now st w] show ?thesis
  proof (elim disjE exE conjE)
    fix k w1 L
    assume "save_subscription u (ok_id k) (ok_url k) (secs 3600) now (ledger w) = Inr L"
      and "ledger (outcome_world (handle_test_vpn u now st w)) = add_test_usage u now L"
    then show ?thesis using wf by (metis ledger_wf_add_test_usage ledger_wf_save_subscription)
  qed (simp add: wf)
qed

text \<open>
  C24: The scenario of the specification: a trial request from a user who has a
  \<open>test_usage\<close> row is rejected: whatever fails, no key is created and no row is
  written; when nothing fails the user is told the trial was used.
\<close>

theorem trial_rejected_when_used:
  assumes "has_used_test u (ledger w)"
  shows "ledger (outcome_world (handle_test_vpn u now st w)) = ledger w \<and>
    remote (outcome_world (handle_test_vpn u now st w)) = remote w \<and>
    (faults w = [] \<longrightarrow> handle_test_vpn u now st w = Inr (w\<lparr>outbox := outbox w @ [(u, Msg_trial_used)]\<rparr>))"
  using handle_test_vpn_used[OF assms] outcome_world_send_message send_message_ok by simp

theorem trial_rejected_when_used_witness:
  "has_used_test 42 (ledger (trial_world [(42, 0)] [])) \<and>
   handle_test_vpn 42 (secs 7200) ''T'' (trial_world [(42, 0)] []) =
     Inr ((trial_world [(42, 0)] [])\<lparr>outbox := [(42, Msg_trial_used)]\<rparr>)"
proof -
  have u: "has_used_test 42 (ledger (trial_world [(42, 0)] []))" by (simp add: has_used_test_def)
  with trial_rejected_when_used[OF u, of "secs 7200" "''T''"] show ?thesis by simp
qed

text \<open>
  C25: A first trial, when nothing fails, creates one key on the server and one row for
  the user expiring one hour from now, records the trial in \<open>test_usage\<close>, and sends
  the key with its three answers.
\<close>

theorem trial_grants_one_hour:
  assumes "\<not> has_used_test u (ledger w)" "faults w = []" "world_inv w"
  shows "handle_test_vpn u now st w =
    Inr (w\<lparr>ledger := (ledger w)\<lparr>
          subs := subs (ledger w) @ [\<lparr>sub_id = next_id (ledger w), user_id = u, key_id = next_key (remote w),
            access_url = key_url (next_key (remote w)), expires_at = now + secs 3600,
            notified_5_days = False, notified_1_day = False, notified_expired = False\<rparr>],
          test_usage := test_usage (ledger w) @ [(u, now)],
          next_id := Suc (next_id (ledger w))\<rparr>,
        remote := \<lparr>rkeys = rkeys (remote w) @ [\<lparr>ok_id = next_key (remote w), ok_name = key_name u st,
          ok_url = key_url (next_key (remote w))\<rparr>], next_key = Suc (next_key (remote w))\<rparr>,
        outbox := outbox w @ [(u, Msg_trial_key), (u, Msg_access_url (key_url (next_key (remote w)))), (u, Msg_trial_valid)]\<rparr>)"
  using assms by (rule handle_test_vpn_ok)

theorem trial_grants_one_hour_witness:
  "\<not> has_used_test 43 (ledger (trial_world [] [])) \<and> world_inv (trial_world [] []) \<and>
   handle_test_vpn 43 0 ''T'' (trial_world [] []) =
     Inr ((trial_world [] [])\<lparr>ledger := (ledger (trial_world [] []))\<lparr>
          subs := subs (ledger (trial_world [] [])) @ [\<lparr>sub_id = 2, user_id = 43, key_id = 8,
            access_url = key_url 8, expires_at = secs 3600,
            notified_5_days = False, notified_1_day = False, notified_expired = False\<rparr>],
          test_usage := [(43, 0)], next_id := 3\<rparr>,
        remote := \<lparr>rkeys = rkeys (remote (trial_world [] [])) @ [\<lparr>ok_id = 8, ok_name = key_name 43 ''T'',
          ok_url = key_url 8\<rparr>], next_key = 9\<rparr>,
        outbox := [(43, Msg_trial_key), (43, Msg_access_url (key_url 8)), (43, Msg_trial_valid)]\<rparr>)"
proof -
  have u: "\<not> has_used_test 43 (ledger (trial_world [] []))" by (simp add: has_used_test_def)
  have i: "world_inv (trial_world [] [])"
    by (simp add: world_inv_def ledger_wf_def keys_consistent_def db_key_ids_def remote_key_ids_def remote_wf_def)
  from trial_grants_one_hour[OF u _ i, of 0 "''T''"] u i show ?thesis by simp
qed

text \<open>
  C26: A trial row is never granted unrecorded: whatever fails, a run of the handler
  that changes the user's rows leaves a \<open>test_usage\<close> row for the user, so a later
  request is rejected.
\<close>

theorem trial_grant_recorded:
  "subs (ledger (outcome_world (handle_test_vpn u now st w))) = subs (ledger w) \<or>
   has_used_test u (ledger (outcome_world (handle_test_vpn u now st w)))"
  using handle_test_vpn_cases[of u now st w] by (auto simp: has_used_test_iff add_test_usage_def)

text \<open>
  C27: When the first answer with the key fails after the row was saved, the \<open>except\<close>
  branch deletes the key on the server but leaves the row: the ledger then holds a row
  whose key does not exist, which section 4.1 of the specification rules out.
\<close>

theorem trial_send_failure_orphans_row:
  "world_inv (trial_world [] [False, False, False, True, False, False]) \<and>
   \<not> keys_consistent (outcome_world (handle_test_vpn 43 0 ''T'' (trial_world [] [False, False, False, True, False, False])))"
  by (simp add: world_inv_def ledger_wf_def keys_consistent_def db_key_ids_def remote_key_ids_def remote_wf_def
      handle_test_vpn_def has_used_test_def create_vpn_key_with_name_def service_defs Let_def trial_grant_def
      save_subscription_def add_test_usage_def outcome_world_def key_name_def next_fault_def)

end
