(* ===== verification/System.thy ===== *)
theory System
  imports Sweeper Reconcile Payment Trial
begin

text \<open>
  The application of \<open>main.py\<close>: \<open>init_db\<close>, then the sweeper and the
  reconciliation started as background tasks, the webhook served by the web server, and
  the bot polling for chat updates, all in one event loop over the shared ledger and
  server. A state of the system is the world with, for each background task, whether it
  is still running: an exception that escapes a task's loop ends the task, while an
  exception of a request handler only fails that request. A schedule is a list of
  events, each a whole sweeper cycle, reconciliation cycle, webhook call or trial
  request, run one after the other; which events occur, in which order, and which calls
  fail, are arbitrary.
\<close>

record system =
  sys_world :: world
  sweeper_alive :: bool
  sync_alive :: bool

datatype event =
    Ev_sweep time                           \<comment> \<open>one cycle of \<open>check_subscriptions\<close> at a time\<close>
  | Ev_sync                                 \<comment> \<open>one cycle of \<open>sync_keys\<close>\<close>
  | Ev_webhook time string notification     \<comment> \<open>a POST to \<open>/yoomoney_notification\<close>\<close>
  | Ev_trial uid time string                \<comment> \<open>a press of the test button\<close>

text \<open>
  One event. A background task that has died ignores its events; the handlers run
  whatever happened before.
\<close>

definition sys_event :: "(string \<Rightarrow> string) \<Rightarrow> string \<Rightarrow> event \<Rightarrow> system \<Rightarrow> system" where
  "sys_event digest secret ev S =
     (case ev of
        Ev_sweep t \<Rightarrow>
          if sweeper_alive S then
            (case check_subscriptions_cycle t (sys_world S) of
               Inl (_, w) \<Rightarrow> S\<lparr>sys_world := w, sweeper_alive := False\<rparr>
             | Inr w \<Rightarrow> S\<lparr>sys_world := w\<rparr>)
          else S
      | Ev_sync \<Rightarrow>
          if sync_alive S then
            (case sync_keys_cycle (sys_world S) of
               Inl (_, w) \<Rightarrow> S\<lparr>sys_world := w, sync_alive := False\<rparr>
             | Inr w \<Rightarrow> S\<lparr>sys_world := w\<rparr>)
          else S
      | Ev_webhook t st n \<Rightarrow>
          S\<lparr>sys_world := res_world (yoomoney_notification digest secret t st n (sys_world S))\<rparr>
      | Ev_trial u t st \<Rightarrow>
          S\<lparr>sys_world := outcome_world (handle_test_vpn u t st (sys_world S))\<rparr>)"

fun sys_run :: "(string \<Rightarrow> string) \<Rightarrow> string \<Rightarrow> event list \<Rightarrow> system \<Rightarrow> system" where
  "sys_run digest secret [] S = S"
| "sys_run digest secret (ev # evs) S = sys_run digest secret evs (sys_event digest secret ev S)"

text \<open>
  \<open>main()\<close>: the system after \<open>init_db\<close>, both tasks running. The database file
  persists across restarts, so the ledger at start is any ledger a previous run left.
\<close>

definition boot :: "world \<Rightarrow> system" where
  "boot w = \<lparr>sys_world = w, sweeper_alive = True, sync_alive = True\<rparr>"

text \<open>A server key set only loses keys, and its id counter is unchanged.\<close>

definition remote_shrinks :: "world \<Rightarrow> world \<Rightarrow> bool" where
  "remote_shrinks w w' \<longleftrightarrow>
     set (remote_key_ids w') \<subseteq> set (remote_key_ids w) \<and> next_key (remote w') = next_key (remote w)"

text \<open>
  The part of \<open>world_inv\<close> that no task breaks: the ledger is well formed and the
  server's ids are fresh. (The trial handler can break \<open>keys_consistent\<close>.)
\<close>

definition store_wf :: "world \<Rightarrow> bool" where
  "store_wf w \<longleftrightarrow> ledger_wf (ledger w) \<and> remote_wf w"

section \<open>Properties\<close>

lemma remote_shrinks_refl [simp]: "remote_shrinks w w"
  by (simp add: remote_shrinks_def)

lemma remote_shrinks_trans: "remote_shrinks w1 w2 \<Longrightarrow> remote_shrinks w2 w3 \<Longrightarrow> remote_shrinks w1 w3"
  by (auto simp: remote_shrinks_def)

lemma remote_shrinks_wf: "remote_wf w \<Longrightarrow> remote_shrinks w w' \<Longrightarrow> remote_wf w'"
  by (auto simp: remote_shrinks_def remote_wf_ids)

lemma remote_shrinks_same: "remote w' = remote w \<Longrightarrow> remote_shrinks w w'"
  by (simp add: remote_shrinks_def remote_key_ids_def)

lemma remote_shrinks_send:
  "send_message u m w = Inr w' \<Longrightarrow> remote_shrinks w w'"
  "send_message u m w = Inl (e, w') \<Longrightarrow> remote_shrinks w w'"
  by (auto intro: remote_shrinks_same dest: ledger_send_message)

lemma remote_shrinks_delete:
  "delete_key k w = Inr w' \<Longrightarrow> remote_shrinks w w'"
  "delete_key k w = Inl (e, w') \<Longrightarrow> remote_shrinks w w'"
  by (auto simp: remote_shrinks_def remote_key_ids_def delete_key_def split: prod.splits if_splits
      dest!: next_fault_frameD)

subsection \<open>Which component changes the server how\<close>

lemma remote_shrinks_upd [simp]:
  "remote_shrinks w (w'\<lparr>ledger := L\<rparr>) = remote_shrinks w w'"
  "remote_shrinks w (w'\<lparr>outbox := ob\<rparr>) = remote_shrinks w w'"
  "remote_shrinks (w\<lparr>ledger := L\<rparr>) w' = remote_shrinks w w'"
  by (simp_all add: remote_shrinks_def remote_key_ids_def)

lemma expire_teardown_shrinks: "remote_shrinks w (outcome_world (expire_teardown r w))"
proof (cases "delete_key (key_id r) w")
  case (Inl a)
  then obtain e w1 where d: "delete_key (key_id r) w = Inl (e, w1)" by (cases a) auto
  then show ?thesis using remote_shrinks_delete(2)[OF d] by (simp add: expire_teardown_def outcome_world_def)
next
  case (Inr w1)
  note d = remote_shrinks_delete(1)[OF Inr]
  let ?w2 = "w1\<lparr>ledger := delete_subscription (sub_id r) (user_id r) (ledger w1)\<rparr>"
  show ?thesis
  proof (cases "send_message (user_id r) Msg_expired ?w2")
    case (Inl a)
    then obtain e w3 where s: "send_message (user_id r) Msg_expired ?w2 = Inl (e, w3)" by (cases a) auto
    have "remote_shrinks w w3" using d remote_shrinks_send(2)[OF s] remote_shrinks_trans by fastforce
    then show ?thesis using Inr s by (simp add: expire_teardown_def outcome_world_def)
  next
    case (Inr w3)
    note s = this
    have "remote_shrinks w w3" using d remote_shrinks_send(1)[OF s] remote_shrinks_trans by fastforce
    then show ?thesis using \<open>delete_key (key_id r) w = Inr w1\<close> s by (simp add: expire_teardown_def outcome_world_def)
  qed
qed

lemma send_outcome_shrinks: "remote_shrinks w (outcome_world (send_message u m w))"
  by (cases "send_message u m w") (auto simp: outcome_world_def dest: remote_shrinks_send)

lemma sweep_sub_shrinks: "remote_shrinks w (outcome_world (sweep_sub now r w))"
proof -
  have n: "\<And>m f. remote_shrinks w (outcome_world (case send_message (user_id r) m w of
      Inl (_, w1) \<Rightarrow> Inr w1 | Inr w1 \<Rightarrow> Inr (w1\<lparr>ledger := f w1\<rparr>)))"
    by (auto simp: outcome_world_def split: sum.splits dest: remote_shrinks_send)
  have e: "remote_shrinks w (outcome_world (case expire_teardown r w of
      Inr w1 \<Rightarrow> Inr w1 | Inl (_, w1) \<Rightarrow> send_message (user_id r) (Msg_delete_failed (key_id r)) w1))"
    using expire_teardown_shrinks[of w r]
    by (auto simp: outcome_world_def split: sum.splits intro: remote_shrinks_trans dest: remote_shrinks_send)
  show ?thesis using n e by (simp add: sweep_sub_def outcome_world_def)
qed

lemma cycle_shrinks: "remote_shrinks w (outcome_world (check_subscriptions_cycle now w))"
  unfolding check_subscriptions_cycle_def
  by (rule sweep_rows_invariant[where I = "\<lambda>w'. remote_shrinks w w'"])
    (auto intro: remote_shrinks_trans sweep_sub_shrinks)

lemma delete_orphan_keys_next_key: "next_key (remote (delete_orphan_keys ks w)) = next_key (remote w)"
proof (induction ks arbitrary: w)
  case Nil
  then show ?case by simp
next
  case (Cons k ks)
  then show ?case
    by (cases "delete_key k w") (auto dest!: remote_shrinks_delete simp: remote_shrinks_def)
qed

lemma sync_shrinks:
  "sync_keys_cycle w = Inr w' \<Longrightarrow> remote_shrinks w w'"
  "sync_keys_cycle w = Inl (e, w') \<Longrightarrow> ledger w' = ledger w \<and> remote w' = remote w"
proof -
  assume a: "sync_keys_cycle w = Inr w'"
  show "remote_shrinks w w'"
  proof (rule sync_keys_cycle_Inr[OF a])
    fix w1
    assume "get_keys w = Inr (rkeys (remote w), w1)" "ledger w1 = ledger w" "remote w1 = remote w" and w': "w' = (delete_orphan_keys (sorted_list_of_set (set (remote_key_ids w) - set (db_key_ids (ledger w)))) w1)
          \<lparr>ledger := delete_orphan_rows (sorted_list_of_set (set (db_key_ids (ledger w)) - set (remote_key_ids w)))
             (ledger w)\<rparr>"
    then show "remote_shrinks w w'"
      using delete_orphan_keys_frame[of _ w1] delete_orphan_keys_next_key[of _ w1]
      by (simp add: remote_shrinks_def remote_key_ids_def)
  qed
next
  assume "sync_keys_cycle w = Inl (e, w')"
  then show "ledger w' = ledger w \<and> remote w' = remote w"
    by (auto simp: sync_keys_cycle_def Let_def split: sum.splits dest: ledger_get_keys(2))
qed

subsection \<open>Each event keeps the invariants\<close>

lemma store_wf_shrinks: "store_wf w \<Longrightarrow> ledger_wf (ledger w') \<Longrightarrow> remote_shrinks w w' \<Longrightarrow> store_wf w'"
  by (auto simp: store_wf_def intro: remote_shrinks_wf)

lemma store_wf_send:
  "store_wf w \<Longrightarrow> send_message u m w = Inr w' \<Longrightarrow> store_wf w'"
  "store_wf w \<Longrightarrow> send_message u m w = Inl (e, w') \<Longrightarrow> store_wf w'"
  by (auto simp: store_wf_def remote_wf_def dest!: ledger_send_message)

lemma store_wf_create:
  "create_vpn_key_with_name u st w = (ko, w1) \<Longrightarrow> store_wf w \<Longrightarrow>
     store_wf w1 \<and> (\<forall>k. ko = Some k \<longrightarrow> ok_id k \<in> set (remote_key_ids w1))"
  by (drule create_vpn_key_with_name_frame) (auto simp: store_wf_def)

lemma store_wf_save_subscription:
  "store_wf w \<Longrightarrow> save_subscription u k url dur now (ledger w) = Inr L \<Longrightarrow> store_wf (w\<lparr>ledger := L\<rparr>)"
  by (auto simp: store_wf_def remote_wf_def intro: ledger_wf_save_subscription)

lemma store_wf_save_purchase:
  "store_wf (w\<lparr>ledger := L0\<rparr>) \<Longrightarrow> save_purchase_history u a d kd l op now L0 = Inr L \<Longrightarrow> store_wf (w\<lparr>ledger := L\<rparr>)"
  by (auto simp: store_wf_def remote_wf_def intro: ledger_wf_save_purchase_history)

lemma store_wf_extend: "store_wf w \<Longrightarrow> store_wf (w\<lparr>ledger := extend_subscription u s d (ledger w)\<rparr>)"
  by (simp add: store_wf_def remote_wf_def ledger_wf_extend_subscription)

lemma yoomoney_store_wf:
  "store_wf w \<Longrightarrow> store_wf (res_world (yoomoney_notification digest secret now st n w))"
  by (rule yoomoney_preserves)
    (auto intro: store_wf_extend store_wf_save_subscription store_wf_save_purchase
      dest: store_wf_send store_wf_create)

lemma sweep_store_wf: "store_wf w \<Longrightarrow> store_wf (outcome_world (check_subscriptions_cycle now w))"
  by (rule store_wf_shrinks) (auto simp: store_wf_def intro: cycle_ledger_wf cycle_shrinks)

lemma ledger_wf_delete_orphan_rows: "ledger_wf L \<Longrightarrow> ledger_wf (delete_orphan_rows ks L)"
  by (induction ks arbitrary: L) (simp_all add: ledger_wf_delete_rows_with_key)

lemma sync_store_wf:
  assumes "store_wf w" shows "store_wf (outcome_world (sync_keys_cycle w))"
proof (cases "sync_keys_cycle w")
  case (Inl a)
  then obtain e w' where r: "sync_keys_cycle w = Inl (e, w')" by (cases a) auto
  then show ?thesis using sync_shrinks(2)[OF r] assms by (simp add: outcome_world_def store_wf_def remote_wf_def)
next
  case (Inr w')
  have "ledger_wf (ledger w')"
  proof (rule sync_keys_cycle_Inr[OF Inr])
    fix w1 assume "ledger w1 = ledger w"
      and w': "w' = (delete_orphan_keys (sorted_list_of_set (set (remote_key_ids w) - set (db_key_ids (ledger w)))) w1)
          \<lparr>ledger := delete_orphan_rows (sorted_list_of_set (set (db_key_ids (ledger w)) - set (remote_key_ids w)))
             (ledger w)\<rparr>"
    then show "ledger_wf (ledger w')" using assms by (simp add: store_wf_def ledger_wf_delete_orphan_rows)
  qed
  then show ?thesis using store_wf_shrinks[OF assms _ sync_shrinks(1)[OF Inr]] Inr by (simp add: outcome_world_def)
qed

lemma handle_test_vpn_remote_wf:
  assumes rw: "remote_wf w" shows "remote_wf (outcome_world (handle_test_vpn u now st w))"
proof (cases "has_used_test u (ledger w)")
  case True
  then show ?thesis using rw outcome_world_send_message[of u Msg_trial_used w]
    by (simp add: handle_test_vpn_def remote_wf_def)
next
  case False
  obtain ko w1 where c: "create_vpn_key_with_name u st w = (ko, w1)" by fastforce
  have rw1: "remote_wf w1" using create_vpn_key_with_name_frame[OF c] rw by simp
  show ?thesis
  proof (cases ko)
    case None
    then show ?thesis using False c rw1 outcome_world_send_message[of u Msg_trial_failed w1]
      by (simp add: handle_test_vpn_def remote_wf_def)
  next
    case (Some k)
    have g: "remote (outcome_world (trial_grant u k now w1)) = remote w1"
      using trial_grant_cases[of u k now w1] by auto
    show ?thesis
    proof (cases "trial_grant u k now w1")
      case (Inl a)
      then obtain e w2 where t: "trial_grant u k now w1 = Inl (e, w2)" by (cases a) auto
      let ?w3 = "outcome_world (delete_key (ok_id k) w2)"
      have "remote w2 = remote w1" using g t by (simp add: outcome_world_def)
      then have "remote_wf ?w3"
        using rw1 remote_shrinks_wf[of w2 ?w3] remote_shrinks_delete[of "ok_id k" w2]
        by (cases "delete_key (ok_id k) w2") (auto simp: outcome_world_def remote_wf_def)
      then show ?thesis using False c Some t outcome_world_send_message[of u Msg_trial_error ?w3]
        by (simp add: handle_test_vpn_def remote_wf_def)
    next
      case (Inr w2)
      then show ?thesis using False c Some g rw1 by (simp add: handle_test_vpn_def outcome_world_def remote_wf_def)
    qed
  qed
qed

lemma trial_store_wf: "store_wf w \<Longrightarrow> store_wf (outcome_world (handle_test_vpn u now st w))"
  by (simp add: store_wf_def handle_test_vpn_ledger_wf handle_test_vpn_remote_wf)

subsection \<open>An interleaving at an await point\<close>

lemma new_purchase_sync_race_run:
  assumes inv: "world_inv w" and f: "faults w = []" and np: "\<not> operation_processed (operation_id n) (ledger w)"
  shows "\<exists>k w1 w2 w3 w4. create_vpn_key_with_name u st w = (Some k, w1) \<and> sync_keys_cycle w1 = Inr w2 \<and>
    finish_new_subscription n (p, d) now u k w2 = Inr (''OK'', w3) \<and>
    \<not> keys_consistent w3 \<and> (u, Msg_access_url (ok_url k)) \<in> set (outbox w3) \<and>
    sync_keys_cycle w3 = Inr w4 \<and> ok_id k \<notin> set (db_key_ids (ledger w4)) \<and>
    operation_processed (operation_id n) (ledger w4)"
proof -
  have kc: "keys_consistent w" and rwf: "remote_wf w" using inv by (simp_all add: world_inv_def)
  define k where "k = \<lparr>ok_id = next_key (remote w), ok_name = key_name u st, ok_url = key_url (next_key (remote w))\<rparr>"
  define w1 where "w1 = w\<lparr>remote := \<lparr>rkeys = rkeys (remote w) @ [k], next_key = Suc (next_key (remote w))\<rparr>\<rparr>"
  have c: "create_vpn_key_with_name u st w = (Some k, w1)"
    using create_vpn_key_with_name_ok[OF f rwf] by (simp add: k_def w1_def)
  have fresh: "ok_id k \<notin> set (map key_id (subs (ledger w)))" using fresh_key[OF kc rwf] by (simp add: k_def)
  define w2 where "w2 = sync_spec w1"
  have s1: "sync_keys_cycle w1 = Inr w2" using sync_cycle_eq_spec[of w1] f by (simp add: w1_def w2_def)
  have l2: "ledger w2 = ledger w"
  proof -
    have "\<forall>r\<in>set (subs (ledger w)). key_id r \<in> set (remote_key_ids w1)"
      using kc by (auto simp: keys_consistent_def db_key_ids_def remote_key_ids_def w1_def)
    then show ?thesis by (simp add: w2_def sync_spec_def w1_def)
  qed
  have r2: "ok_id k \<notin> set (remote_key_ids w2)"
    using fresh by (auto simp: w2_def sync_spec_def remote_key_ids_def db_key_ids_def w1_def)
  have f2: "faults w2 = []" using f by (simp add: w2_def w1_def sync_spec_def)
  define row where "row = \<lparr>sub_id = next_id (ledger w), user_id = u, key_id = ok_id k, access_url = ok_url k,
    expires_at = now + days (int d), notified_5_days = False, notified_1_day = False, notified_expired = False\<rparr>"
  define pr where "pr = \<lparr>p_user = u, p_amount = p, p_period = d, p_kind = New_subscription, p_label = label n,
    p_operation_id = operation_id n, p_recorded_at = now\<rparr>"
  define w3 where "w3 = w2\<lparr>ledger := (ledger w)\<lparr>subs := subs (ledger w) @ [row], next_id := Suc (next_id (ledger w)),
    purchases := purchases (ledger w) @ [pr]\<rparr>, outbox := outbox w2 @ [(u, Msg_paid), (u, Msg_access_url (ok_url k))]\<rparr>"
  have fin: "finish_new_subscription n (p, d) now u k w2 = Inr (''OK'', w3)"
    using fresh np f2 l2
    by (simp add: finish_new_subscription_def save_subscription_def save_purchase_history_def
        operation_processed_iff send_message_ok w3_def row_def pr_def)
  have nk: "\<not> keys_consistent w3"
    using r2 by (auto simp: keys_consistent_def db_key_ids_def w3_def row_def remote_key_ids_def)
  have m: "(u, Msg_access_url (ok_url k)) \<in> set (outbox w3)" by (simp add: w3_def)
  define w4 where "w4 = sync_spec w3"
  have s2: "sync_keys_cycle w3 = Inr w4" using sync_cycle_eq_spec[of w3] f2 by (simp add: w3_def w4_def)
  have gone: "ok_id k \<notin> set (db_key_ids (ledger w4))"
    using r2 by (auto simp: w4_def sync_spec_def db_key_ids_def remote_key_ids_def w3_def)
  have kept: "operation_processed (operation_id n) (ledger w4)"
    by (simp add: w4_def sync_spec_def w3_def operation_processed_iff pr_def)
  show ?thesis using c s1 fin nk m s2 gone kept by blast
qed

lemma sweep_world_inv: "world_inv w \<Longrightarrow> world_inv (outcome_world (check_subscriptions_cycle now w))"
  using sweep_store_wf[of w now] cycle_keys_consistent[of w now] by (simp add: world_inv_def store_wf_def)

lemma sync_world_inv: "world_inv w \<Longrightarrow> world_inv (outcome_world (sync_keys_cycle w))"
proof (cases "sync_keys_cycle w")
  case (Inl a)
  assume inv: "world_inv w"
  obtain e w' where r: "sync_keys_cycle w = Inl (e, w')" using Inl by (cases a) auto
  then show ?thesis using sync_shrinks(2)[OF r] inv
    by (simp add: outcome_world_def world_inv_def keys_consistent_def remote_key_ids_def remote_wf_def)
next
  case (Inr w')
  assume inv: "world_inv w"
  then show ?thesis using sync_store_wf[of w] sync_cycle_consistent[OF Inr] Inr
    by (simp add: world_inv_def store_wf_def outcome_world_def)
qed

lemma sys_event_store_wf:
  "store_wf (sys_world S) \<Longrightarrow> store_wf (sys_world (sys_event digest secret ev S))"
proof (cases ev)
  case (Ev_sweep t)
  assume "store_wf (sys_world S)"
  then show ?thesis using sweep_store_wf[of "sys_world S" t] Ev_sweep
    by (auto simp: sys_event_def outcome_world_def split: sum.splits)
next
  case Ev_sync
  assume "store_wf (sys_world S)"
  then show ?thesis using sync_store_wf[of "sys_world S"] Ev_sync
    by (auto simp: sys_event_def outcome_world_def split: sum.splits)
next
  case (Ev_webhook t st n)
  assume "store_wf (sys_world S)"
  then show ?thesis using yoomoney_store_wf Ev_webhook by (simp add: sys_event_def)
next
  case (Ev_trial u t st)
  assume "store_wf (sys_world S)"
  then show ?thesis using trial_store_wf Ev_trial by (simp add: sys_event_def)
qed

subsection \<open>Claims on the whole system\<close>

text \<open>
  C28: The webhook and the reconciliation race. The new-subscription route awaits the
  database between creating the key and saving the row; a reconciliation cycle that
  runs there sees a server key no row holds and deletes it. The route then saves the
  row, records the purchase and sends the user the URL of the deleted key, leaving a
  ledger key that is not on the server; the next reconciliation deletes the paid row,
  and the recorded purchase makes every retry of the notification a no-op.
\<close>

theorem new_purchase_sync_race:
  assumes "world_inv w" and "faults w = []" and "\<not> operation_processed (operation_id n) (ledger w)"
  shows "\<exists>k w1 w2 w3 w4. create_vpn_key_with_name u st w = (Some k, w1) \<and> sync_keys_cycle w1 = Inr w2 \<and>
    finish_new_subscription n (p, d) now u k w2 = Inr (''OK'', w3) \<and>
    \<not> keys_consistent w3 \<and> (u, Msg_access_url (ok_url k)) \<in> set (outbox w3) \<and>
    sync_keys_cycle w3 = Inr w4 \<and> ok_id k \<notin> set (db_key_ids (ledger w4)) \<and>
    operation_processed (operation_id n) (ledger w4)"
  using assms by (rule new_purchase_sync_race_run)

theorem new_purchase_sync_race_witness:
  "world_inv (pay_world []) \<and> \<not> operation_processed ''op1'' (ledger (pay_world [])) \<and>
   (\<exists>k w1 w2 w3 w4. create_vpn_key_with_name 42 ''T'' (pay_world []) = (Some k, w1) \<and> sync_keys_cycle w1 = Inr w2 \<and>
    finish_new_subscription (signed_note ''op1'' ''42_1700000000'' ''500.00'') (50000, 90) 1000 42 k w2 = Inr (''OK'', w3) \<and>
    \<not> keys_consistent w3 \<and> (42, Msg_access_url (ok_url k)) \<in> set (outbox w3) \<and>
    sync_keys_cycle w3 = Inr w4 \<and> ok_id k \<notin> set (db_key_ids (ledger w4)) \<and>
    operation_processed ''op1'' (ledger w4))"
proof -
  have o: "\<not> operation_processed (operation_id (signed_note ''op1'' ''42_1700000000'' ''500.00'')) (ledger (pay_world []))"
    by (simp add: signed_note_def operation_processed_def)
  have "operation_id (signed_note ''op1'' ''42_1700000000'' ''500.00'') = ''op1''" by (simp add: signed_note_def)
  with new_purchase_sync_race[OF world_inv_pay_world _ o, of 42 "''T''" 50000 90 1000] o world_inv_pay_world
  show ?thesis by simp
qed

end
