(* ===== verification/Chat.thy ===== *)
theory Chat
  imports Payment Trial PyUrl
begin

text \<open>
  The chat front end of \<open>telegram_bot.py\<close>: the \<open>/start\<close> command, the callback
  handlers of the inline menus, the callback router of the dispatcher and the payment
  link of \<open>generate_payment_link\<close>. A handler's value is the list of its
  \<open>message.answer\<close> calls, each a \<open>reply\<close>: a text (the Russian literals of the
  source as constructors of \<open>rtext\<close>, with the numbers they format) and an inline
  keyboard of \<open>button\<close> rows. A callback button carries its \<open>callback_data\<close>, a URL
  button its link. Handlers that parse their callback data can raise (\<open>int()\<close>, a
  list subscript): their value is then \<open>Inl\<close> of the exception, raised before any
  answer. The answers themselves are not fault-injected here: these handlers change
  no state, so a failed answer only drops the later ones. The users table written by
  \<open>add_user\<close> (not in the sources) is a list of ids with \<open>INSERT OR IGNORE\<close>.
  \<open>handle_test_vpn\<close> is the one callback that changes the world; it is theory
  \<open>Trial\<close>. The remaining time of \<open>handle_my_keys\<close> is read at one instant for all
  rows, and its dates are the raw timestamps (the \<open>strftime\<close> rendering is not
  modelled). The item descriptions of the payment form are the source's Russian
  texts transliterated to ASCII.
\<close>

subsection \<open>Replies and keyboards\<close>

datatype btext =
    B_my_keys | B_pay_subscription | B_instruction | B_test_vpn | B_renew | B_buy_more
  | B_subscribe
  | B_plan nat nat          \<comment> \<open>"{days} days - {rubles} rubles"\<close>
  | B_pay nat               \<comment> \<open>"pay {rubles} rubles"\<close>
  | B_key string time       \<comment> \<open>"key {last 10 characters}, until {date}"\<close>

datatype button = Cb_button btext string | Url_button btext string

datatype rtext =
    R_choose_action | R_instruction | R_your_keys | R_access_url string
  | R_days_left nat         \<comment> \<open>"{n} days left"\<close>
  | R_hours_less nat        \<comment> \<open>"less than {n} hours left"\<close>
  | R_minutes_less nat      \<comment> \<open>"less than {n} minutes left"\<close>
  | R_expired | R_renew_or_buy | R_no_subs | R_choose_new_period | R_no_subs_to_renew
  | R_choose_sub | R_choose_renew_period | R_bad_period
  | R_pay_new int           \<comment> \<open>"to pay for {period} days press the button"\<close>
  | R_bad_renew_data
  | R_pay_renew int         \<comment> \<open>"to renew for {period} days press the button"\<close>

datatype reply = Reply rtext "button list list"

record chat_config =
  yoomoney_wallet :: string
  notification_url :: string

subsection \<open>Helpers\<close>

text \<open>\<open>choose_renewal_period(message, sub_id)\<close>.\<close>

definition choose_renewal_period :: "int \<Rightarrow> reply list" where
  "choose_renewal_period s =
     [Reply R_choose_renew_period
        [[Cb_button (B_plan 30 200) (''renew_'' @ py_str_int s @ ''_30'')],
         [Cb_button (B_plan 90 500) (''renew_'' @ py_str_int s @ ''_90'')],
         [Cb_button (B_plan 180 1000) (''renew_'' @ py_str_int s @ ''_180'')]]]"

text \<open>The \<open>params\<close> dictionary of \<open>generate_payment_link\<close>, in its order.\<close>

definition payment_params :: "chat_config \<Rightarrow> nat \<Rightarrow> string \<Rightarrow> string \<Rightarrow> (string \<times> string) list" where
  "payment_params cfg amt lbl desc =
     [(''receiver'', yoomoney_wallet cfg), (''quickpay-form'', ''shop''), (''targets'', desc),
      (''paymentType'', ''AC''), (''sum'', py_str amt), (''label'', lbl),
      (''formcomment'', desc), (''short-dest'', desc), (''comment'', desc),
      (''need-fio'', ''false''), (''need-email'', ''false''), (''need-phone'', ''false''),
      (''need-address'', ''false''), (''notificationURL'', notification_url cfg)]"

definition quickpay_url :: string where
  "quickpay_url = ''https://yoomoney.ru/quickpay/confirm.xml?''"

definition generate_payment_link :: "chat_config \<Rightarrow> nat \<Rightarrow> string \<Rightarrow> string \<Rightarrow> string" where
  "generate_payment_link cfg amt lbl desc = quickpay_url @ urlencode (payment_params cfg amt lbl desc)"

subsection \<open>Handlers\<close>

definition add_user :: "uid \<Rightarrow> uid list \<Rightarrow> uid list" where
  "add_user u us = (if u \<in> set us then us else us @ [u])"

definition start_keyboard :: "bool \<Rightarrow> button list list" where
  "start_keyboard used =
     (let kb = [[Cb_button B_my_keys ''my_keys''], [Cb_button B_pay_subscription ''buy_new_key''],
                [Cb_button B_instruction ''instruction'']]
      in if \<not> used then py_insert 1 [Cb_button B_test_vpn ''test_vpn''] kb else kb)"

definition start :: "uid \<Rightarrow> uid list \<Rightarrow> ledger \<Rightarrow> uid list \<times> reply list" where
  "start u us L = (add_user u us, [Reply R_choose_action (start_keyboard (has_used_test u L))])"

definition handle_instruction :: "reply list" where
  "handle_instruction = [Reply R_instruction []]"

text \<open>The remaining-time answer: \<open>total_seconds()\<close> against 86400, 3600 and 0.\<close>

definition time_left_text :: "time \<Rightarrow> time \<Rightarrow> rtext" where
  "time_left_text now e =
     (let t = e - now in
      if secs 86400 < t then R_days_left (nat (t div secs 86400))
      else if secs 3600 < t \<and> t \<le> secs 86400 then R_hours_less (nat (t div secs 3600))
      else if 0 < t \<and> t \<le> secs 3600 then R_minutes_less (nat (t div secs 60))
      else R_expired)"

definition handle_my_keys :: "uid \<Rightarrow> time \<Rightarrow> ledger \<Rightarrow> reply list" where
  "handle_my_keys u now L =
     (let ss = get_subscriptions u L in
      if ss \<noteq> [] then
        Reply R_your_keys [] #
        concat (map (\<lambda>r. [Reply (R_access_url (access_url r)) [],
                          Reply (time_left_text now (expires_at r)) []]) ss) @
        [Reply R_renew_or_buy [[Cb_button B_renew ''renew_subscription''],
                               [Cb_button B_buy_more ''buy_new_key'']]]
      else [Reply R_no_subs [[Cb_button B_subscribe ''buy_new_key'']]])"

definition handle_buy_new_key :: "reply list" where
  "handle_buy_new_key =
     [Reply R_choose_new_period
        [[Cb_button (B_plan 30 200) ''new_subscribe_30''],
         [Cb_button (B_plan 90 500) ''new_subscribe_90''],
         [Cb_button (B_plan 180 1000) ''new_subscribe_180'']]]"

text \<open>\<open>sub['access_url'][-10:]\<close>.\<close>

definition last10 :: "string \<Rightarrow> string" where
  "last10 s = drop (length s - 10) s"

definition handle_renew_subscription :: "uid \<Rightarrow> ledger \<Rightarrow> reply list" where
  "handle_renew_subscription u L =
     (let ss = get_subscriptions u L in
      if ss = [] then [Reply R_no_subs_to_renew []]
      else if length ss = 1 then choose_renewal_period (int (sub_id (hd ss)))
      else [Reply R_choose_sub
              (map (\<lambda>r. [Cb_button (B_key (last10 (access_url r)) (expires_at r))
                                   (''choose_sub_'' @ py_str (sub_id r))]) ss)])"

definition handle_choose_subscription :: "string \<Rightarrow> exn + reply list" where
  "handle_choose_subscription d =
     (case py_index (py_split CHR ''_'' d) 2 of
        Inl e \<Rightarrow> Inl e
      | Inr p \<Rightarrow> (case py_int_parse p of Inl e \<Rightarrow> Inl e | Inr s \<Rightarrow> Inr (choose_renewal_period s)))"

text \<open>The local \<open>amount_mapping\<close> of the two purchase handlers: days to rubles.\<close>

definition chat_amount_mapping :: "(int \<times> nat) list" where
  "chat_amount_mapping = [(30, 200), (90, 500), (180, 1000)]"

definition new_description :: "int \<Rightarrow> string" where
  "new_description p = ''Podpiska na '' @ py_str_int p @ '' dney''"

definition renew_description :: "int \<Rightarrow> string" where
  "renew_description p = ''Prodlenie podpiski na '' @ py_str_int p @ '' dney''"

definition process_new_subscription ::
  "chat_config \<Rightarrow> uid \<Rightarrow> nat \<Rightarrow> string \<Rightarrow> exn + reply list" where
  "process_new_subscription cfg u ts d =
     (case py_index (py_split CHR ''_'' d) 2 of
        Inl e \<Rightarrow> Inl e
      | Inr ps \<Rightarrow>
          (case py_int_parse ps of
             Inl e \<Rightarrow> Inl e
           | Inr period \<Rightarrow>
               (case map_of chat_amount_mapping period of
                  None \<Rightarrow> Inr [Reply R_bad_period []]
                | Some amt \<Rightarrow>
                    (let link = generate_payment_link cfg amt (new_label u ts) (new_description period)
                     in Inr [Reply (R_pay_new period) [[Url_button (B_pay amt) link]]]))))"

text \<open>\<open>f"renew_{user_id}_{sub_id}_{ts}"\<close> with the parsed (possibly negative) \<open>sub_id\<close>.\<close>

definition renew_payment_label :: "uid \<Rightarrow> int \<Rightarrow> nat \<Rightarrow> string" where
  "renew_payment_label u s ts = ''renew_'' @ py_str u @ ''_'' @ py_str_int s @ ''_'' @ py_str ts"

definition process_renew_subscription ::
  "chat_config \<Rightarrow> uid \<Rightarrow> nat \<Rightarrow> string \<Rightarrow> exn + reply list" where
  "process_renew_subscription cfg u ts d =
     (let parts = py_split CHR ''_'' d in
      if length parts \<noteq> 3 then Inr [Reply R_bad_renew_data []]
      else
        (case py_int_parse (parts ! 1) of
           Inl e \<Rightarrow> Inl e
         | Inr s \<Rightarrow>
             (case py_int_parse (parts ! 2) of
                Inl e \<Rightarrow> Inl e
              | Inr period \<Rightarrow>
                  (case map_of chat_amount_mapping period of
                     None \<Rightarrow> Inr [Reply R_bad_period []]
                   | Some amt \<Rightarrow>
                       (let link = generate_payment_link cfg amt (renew_payment_label u s ts)
                                     (renew_description period)
                        in Inr [Reply (R_pay_renew period) [[Url_button (B_pay amt) link]]])))))"

definition handle_pay_subscription :: "reply list" where
  "handle_pay_subscription =
     [Reply R_choose_action [[Cb_button B_buy_more ''buy_new_key''], [Cb_button B_renew ''renew_subscription'']]]"

subsection \<open>The callback router\<close>

text \<open>
  The dispatcher tries the callback handlers in the order they are registered and runs
  the first whose filter accepts the data: \<open>F.data == ...\<close> or
  \<open>F.data.startswith(...)\<close>.
\<close>

datatype handler =
    H_instruction | H_my_keys | H_buy_new_key | H_renew_subscription | H_choose_subscription
  | H_new_subscription | H_renew | H_pay_subscription | H_test_vpn

definition callback_routes :: "((string \<Rightarrow> bool) \<times> handler) list" where
  "callback_routes =
     [(\<lambda>d. d = ''instruction'', H_instruction),
      (\<lambda>d. d = ''my_keys'', H_my_keys),
      (\<lambda>d. d = ''buy_new_key'', H_buy_new_key),
      (\<lambda>d. d = ''renew_subscription'', H_renew_subscription),
      (\<lambda>d. py_startswith d ''choose_sub_'', H_choose_subscription),
      (\<lambda>d. py_startswith d ''new_subscribe_'', H_new_subscription),
      (\<lambda>d. py_startswith d ''renew_'', H_renew),
      (\<lambda>d. d = ''pay_subscription'', H_pay_subscription),
      (\<lambda>d. d = ''test_vpn'', H_test_vpn)]"

definition route_callback :: "string \<Rightarrow> handler option" where
  "route_callback d = map_option snd (find (\<lambda>(f, h). f d) callback_routes)"

subsection \<open>Reading replies\<close>

text \<open>The buttons of a list of answers, row by row, and the payload a button carries.\<close>

fun reply_keyboard :: "reply \<Rightarrow> button list list" where
  "reply_keyboard (Reply _ kb) = kb"

definition menu_buttons :: "reply list \<Rightarrow> button list" where
  "menu_buttons rs = concat (concat (map reply_keyboard rs))"

fun button_data :: "button \<Rightarrow> string" where
  "button_data (Cb_button _ d) = d"
| "button_data (Url_button _ l) = l"

section \<open>Properties\<close>

subsection \<open>Routing and parsing of the menu callbacks\<close>

lemma route_renew_subscription: "route_callback ''renew_subscription'' = Some H_renew_subscription"
  by (simp add: route_callback_def callback_routes_def py_startswith_def)

lemma split_renew_button:
  "py_split CHR ''_'' (''renew_'' @ py_str s @ ''_'' @ p) = ''renew'' # py_str s # py_split CHR ''_'' p"
  by (simp add: py_split_append_sep)

lemma route_renew_button:
  "route_callback (''renew_'' @ py_str s @ ''_'' @ p) = Some H_renew"
proof -
  obtain c r where s: "py_str s = c # r" "is_digit c" using py_str_hd_digit by blast
  have "c \<noteq> CHR ''s''" using s(2) by (auto simp: is_digit_def)
  then show ?thesis using s by (simp add: route_callback_def callback_routes_def py_startswith_def)
qed

lemma route_choose_sub: "route_callback (''choose_sub_'' @ py_str s) = Some H_choose_subscription"
  by (simp add: route_callback_def callback_routes_def py_startswith_def)

lemma handle_choose_sub: "handle_choose_subscription (''choose_sub_'' @ py_str s) = Inr (choose_renewal_period (int s))"
  by (simp add: handle_choose_subscription_def py_split_append_sep py_split_no_sep py_index_def)

lemma route_new_subscribe: "route_callback (''new_subscribe_'' @ x) = Some H_new_subscription"
  by (simp add: route_callback_def callback_routes_def py_startswith_def)

subsection \<open>The plan tables\<close>

lemma map_of_chat_amount_mapping:
  "(p, a) \<in> set chat_amount_mapping \<Longrightarrow> map_of chat_amount_mapping p = Some a"
  by (auto simp: chat_amount_mapping_def)

lemma chat_amount_mapping_pos: "(p, a) \<in> set chat_amount_mapping \<Longrightarrow> 0 < p"
  by (auto simp: chat_amount_mapping_def)

lemma match_amount_chat_plan:
  assumes "(p, a) \<in> set chat_amount_mapping"
  shows "match_amount (QCents (100 * int a)) = Inr (Some (100 * int a, nat p))"
  using assms by (auto simp: chat_amount_mapping_def match_amount_def amount_mapping_def)

lemma chat_plan_amount:
  assumes "(p, a) \<in> set chat_amount_mapping"
  shows "(100 * int a, nat p) \<in> set amount_mapping \<and> 100 * a < 10 ^ 28"
  using assms by (auto simp: chat_amount_mapping_def amount_mapping_def)

lemma py_str_plans: "py_str 30 = ''30''" "py_str 90 = ''90''" "py_str 180 = ''180''"
  by (simp_all add: note_eval)

lemma renew_payment_label_nat [simp]: "renew_payment_label u (int s) ts = renew_label u s ts"
  by (simp add: renew_payment_label_def renew_label_def)

subsection \<open>The purchase handlers on their own buttons\<close>

lemma process_renew_plan:
  assumes "(p, a) \<in> set chat_amount_mapping"
  shows "process_renew_subscription cfg u ts (''renew_'' @ py_str s @ ''_'' @ py_str_int p) =
    Inr [Reply (R_pay_renew p) [[Url_button (B_pay a)
      (generate_payment_link cfg a (renew_label u s ts) (renew_description p))]]]"
proof -
  have p: "py_str_int p = py_str (nat p)" using chat_amount_mapping_pos[OF assms] by (simp add: py_str_int_def)
  have sp: "py_split CHR ''_'' (''renew_'' @ py_str s @ ''_'' @ py_str_int p) = [''renew'', py_str s, py_str (nat p)]"
    by (simp add: p split_renew_button py_split_append_sep py_split_no_sep)
  have i: "py_int_parse (py_str (nat p)) = Inr p" using chat_amount_mapping_pos[OF assms] by simp
  show ?thesis
    using map_of_chat_amount_mapping[OF assms] chat_amount_mapping_pos[OF assms]
    unfolding process_renew_subscription_def sp by (simp add: i)
qed

lemma process_new_plan:
  assumes "(p, a) \<in> set chat_amount_mapping"
  shows "process_new_subscription cfg u ts (''new_subscribe_'' @ py_str_int p) =
    Inr [Reply (R_pay_new p) [[Url_button (B_pay a)
      (generate_payment_link cfg a (new_label u ts) (new_description p))]]]"
proof -
  have p: "py_str_int p = py_str (nat p)" using chat_amount_mapping_pos[OF assms] by (simp add: py_str_int_def)
  have sp: "py_split CHR ''_'' (''new_subscribe_'' @ py_str_int p) = [''new'', ''subscribe'', py_str (nat p)]"
    by (simp add: p py_split_append_sep py_split_no_sep)
  show ?thesis
    using map_of_chat_amount_mapping[OF assms] chat_amount_mapping_pos[OF assms]
    unfolding process_new_subscription_def sp by (simp add: py_index_def)
qed

lemma start_trial_button:
  "Cb_button B_test_vpn ''test_vpn'' \<in> set (menu_buttons (snd (start u us L))) \<longleftrightarrow> \<not> has_used_test u L"
  by (simp add: start_def start_keyboard_def menu_buttons_def py_insert_def Let_def)

lemma payment_link_query:
  "map_of (query_pairs (urlencode (payment_params cfg a lbl desc))) ''label'' = Some lbl \<and>
   map_of (query_pairs (urlencode (payment_params cfg a lbl desc))) ''sum'' = Some (py_str a)"
  by (simp add: query_pairs_urlencode payment_params_def)

lemma cents_string_rubles: "cents_string (100 * a) = py_str a @ ''.00''"
  by (simp add: cents_string_def digit_char_def char_of_eq_iff)

subsection \<open>Claims\<close>

text \<open>
  C29: The remaining time of \<open>handle_my_keys\<close>. Between one hour and one day before
  expiry the answer is "less than h hours" with h the whole number of hours left, rounded
  down: at least h hours remain, so the text understates the time it reports.
\<close>

theorem my_keys_hours_at_least:
  assumes "secs 3600 < e - now" "e - now \<le> secs 86400"
  shows "\<exists>h. time_left_text now e = R_hours_less h \<and> 1 \<le> h \<and> h \<le> 24 \<and>
           secs (int h * 3600) \<le> e - now \<and> e - now < secs ((int h + 1) * 3600)"
proof -
  define t where "t = e - now"
  have k: "secs 3600 = 3600000000" "secs 86400 = 86400000000" by (simp_all add: secs_def)
  have t1: "3600000000 < t" "t \<le> 86400000000" using assms by (simp_all add: t_def secs_def)
  have m: "t div 3600000000 * 3600000000 + t mod 3600000000 = t" by (rule div_mult_mod_eq)
  have r: "0 \<le> t mod 3600000000" "t mod 3600000000 < 3600000000" by simp_all
  have lo: "1 \<le> t div 3600000000" using t1 m r by linarith
  have hi: "t div 3600000000 \<le> 24" using t1 m r by linarith
  define h where "h = nat (t div 3600000000)"
  have h: "int h = t div 3600000000" using lo by (simp add: h_def)
  have b: "secs (int h * 3600) \<le> t" "t < secs ((int h + 1) * 3600)"
    using m r by (simp_all add: h secs_def)
  have "time_left_text now e = R_hours_less h"
    using t1 by (simp add: time_left_text_def Let_def t_def[symmetric] k h_def)
  then show ?thesis using b lo hi h unfolding t_def by (intro exI[of _ h]) linarith
qed

theorem my_keys_hours_at_least_witness:
  "secs 3600 < secs 5400 - 0 \<and> secs 5400 - 0 \<le> secs 86400 \<and>
   time_left_text 0 (secs 5400) = R_hours_less 1 \<and> secs (int 1 * 3600) \<le> secs 5400 - 0"
proof -
  have a: "secs 3600 < secs 5400 - 0" "secs 5400 - 0 \<le> secs 86400" by (simp_all add: secs_def)
  obtain h where h: "time_left_text 0 (secs 5400) = R_hours_less h" "1 \<le> h"
      "secs (int h * 3600) \<le> secs 5400 - 0" "secs 5400 - 0 < secs ((int h + 1) * 3600)"
    using my_keys_hours_at_least[OF a] by blast
  have "h = 1" using h(2-4) by (simp add: secs_def)
  then show ?thesis using a h by simp
qed

text \<open>
  C30: The /start menu and the trial handler agree: the menu offers the trial button
  exactly when pressing it (with no failures) creates a trial row, and once it has, the
  menu no longer offers it.
\<close>

theorem start_menu_offers_trial:
  assumes "faults w = []" "world_inv w"
  shows "Cb_button B_test_vpn ''test_vpn'' \<in> set (menu_buttons (snd (start u us (ledger w)))) \<longleftrightarrow>
    (\<exists>w'. handle_test_vpn u now st w = Inr w' \<and> length (subs (ledger w')) = Suc (length (subs (ledger w))) \<and>
          Cb_button B_test_vpn ''test_vpn'' \<notin> set (menu_buttons (snd (start u us' (ledger w')))))"
proof (cases "has_used_test u (ledger w)")
  case True
  then show ?thesis
    using assms by (simp add: start_trial_button handle_test_vpn_used send_message_ok)
next
  case False
  then show ?thesis
    using assms by (simp add: start_trial_button handle_test_vpn_ok has_used_test_def)
qed

theorem start_menu_offers_trial_witness:
  "faults (pay_world []) = [] \<and> world_inv (pay_world []) \<and>
   Cb_button B_test_vpn ''test_vpn'' \<in> set (menu_buttons (snd (start 42 [] (ledger (pay_world []))))) \<and>
   (\<exists>w'. handle_test_vpn 42 0 ''T'' (pay_world []) = Inr w' \<and>
      length (subs (ledger w')) = 2 \<and>
      Cb_button B_test_vpn ''test_vpn'' \<notin> set (menu_buttons (snd (start 42 [42] (ledger w')))))"
proof -
  have i: "world_inv (pay_world [])" by (rule world_inv_pay_world)
  have o: "Cb_button B_test_vpn ''test_vpn'' \<in> set (menu_buttons (snd (start 42 [] (ledger (pay_world [])))))"
    by (simp add: start_trial_button has_used_test_def)
  show ?thesis
    using start_menu_offers_trial[where w = "pay_world []" and u = 42 and us = "[]" and now = 0
        and st = "''T''" and us' = "[42]", OF _ i] o i by (simp add: numeral_2_eq_2)
qed

text \<open>
  C31: The three price tables agree. Every button of the new-key menu, "d days - a
  rubles", is routed to \<open>process_new_subscription\<close>, which answers with a payment
  button for a rubles whose link carries the user's purchase label, and a payment of
  exactly a rubles is matched by the webhook's plan table to d days.
\<close>

theorem buy_menu_matches_webhook_plans:
  "list_all (\<lambda>b. case b of
      Cb_button (B_plan d a) cb \<Rightarrow> route_callback cb = Some H_new_subscription \<and>
         process_new_subscription cfg u ts cb = Inr [Reply (R_pay_new (int d)) [[Url_button (B_pay a)
           (generate_payment_link cfg a (new_label u ts) (new_description (int d)))]]] \<and>
         match_amount (QCents (100 * int a)) = Inr (Some (100 * int a, d))
    | _ \<Rightarrow> False) (menu_buttons handle_buy_new_key)"
proof -
  have m: "(30, 200) \<in> set chat_amount_mapping" "(90, 500) \<in> set chat_amount_mapping"
    "(180, 1000) \<in> set chat_amount_mapping" by (simp_all add: chat_amount_mapping_def)
  show ?thesis
    using process_new_plan[OF m(1), of cfg u ts] process_new_plan[OF m(2), of cfg u ts]
      process_new_plan[OF m(3), of cfg u ts] match_amount_chat_plan[OF m(1)]
      match_amount_chat_plan[OF m(2)] match_amount_chat_plan[OF m(3)]
    by (simp add: menu_buttons_def handle_buy_new_key_def py_str_int_def py_str_plans
        route_new_subscribe[of "''30''", simplified] route_new_subscribe[of "''90''", simplified]
        route_new_subscribe[of "''180''", simplified])
qed

text \<open>
  C32: The renewal menus round-trip. The "renew" button reaches
  \<open>handle_renew_subscription\<close> (not the \<open>renew_\<close> prefix handler registered after it),
  a "choose subscription" button reaches \<open>handle_choose_subscription\<close> and reads back
  its row id, and every period button of \<open>choose_renewal_period\<close> reaches
  \<open>process_renew_subscription\<close>, which reads back the row id and the period and answers
  with a link for the plan's price labelled \<open>renew_{user}_{row}_{ts}\<close>.
\<close>

theorem renewal_menu_roundtrip:
  "route_callback ''renew_subscription'' = Some H_renew_subscription \<and>
   route_callback (''choose_sub_'' @ py_str s) = Some H_choose_subscription \<and>
   handle_choose_subscription (''choose_sub_'' @ py_str s) = Inr (choose_renewal_period (int s)) \<and>
   list_all (\<lambda>b. case b of
      Cb_button (B_plan d a) cb \<Rightarrow> route_callback cb = Some H_renew \<and>
        process_renew_subscription cfg u ts cb = Inr [Reply (R_pay_renew (int d)) [[Url_button (B_pay a)
          (generate_payment_link cfg a (renew_label u s ts) (renew_description (int d)))]]]
    | _ \<Rightarrow> False) (menu_buttons (choose_renewal_period (int s)))"
proof -
  have m: "(30, 200) \<in> set chat_amount_mapping" "(90, 500) \<in> set chat_amount_mapping"
    "(180, 1000) \<in> set chat_amount_mapping" by (simp_all add: chat_amount_mapping_def)
  have b: "menu_buttons (choose_renewal_period (int s)) =
      [Cb_button (B_plan 30 200) (''renew_'' @ py_str s @ ''_'' @ py_str_int 30),
       Cb_button (B_plan 90 500) (''renew_'' @ py_str s @ ''_'' @ py_str_int 90),
       Cb_button (B_plan 180 1000) (''renew_'' @ py_str s @ ''_'' @ py_str_int 180)]"
    by (simp add: menu_buttons_def choose_renewal_period_def py_str_int_def py_str_plans)
  show ?thesis
    unfolding b
    using process_renew_plan[OF m(1), of cfg u ts s] process_renew_plan[OF m(2), of cfg u ts s]
      process_renew_plan[OF m(3), of cfg u ts s] route_renew_button route_renew_subscription
      route_choose_sub handle_choose_sub
    by (simp only: list.pred_inject button.case btext.case of_nat_numeral simp_thms)
qed

text \<open>
  C33: The purchase flow end to end. A user presses the plan button of p days; the bot
  answers with a payment link; the gateway reads the label and the sum back from the
  link's query and, once paid, calls the webhook with that label and that sum as the
  amount withdrawn. The webhook then answers OK, adds one row for that user expiring in
  p days whose key is new on the server, and sends the user its access URL.
\<close>

theorem purchase_flow_new_key:
  assumes plan: "(p, a) \<in> set chat_amount_mapping"
    and link: "process_new_subscription cfg u ts (''new_subscribe_'' @ py_str_int p) =
               Inr [Reply r [[Url_button b (quickpay_url @ q)]]]"
    and lbl: "map_of (query_pairs q) ''label'' = Some (label n)"
    and sm: "map_of (query_pairs q) ''sum'' = Some sm" "withdraw_amount n = sm @ ''.00''"
    and gate: "signature_ok digest secret n" "\<not> operation_processed (operation_id n) (ledger w)"
      "faults w = []" "world_inv w"
  shows "\<exists>w'. yoomoney_notification digest secret now st n w = Inr (''OK'', w') \<and>
     get_subscriptions u (ledger w') = get_subscriptions u (ledger w) @
       [\<lparr>sub_id = next_id (ledger w), user_id = u, key_id = next_key (remote w),
         access_url = key_url (next_key (remote w)), expires_at = now + days p,
         notified_5_days = False, notified_1_day = False, notified_expired = False\<rparr>] \<and>
     (u, Msg_access_url (key_url (next_key (remote w)))) \<in> set (outbox w')"
proof -
  have q: "q = urlencode (payment_params cfg a (new_label u ts) (new_description p))"
    using link process_new_plan[OF plan, of cfg u ts] by (simp add: generate_payment_link_def)
  have l: "label n = new_label u ts" and w: "withdraw_amount n = cents_string (100 * a)"
    using lbl sm payment_link_query[of cfg a "new_label u ts" "new_description p"]
    by (simp_all add: q cents_string_rubles)
  have pa: "paid_amount n = Some (QCents (int (100 * a)))"
    using chat_plan_amount[OF plan] by (intro paid_amount_cents_string[OF w]) simp
  have m: "(100 * int a, nat p) \<in> set amount_mapping" using chat_plan_amount[OF plan] by simp
  have d: "int (nat p) = p" using chat_amount_mapping_pos[OF plan] by simp
  show ?thesis
    using yoomoney_new_ok[OF gate(1,2) l pa m _ gate(3,4), of now st] d
    by (simp add: get_subscriptions_def)
qed

theorem purchase_flow_new_key_witness:
  "\<exists>w'. yoomoney_notification id ''s3cr3t'' 1000 ''T'' (signed_note ''op1'' ''42_1700000000'' ''500.00'')
      (pay_world []) = Inr (''OK'', w') \<and>
    get_subscriptions 42 (ledger w') = get_subscriptions 42 (ledger (pay_world [])) @
      [\<lparr>sub_id = 2, user_id = 42, key_id = 8, access_url = key_url 8, expires_at = 1000 + days 90,
        notified_5_days = False, notified_1_day = False, notified_expired = False\<rparr>] \<and>
    (42, Msg_access_url (key_url 8)) \<in> set (outbox w')"
proof -
  let ?cfg = "\<lparr>yoomoney_wallet = ''4100'', notification_url = ''https://vpn.example/yoomoney_notification''\<rparr>"
  let ?q = "urlencode (payment_params ?cfg 500 (new_label 42 1700000000) (new_description 90))"
  let ?n = "signed_note ''op1'' ''42_1700000000'' ''500.00''"
  have plan: "(90, 500) \<in> set chat_amount_mapping" by (simp add: chat_amount_mapping_def)
  have link: "process_new_subscription ?cfg 42 1700000000 (''new_subscribe_'' @ py_str_int 90) =
      Inr [Reply (R_pay_new 90) [[Url_button (B_pay 500) (quickpay_url @ ?q)]]]"
    using process_new_plan[OF plan] by (simp add: generate_payment_link_def)
  have l: "label ?n = new_label 42 1700000000"
    by (simp add: signed_note_def new_label_def py_str.simps eq_digit_char_iff)
  have q: "map_of (query_pairs ?q) ''label'' = Some (label ?n)" "map_of (query_pairs ?q) ''sum'' = Some (py_str 500)"
    using payment_link_query l by simp_all
  have wa: "withdraw_amount ?n = py_str 500 @ ''.00''" by (simp add: note_eval)
  have s: "signature_ok id ''s3cr3t'' ?n" by (simp add: note_eval)
  have o: "\<not> operation_processed (operation_id ?n) (ledger (pay_world []))" by (simp add: note_eval)
  show ?thesis
    using purchase_flow_new_key[OF plan link q(1) q(2) wa s o _ world_inv_pay_world, of 1000 "''T''"]
    by simp
qed

text \<open>
  C34: The error paths of the renewal callback, on data that the router's
  \<open>renew_\<close> filter sends to it: a period outside the table is answered "invalid
  period", a part that is not an integer raises \<open>ValueError\<close> out of the handler,
  and data with more than three parts is answered "invalid renewal data".
\<close>

theorem renew_callback_errors:
  assumes "map_of chat_amount_mapping p = None"
  shows "route_callback (''renew_'' @ py_str s @ ''_'' @ py_str_int p) = Some H_renew \<and>
         process_renew_subscription cfg u ts (''renew_'' @ py_str s @ ''_'' @ py_str_int p) =
           Inr [Reply R_bad_period []] \<and>
         route_callback (''renew_'' @ py_str s @ ''_x'') = Some H_renew \<and>
         process_renew_subscription cfg u ts (''renew_'' @ py_str s @ ''_x'') = Inl ValueError \<and>
         route_callback (''renew_'' @ py_str s @ ''_'' @ py_str_int p @ ''_0'') = Some H_renew \<and>
         process_renew_subscription cfg u ts (''renew_'' @ py_str s @ ''_'' @ py_str_int p @ ''_0'') =
           Inr [Reply R_bad_renew_data []]"
proof -
  have ns: "CHR ''_'' \<notin> set (py_str_int p)" by (simp add: py_str_int_def)
  have x: "py_int_parse ''x'' = Inl ValueError"
    by (simp add: py_int_parse_def py_strip_def py_isspace_def py_isdigit_def is_digit_def)
  have r: "route_callback (''renew_'' @ py_str s @ ''_'' @ py_str_int p) = Some H_renew"
    "route_callback (''renew_'' @ py_str s @ ''_'' @ ''x'') = Some H_renew"
    "route_callback (''renew_'' @ py_str s @ ''_'' @ (py_str_int p @ ''_0'')) = Some H_renew"
    by (rule route_renew_button)+
  show ?thesis
    using assms ns x r
    by (simp add: process_renew_subscription_def py_split_append_sep py_split_no_sep)
qed

theorem renew_callback_errors_witness:
  "map_of chat_amount_mapping 45 = None \<and>
   process_renew_subscription \<lparr>yoomoney_wallet = [], notification_url = []\<rparr> 42 0
     (''renew_'' @ py_str 5 @ ''_'' @ py_str_int 45) = Inr [Reply R_bad_period []]"
proof -
  have "map_of chat_amount_mapping 45 = None" by (simp add: chat_amount_mapping_def)
  then show ?thesis using renew_callback_errors by blast
qed

end
