(* ===== verification/Dispatch.thy ===== *)
theory Dispatch
  imports System Chat
begin

text \<open>
  The bot's polling loop, \<open>dp.start_polling(bot)\<close> of \<open>main.py\<close>, joined to the system
  of theory \<open>System\<close>. A \<open>bot\<close> state is the system, the users table of
  \<open>add_user\<close> and the chat log of the answers sent. An update is a \<open>/start\<close> message
  or a callback query; the dispatcher routes a callback with \<open>route_callback\<close> to its
  handler. An exception a handler raises is logged by the dispatcher and the update is
  dropped, with nothing answered (the parsers raise before any answer). A press of the
  test button is the system event \<open>Ev_trial\<close>; every other update only reads the
  ledger. The lemmas show that only the test button changes the shared world, and that
  the callback data of every button the bot sends is routed and fits Telegram's limit
  of 64 bytes for row ids that are SQLite rowids (below \<open>2^63\<close>).
\<close>

record bot =
  bot_sys :: system
  bot_users :: "uid list"
  chat_log :: "(uid \<times> reply) list"

datatype update =
    Up_start uid                            \<comment> \<open>the \<open>/start\<close> command of a user\<close>
  | Up_callback uid time nat string string  \<comment> \<open>user, clock, its timestamp, its ISO stamp, data\<close>

definition answer :: "uid \<Rightarrow> reply list \<Rightarrow> bot \<Rightarrow> bot" where
  "answer u rs B = B\<lparr>chat_log := chat_log B @ map (Pair u) rs\<rparr>"

definition answer_res :: "uid \<Rightarrow> exn + reply list \<Rightarrow> bot \<Rightarrow> bot" where
  "answer_res u r B = (case r of Inl _ \<Rightarrow> B | Inr rs \<Rightarrow> answer u rs B)"

definition on_callback ::
  "chat_config \<Rightarrow> (string \<Rightarrow> string) \<Rightarrow> string \<Rightarrow> uid \<Rightarrow> time \<Rightarrow> nat \<Rightarrow> string \<Rightarrow> string \<Rightarrow> bot \<Rightarrow> bot" where
  "on_callback cfg digest secret u now ts st d B =
     (let L = ledger (sys_world (bot_sys B)) in
      case route_callback d of
        None \<Rightarrow> B
      | Some H_instruction \<Rightarrow> answer u handle_instruction B
      | Some H_my_keys \<Rightarrow> answer u (handle_my_keys u now L) B
      | Some H_buy_new_key \<Rightarrow> answer u handle_buy_new_key B
      | Some H_renew_subscription \<Rightarrow> answer u (handle_renew_subscription u L) B
      | Some H_choose_subscription \<Rightarrow> answer_res u (handle_choose_subscription d) B
      | Some H_new_subscription \<Rightarrow> answer_res u (process_new_subscription cfg u ts d) B
      | Some H_renew \<Rightarrow> answer_res u (process_renew_subscription cfg u ts d) B
      | Some H_pay_subscription \<Rightarrow> answer u handle_pay_subscription B
      | Some H_test_vpn \<Rightarrow> B\<lparr>bot_sys := sys_event digest secret (Ev_trial u now st) (bot_sys B)\<rparr>)"

definition on_start :: "uid \<Rightarrow> bot \<Rightarrow> bot" where
  "on_start u B =
     (case start u (bot_users B) (ledger (sys_world (bot_sys B))) of
        (us, rs) \<Rightarrow> answer u rs (B\<lparr>bot_users := us\<rparr>))"

definition bot_update :: "chat_config \<Rightarrow> (string \<Rightarrow> string) \<Rightarrow> string \<Rightarrow> update \<Rightarrow> bot \<Rightarrow> bot" where
  "bot_update cfg digest secret up B =
     (case up of
        Up_start u \<Rightarrow> on_start u B
      | Up_callback u now ts st d \<Rightarrow> on_callback cfg digest secret u now ts st d B)"

text \<open>
  The type of callback data: Telegram accepts 1 to 64 bytes, and the dispatcher must
  have a handler for it. URL buttons carry no callback data.
\<close>

definition callback_typed :: "button \<Rightarrow> bool" where
  "callback_typed b =
     (case b of
        Cb_button _ d \<Rightarrow> route_callback d \<noteq> None \<and> d \<noteq> [] \<and> length d \<le> 64
      | Url_button _ _ \<Rightarrow> True)"

definition sqlite_rowids :: "ledger \<Rightarrow> bool" where
  "sqlite_rowids L \<longleftrightarrow> list_all (\<lambda>r. sub_id r < 2 ^ 63) (subs L)"

section \<open>Properties\<close>

subsection \<open>The chat only reads the stores\<close>

lemma answer_sys [simp]: "bot_sys (answer u rs B) = bot_sys B"
  by (simp add: answer_def)

lemma answer_res_sys [simp]: "bot_sys (answer_res u r B) = bot_sys B"
  by (simp add: answer_res_def split: sum.split)

lemma on_start_sys [simp]: "bot_sys (on_start u B) = bot_sys B"
  by (simp add: on_start_def split: prod.split)

lemma on_callback_sys:
  "bot_sys (on_callback cfg digest secret u now ts st d B) =
     (if route_callback d = Some H_test_vpn
      then sys_event digest secret (Ev_trial u now st) (bot_sys B) else bot_sys B)"
  by (simp add: on_callback_def Let_def split: option.split handler.split)

lemma bot_update_sys:
  "bot_sys (bot_update cfg digest secret up B) = bot_sys B \<or>
   (\<exists>ev. bot_sys (bot_update cfg digest secret up B) = sys_event digest secret ev (bot_sys B))"
  by (cases up) (auto simp: bot_update_def on_callback_sys)

subsection \<open>Callback data\<close>

lemma menu_buttons_append [simp]: "menu_buttons (xs @ ys) = menu_buttons xs @ menu_buttons ys"
  by (simp add: menu_buttons_def)

lemma menu_buttons_Cons [simp]: "menu_buttons (r # rs) = concat (reply_keyboard r) @ menu_buttons rs"
  by (simp add: menu_buttons_def)

lemma menu_buttons_Nil [simp]: "menu_buttons [] = []"
  by (simp add: menu_buttons_def)

lemma menu_buttons_plain: "menu_buttons (concat (map (\<lambda>r. [Reply (a r) [], Reply (b r) []]) ss)) = []"
  by (induction ss) simp_all

lemma py_str_rowid_length: "n < 2 ^ 63 \<Longrightarrow> length (py_str n) \<le> 19"
  by (rule length_py_str_le) simp_all

lemma callback_typed_const:
  "callback_typed (Cb_button t ''my_keys'')" "callback_typed (Cb_button t ''buy_new_key'')"
  "callback_typed (Cb_button t ''instruction'')" "callback_typed (Cb_button t ''test_vpn'')"
  "callback_typed (Cb_button t ''renew_subscription'')"
  "callback_typed (Cb_button t ''new_subscribe_30'')" "callback_typed (Cb_button t ''new_subscribe_90'')"
  "callback_typed (Cb_button t ''new_subscribe_180'')"
  by (simp_all add: callback_typed_def route_callback_def callback_routes_def py_startswith_def)

lemma callback_typed_choose_sub: "n < 2 ^ 63 \<Longrightarrow> callback_typed (Cb_button t (''choose_sub_'' @ py_str n))"
  using py_str_rowid_length[of n] route_choose_sub[of n] by (simp add: callback_typed_def)

lemma callback_typed_renew_period:
  "n < 2 ^ 63 \<Longrightarrow> length p \<le> 4 \<Longrightarrow> callback_typed (Cb_button t (''renew_'' @ py_str n @ ''_'' @ p))"
  using py_str_rowid_length[of n] route_renew_button[of n p] by (simp add: callback_typed_def)

lemma choose_renewal_period_typed:
  "n < 2 ^ 63 \<Longrightarrow> list_all callback_typed (menu_buttons (choose_renewal_period (int n)))"
  using callback_typed_renew_period[of n "''30''"] callback_typed_renew_period[of n "''90''"]
    callback_typed_renew_period[of n "''180''"]
  by (simp add: choose_renewal_period_def)

lemma handle_renew_subscription_typed:
  assumes "sqlite_rowids L"
  shows "list_all callback_typed (menu_buttons (handle_renew_subscription u L))"
proof -
  have ids: "\<forall>r\<in>set (get_subscriptions u L). sub_id r < 2 ^ 63"
    using assms by (auto simp: sqlite_rowids_def get_subscriptions_def list_all_iff)
  show ?thesis
  proof (cases "get_subscriptions u L")
    case Nil
    then show ?thesis by (simp add: handle_renew_subscription_def)
  next
    case (Cons r rs)
    then have r: "sub_id r < 2 ^ 63" using ids by simp
    show ?thesis
    proof (cases rs)
      case Nil
      then show ?thesis using Cons r choose_renewal_period_typed[OF r]
        by (simp add: handle_renew_subscription_def)
    next
      case (Cons r' rs')
      have "list_all callback_typed (concat (map (\<lambda>r. [Cb_button (B_key (last10 (access_url r)) (expires_at r))
                 (''choose_sub_'' @ py_str (sub_id r))]) (get_subscriptions u L)))"
      proof -
        have "\<forall>x\<in>set (get_subscriptions u L). callback_typed (Cb_button (B_key (last10 (access_url x)) (expires_at x))
                 (''choose_sub_'' @ py_str (sub_id x)))"
          using ids callback_typed_choose_sub by blast
        then show ?thesis by (simp add: list_all_iff)
      qed
      then show ?thesis using \<open>get_subscriptions u L = r # rs\<close> Cons
        by (simp add: handle_renew_subscription_def)
    qed
  qed
qed

lemma my_keys_typed: "list_all callback_typed (menu_buttons (handle_my_keys u now L))"
  by (simp add: handle_my_keys_def Let_def menu_buttons_plain callback_typed_const)

lemma start_typed: "list_all callback_typed (menu_buttons (snd (start u us L)))"
  by (simp add: start_def start_keyboard_def py_insert_def Let_def callback_typed_const)

lemma fixed_menus_typed:
  "list_all callback_typed (menu_buttons handle_instruction @ menu_buttons handle_buy_new_key @
     menu_buttons handle_pay_subscription)"
  by (simp add: handle_instruction_def handle_buy_new_key_def handle_pay_subscription_def callback_typed_const)

subsection \<open>Claims\<close>

text \<open>
  C23: The callback data the bot sends are well typed. As long as row ids are SQLite
  rowids (below \<open>2^63\<close>), every callback button of every chat answer, and of the
  period menu of every stored row, carries data that a handler of the dispatcher
  accepts and that is 1 to 64 bytes long, the range Telegram accepts.
\<close>

theorem chat_callback_data_typed:
  assumes "sqlite_rowids L"
  shows "list_all callback_typed
      (menu_buttons (snd (start u us L)) @ menu_buttons handle_instruction @
       menu_buttons (handle_my_keys u now L) @ menu_buttons handle_buy_new_key @
       menu_buttons (handle_renew_subscription u L) @ menu_buttons handle_pay_subscription) \<and>
    list_all (\<lambda>r. list_all callback_typed (menu_buttons (choose_renewal_period (int (sub_id r))))) (subs L)"
proof -
  have "list_all (\<lambda>r. list_all callback_typed (menu_buttons (choose_renewal_period (int (sub_id r))))) (subs L)"
    using assms choose_renewal_period_typed by (auto simp: sqlite_rowids_def list_all_iff)
  then show ?thesis
    using start_typed my_keys_typed fixed_menus_typed handle_renew_subscription_typed[OF assms]
    by simp
qed

theorem chat_callback_data_typed_witness:
  "sqlite_rowids (ledger (pay_world [])) \<and>
   list_all callback_typed (menu_buttons (handle_renew_subscription 42 (ledger (pay_world []))))"
proof -
  have s: "sqlite_rowids (ledger (pay_world []))" by (simp add: sqlite_rowids_def)
  show ?thesis using chat_callback_data_typed[OF s, of 42] s by simp
qed

end
