(* ===== verification/LogsBot.thy ===== *)
theory LogsBot
  imports PyStr "HOL-Library.Sublist"
begin

text \<open>
  The log monitor bot, \<open>logs_bot.py\<close>: a second Telegram bot whose \<open>/start\<close>
  answers whether the caller is the configured administrator, and whose task
  \<open>monitor_logs\<close> tails \<open>bot.log\<close> and forwards every new line that mentions a log
  level to the administrator's chat. Python values compared with \<open>==\<close> are a small
  \<open>pyval\<close> datatype (\<open>os.getenv\<close> returns a string or \<open>None\<close>, a Telegram id is an
  \<open>int\<close>). The \<open>while True\<close> loop is recursion over the list of values
  \<open>f.readline()\<close> returned, the empty string when nothing new was written; the sends
  consume a fault script like the world of theory \<open>Services\<close>, and a failed send is
  caught inside \<open>send_telegram_message\<close>. The Russian prefix of the alert is
  transliterated.
\<close>

subsection \<open>Authorization\<close>

datatype pyval = PInt int | PStr string | PNone

text \<open>Python's \<open>==\<close>: values of different types are never equal.\<close>

fun py_eq :: "pyval \<Rightarrow> pyval \<Rightarrow> bool" where
  "py_eq (PInt a) (PInt b) = (a = b)"
| "py_eq (PStr a) (PStr b) = (a = b)"
| "py_eq PNone PNone = True"
| "py_eq _ _ = False"

definition py_getenv :: "(string \<Rightarrow> string option) \<Rightarrow> string \<Rightarrow> pyval" where
  "py_getenv env k = (case env k of Some v \<Rightarrow> PStr v | None \<Rightarrow> PNone)"

text \<open>\<open>AUTHORIZED_USER_ID = CHAT_ID = os.getenv("CHAT_ID")\<close>.\<close>

definition authorized_user_id :: "(string \<Rightarrow> string option) \<Rightarrow> pyval" where
  "authorized_user_id env = py_getenv env ''CHAT_ID''"

definition is_authorized_user :: "(string \<Rightarrow> string option) \<Rightarrow> pyval \<Rightarrow> bool" where
  "is_authorized_user env user_id \<longleftrightarrow> py_eq user_id (authorized_user_id env)"

datatype start_reply = Logs_welcome | Logs_denied

text \<open>\<open>start(message)\<close> with \<open>message.from_user.id\<close>, an \<open>int\<close>.\<close>

definition logs_start :: "(string \<Rightarrow> string option) \<Rightarrow> int \<Rightarrow> start_reply" where
  "logs_start env u = (if is_authorized_user env (PInt u) then Logs_welcome else Logs_denied)"

subsection \<open>The monitor loop\<close>

text \<open>\<open>needle in line\<close> on strings.\<close>

fun py_in :: "string \<Rightarrow> string \<Rightarrow> bool" where
  "py_in n [] \<longleftrightarrow> n = []"
| "py_in n (c # cs) \<longleftrightarrow> py_startswith (c # cs) n \<or> py_in n cs"

definition is_alert_line :: "string \<Rightarrow> bool" where
  "is_alert_line l \<longleftrightarrow>
     py_in ''ERROR'' l \<or> py_in ''INFO'' l \<or> py_in ''WARNING'' l \<or> py_in ''WARN'' l"

definition alert_text :: "string \<Rightarrow> string" where
  "alert_text l = ''Novoe soobshchenie v loge: '' @ py_strip l"

record monitor =
  sent :: "string list"      \<comment> \<open>messages delivered to \<open>CHAT_ID\<close>\<close>
  mfaults :: "bool list"     \<comment> \<open>the outcome of each \<open>bot.send_message\<close>\<close>

text \<open>\<open>send_telegram_message(text)\<close>: a failure is logged and swallowed.\<close>

definition send_telegram_message :: "string \<Rightarrow> monitor \<Rightarrow> monitor" where
  "send_telegram_message t m =
     (case mfaults m of
        [] \<Rightarrow> m\<lparr>sent := sent m @ [t]\<rparr>
      | f # fs \<Rightarrow> if f then m\<lparr>mfaults := fs\<rparr> else m\<lparr>sent := sent m @ [t], mfaults := fs\<rparr>)"

text \<open>One iteration per \<open>f.readline()\<close>, then \<open>asyncio.sleep(1)\<close>.\<close>

fun monitor_logs :: "string list \<Rightarrow> monitor \<Rightarrow> monitor" where
  "monitor_logs [] m = m"
| "monitor_logs (line # ls) m =
     monitor_logs ls (if line \<noteq> [] \<and> is_alert_line line then send_telegram_message (alert_text line) m else m)"

subsection \<open>Reference behaviour\<close>

text \<open>The alert lines among those read, and which of them get through the faults.\<close>

definition alert_lines :: "string list \<Rightarrow> string list" where
  "alert_lines ls = filter (\<lambda>l. l \<noteq> [] \<and> is_alert_line l) ls"

fun delivered :: "'a list \<Rightarrow> bool list \<Rightarrow> 'a list" where
  "delivered [] fs = []"
| "delivered (a # as) [] = a # as"
| "delivered (a # as) (f # fs) = (if f then delivered as fs else a # delivered as fs)"

section \<open>Properties\<close>

lemma py_startswith_prefix: "py_startswith s n \<longleftrightarrow> prefix n s"
proof
  assume "py_startswith s n"
  then have "s = n @ drop (length n) s" by (metis py_startswith_def append_take_drop_id)
  then show "prefix n s" by (rule prefixI)
next
  assume "prefix n s"
  then obtain z where "s = n @ z" by (auto simp: prefix_def)
  then show "py_startswith s n" by (simp add: py_startswith_def)
qed

lemma delivered_no_faults [simp]: "delivered as [] = as"
  by (cases as) simp_all

lemma py_in_sublist: "py_in n h \<longleftrightarrow> sublist n h"
proof (induction h)
  case Nil
  then show ?case by simp
next
  case (Cons c cs)
  have "sublist n (c # cs) \<longleftrightarrow> prefix n (c # cs) \<or> sublist n cs" by (rule sublist_Cons_right)
  then show ?case using Cons.IH by (simp only: py_in.simps py_startswith_prefix)
qed

lemma monitor_logs_sent:
  "sent (monitor_logs ls m) = sent m @ map alert_text (delivered (alert_lines ls) (mfaults m))"
proof (induction ls arbitrary: m)
  case Nil
  then show ?case by (simp add: alert_lines_def)
next
  case (Cons l ls)
  then show ?case
    by (cases "mfaults m") (auto simp: alert_lines_def send_telegram_message_def)
qed

lemma delivered_append:
  "length fs \<le> length as \<Longrightarrow> delivered (as @ bs) fs = delivered as fs @ bs"
  by (induction as fs rule: delivered.induct) auto

lemma alert_lines_append [simp]: "alert_lines (xs @ ys) = alert_lines xs @ alert_lines ys"
  by (simp add: alert_lines_def)

lemma is_alert_line_sublist:
  "is_alert_line l \<longleftrightarrow> sublist ''ERROR'' l \<or> sublist ''INFO'' l \<or> sublist ''WARN'' l"
proof -
  have "sublist ''WARN'' ''WARNING''" unfolding sublist_def by (intro exI[of _ "[]"] exI[of _ "''ING''"]) simp
  then have "sublist ''WARNING'' l \<Longrightarrow> sublist ''WARN'' l" using sublist_order.order_trans by blast
  then show ?thesis by (auto simp: is_alert_line_def py_in_sublist)
qed

subsection \<open>Claims\<close>

text \<open>
  C35: The administrator check of the log bot never succeeds. \<open>CHAT_ID\<close> is read with
  \<open>os.getenv\<close>, a string or \<open>None\<close>, and compared with \<open>==\<close> against the caller's
  Telegram id, an \<open>int\<close>; so whatever the environment and whoever calls, \<open>/start\<close>
  answers that the caller has no access.
\<close>

theorem logs_start_always_denied: "logs_start env u = Logs_denied"
proof -
  have "\<not> py_eq (PInt u) (py_getenv env ''CHAT_ID'')"
    by (cases "env ''CHAT_ID''") (simp_all add: py_getenv_def)
  then show ?thesis by (simp add: logs_start_def is_authorized_user_def authorized_user_id_def)
qed

text \<open>
  C36: The monitor outlives failed sends. A send failure is swallowed, the loop goes on,
  and once the failures of the script are used up every later line that mentions
  \<open>ERROR\<close>, \<open>INFO\<close> or \<open>WARN\<close> is forwarded, in order, with its whitespace stripped;
  blank reads forward nothing.
\<close>

theorem monitor_survives_send_failures:
  assumes "length fs \<le> length (alert_lines ls1)"
  shows "sent (monitor_logs (ls1 @ ls2) \<lparr>sent = [], mfaults = fs\<rparr>) =
    map alert_text (delivered (alert_lines ls1) fs) @ map alert_text (alert_lines ls2)"
  using assms by (simp add: monitor_logs_sent delivered_append)

theorem monitor_survives_send_failures_witness:
  "length [True] \<le> length (alert_lines [''x ERROR a'']) \<and>
   sent (monitor_logs ([''x ERROR a''] @ [[], ''x INFO b'', ''plain''])
      \<lparr>sent = [], mfaults = [True]\<rparr>) = [alert_text ''x INFO b'']"
proof -
  have a: "alert_lines [''x ERROR a''] = [''x ERROR a'']"
    by (simp add: alert_lines_def is_alert_line_def py_startswith_def)
  have b: "alert_lines [[], ''x INFO b'', ''plain''] = [''x INFO b'']"
    by (simp add: alert_lines_def is_alert_line_def py_startswith_def)
  show ?thesis
    using monitor_survives_send_failures[of "[True]" "[''x ERROR a'']" "[[], ''x INFO b'', ''plain'']"] a b
    by simp
qed

end
