(* ===== verification/Spec2Isabelle.thy ===== *)
theory Spec2Isabelle
  imports Dispatch LogsBot
begin

text \<open>
  \<^bold>\<open>A verification library for hrvpn.\<close>
  The program sells time-limited VPN keys through a Telegram bot: it keeps a SQLite
  ledger of subscriptions, test usages and purchases (\<open>db.py\<close>, not in the sources),
  creates and deletes keys on an Outline server (\<open>vpn_manager.py\<close> and the
  \<open>outline_vpn\<close> client), takes payments through a YooMoney webhook
  (\<open>telegram_bot.yoomoney_notification\<close>), and runs two background loops
  (\<open>tasks.check_subscriptions\<close>, the sweeper, and \<open>tasks.sync_keys\<close>, the
  reconciliation). All of them share the ledger and the server; they talk to users through
  \<open>bot.send_message\<close> and \<open>message.answer\<close>.

  \<^bold>\<open>The world.\<close> A state of the system is a \<open>world\<close> (theory \<open>Services\<close>): the
  ledger (record \<open>ledger\<close> of theory \<open>Ledger\<close>: the rows of \<open>subscriptions\<close>,
  \<open>test_usage\<close> and \<open>purchase_history\<close> and the next rowid), the server's keys
  (\<open>remote\<close>), the messages sent so far (\<open>outbox\<close>), and a fault script
  (\<open>faults\<close>). Every call to the server or to Telegram consumes the head of the script
  and raises when it is \<open>True\<close>, so a theorem quantified over all worlds covers every
  pattern of failures, and \<open>faults w = []\<close> is a run where nothing fails. A handler or a
  cycle returns an \<open>outcome\<close>: \<open>Inr\<close> of the final world, or \<open>Inl\<close> of the exception
  that escapes it with the world at that moment. Times are integers of microseconds;
  the clock is an argument of each operation.

  \<^bold>\<open>Theories.\<close>
  \<^item> \<open>Prelude\<close>: identifiers, \<open>secs\<close>/\<open>days\<close>, the exceptions, and the row-wise
    \<open>update_where\<close>/\<open>delete_where\<close> into which the SQL statements translate.
  \<^item> \<open>PyStr\<close>, \<open>PyDecimal\<close>: the Python built-ins the handlers use (\<open>split\<close>,
    \<open>join\<close>, \<open>isdigit\<close>, \<open>int\<close>, \<open>str\<close>, \<open>strip\<close>, \<open>replace\<close>) and
    \<open>decimal.Decimal\<close> with \<open>quantize\<close> in the default context (precision 28,
    half-even), with the round trips \<open>py_int (py_str n) = n\<close>, split/join and
    \<open>parse_decimal (cents_string c)\<close>. Two predicates model digits:
    \<open>py_str_isdigit\<close> is \<open>str.isdigit\<close> on the characters the model has (the ASCII
    digits and the superscripts U+00B2, U+00B3 and U+00B9, which Python counts as
    digits), and \<open>py_isdigit\<close> the ASCII decimal strings that \<open>int()\<close> and
    \<open>Decimal()\<close> read; a string of the first kind but not the second makes \<open>int()\<close>
    raise \<open>ValueError\<close>.
  \<^item> \<open>Ledger\<close>: the tables as records; the \<open>db.py\<close> operations
    (\<open>save_subscription\<close>, \<open>extend_subscription\<close>, \<open>delete_subscription\<close>,
    \<open>save_purchase_history\<close>, \<open>get_subscriptions\<close>) modelled from section 3 and 6 of
    the specification, with their \<open>UNIQUE\<close> constraints as \<open>IntegrityError\<close>; the SQL
    statements written in the sources; the invariant \<open>ledger_wf\<close> and the relation
    \<open>rows_evolve\<close> (rows only lose rows and raise flags) with the lemmas that every
    operation keeps them.
  \<^item> \<open>Services\<close>: the Outline client and the Telegram sink (modelled from section 6),
    \<open>create_vpn_key_with_name\<close> of \<open>vpn_manager.py\<close>, the invariants
    \<open>keys_consistent\<close> (every ledger key is on the server), \<open>remote_wf\<close> (server ids
    are fresh) and their conjunction \<open>world_inv\<close>, and the frame lemmas of each call.
  \<^item> \<open>Sweeper\<close>: \<open>check_subscriptions\<close> as \<open>sweep_sub\<close> (one row: lines 23-91),
    \<open>sweep_rows\<close>/\<open>check_subscriptions_cycle\<close> (one pass over the snapshot) and
    \<open>sweeper_loop\<close> (the \<open>while True\<close> loop over a list of cycle times). Claims C1-C6:
    the cycle refines the per-row map \<open>sweep_spec\<close>, notices fire exactly once, the
    cycle keeps every ledger key on the server, a failed error message ends the task, the
    flags only rise, and \<open>notified_expired\<close> is never set on a stored row.
  \<^item> \<open>Reconcile\<close>: \<open>sync_keys\<close> as \<open>sync_keys_cycle\<close> and \<open>sync_keys_loop\<close>.
    Claims C7-C10: a cycle refines the intersection of the two key sets, is idempotent,
    restores \<open>keys_consistent\<close> whatever deletions fail, and a failed \<open>get_keys\<close>
    ends the task.
  \<^item> \<open>Payment\<close>: \<open>yoomoney_notification\<close> as the composition of its gates
    (\<open>signature_ok\<close>, \<open>operation_processed\<close>, \<open>paid_amount\<close>,
    \<open>match_amount\<close>, \<open>mismatch_notice\<close>) and routes (\<open>renew_branch\<close>,
    \<open>new_branch\<close>), and the label generators of the purchase flow. Claims C11-C22:
    bad signatures change nothing, retries are absorbed, the new-purchase scenario of the
    specification, additive renewal, non-OK answers leave the ledger alone,
    \<open>world_inv\<close> is kept under any failures, the plan comes from an unsigned field, a
    renewal of a missing row is accepted, NaN amounts, long renewal labels and user ids
    with superscript digits raise, and the amount round trip. The theory also shows that
    new labels get no mismatch notice. The renewal extends the row through
    \<open>extend_subscription(user_id, sub_id, days)\<close>; since \<open>db.py\<close> is absent, the
    model reads that call as the update of the row with both ids, which is what the
    arguments the webhook passes ask for (C18 depends on this reading).
  \<^item> \<open>Trial\<close>: \<open>handle_test_vpn\<close>. Claims C24-C27: a used trial is refused, a
    first trial grants one hour, a granted trial is always recorded, and a failed answer
    leaves a row whose key was deleted.
  \<^item> \<open>System\<close>: \<open>main.py\<close>, the tasks run together. A \<open>system\<close> is the world with
    a flag per background task (an exception escaping a loop ends its task for good);
    \<open>sys_event\<close> runs one sweeper cycle, reconciliation cycle, webhook call or trial
    request as one atomic step, and \<open>sys_run\<close> a schedule of them. Because events are
    atomic, no invariant of the whole interleaving is claimed: the \<open>await\<close>s inside a
    handler let other tasks run, and claim C28 shows what that allows. The
    interleaving of a reconciliation cycle at the \<open>await\<close> between key creation and
    \<open>save_subscription\<close> in the webhook leaves a paid row whose key is deleted, and the
    next cycle deletes the row.
  \<^item> \<open>PyUrl\<close>: \<open>urllib.parse.urlencode\<close> with \<open>quote_plus\<close> and its inverse
    \<open>query_pairs\<close> (the gateway's reading of the link), with the round trip
    \<open>query_pairs (urlencode ps) = ps\<close>.
  \<^item> \<open>Chat\<close>: the chat menus of \<open>telegram_bot.py\<close>: \<open>start\<close>,
    \<open>handle_instruction\<close>, \<open>handle_my_keys\<close> (with \<open>time_left_text\<close>),
    \<open>handle_buy_new_key\<close>, \<open>handle_renew_subscription\<close>,
    \<open>handle_choose_subscription\<close>, \<open>process_new_subscription\<close>,
    \<open>process_renew_subscription\<close>, \<open>handle_pay_subscription\<close>,
    \<open>choose_renewal_period\<close> and \<open>generate_payment_link\<close>, each the list of its
    answers (text and keyboard) or the exception its parse of the callback data raises,
    and the dispatcher's first-match router \<open>route_callback\<close> over the handlers in
    registration order. Claims C29-C34: the "less than h hours" answer reports a lower
    bound; the /start menu offers the trial exactly when the trial handler would grant
    it; the menu prices, the purchase handlers' table and the webhook's plan table
    agree; the renewal menus round-trip through the router and the parsers; the whole
    purchase, from the plan button through the link the gateway reads back to the
    webhook, creates the row of the chosen length; and the renewal callback's answers
    to an unknown period, a non-numeric period and extra parts.
  \<^item> \<open>Dispatch\<close>: the polling loop \<open>dp.start_polling\<close> of \<open>main.py\<close> on top of
    \<open>System\<close>: a \<open>bot\<close> state (system, users table, chat log), and \<open>bot_update\<close>
    runs a \<open>/start\<close> or routes a callback query to its handler (a handler's exception
    drops the update; the test button is the event \<open>Ev_trial\<close>). Claim C23: the
    callback data of every button the chat sends is accepted by a handler and is 1 to 64
    bytes long (Telegram's limit) while row ids are SQLite rowids.
  \<^item> \<open>LogsBot\<close>: \<open>logs_bot.py\<close>: \<open>is_authorized_user\<close>, its \<open>start\<close> and the
    \<open>monitor_logs\<close> loop over the lines read, with a fault script for its sends.
    Claims C35-C36: the administrator check never succeeds (an \<open>int\<close> id against the
    string of \<open>os.getenv\<close>); a failed send is swallowed and every later alert line is
    still forwarded.

  \<^bold>\<open>Bounds and fuel.\<close> No loop of the sources needs fuel: the two \<open>while True\<close>
  loops are modelled by recursion over a finite list of cycle times or a cycle count,
  each cycle is structural recursion over a finite snapshot, and the handlers are
  straight-line code. The decimal model bounds coefficients by the context's 28 digits,
  which \<open>quantize\<close> enforces.

  \<^bold>\<open>Not modelled.\<close> Events of \<open>System\<close> run whole; the one finer interleaving
  modelled is the reconciliation inside the webhook's new-subscription route (C28).
  Chat updates are whole steps of \<open>Dispatch\<close>; their answers are not fault-injected,
  and dates are not rendered (\<open>strftime\<close>). \<open>db.py\<close> is not in the sources, so
  the ledger operations are modelled from the specification (the Ledger Store is
  partly modelled for that reason), and the module-level configuration of each file
  (environment variables, logging setup, the Outline client object) is not modelled. Logging, the HTTP and Telegram transports, the text of the
  instruction message, SHA-1 itself (a parameter) and the SQLite engine are outside the
  model.
\<close>

end
